theory Spec2Isabelle
  imports Main
begin

section \<open>Python values, exceptions and results\<close>

text \<open>
  The development embeds the module \<^verbatim>\<open>vignette/__init__.py\<close> (the thumbnail store) and,
  where both define a function of the same name, the older single-file module
  \<^verbatim>\<open>thumbnail.py\<close>. The store is read as Python 3, the older module as the Python 2 it
  is written in. A Python \<^verbatim>\<open>str\<close> is a \<^typ>\<open>string\<close> whose characters are the code
  points below 256; an exception is a value of a sum type, on the left. \<^verbatim>\<open>IOError\<close> and
  its subclasses are \<open>OSError\<close>, as in Python 3; the functions embedded from the older
  module catch neither, so one value stands for both there too.
\<close>

datatype pyerr = ValueError | TypeError | KeyError | AttributeError | OSError | OverflowError

datatype pyval = PyInt int | PyStr string

definition ebind :: "pyerr + 'a \<Rightarrow> ('a \<Rightarrow> pyerr + 'b) \<Rightarrow> pyerr + 'b" where
  "ebind m f = (case m of Inl e \<Rightarrow> Inl e | Inr v \<Rightarrow> f v)"

section \<open>Size arguments\<close>

text \<open>
  \<^verbatim>\<open>_any2size\<close> returns a pair for the six aliases and a bare integer for the other
  numbers of the two ranges; its callers subscript the result with \<^verbatim>\<open>[0]\<close> or \<^verbatim>\<open>[1]\<close>,
  which raises \<open>TypeError\<close> on a bare integer. Comparing a \<^verbatim>\<open>str\<close> with \<open>0\<close> raises
  \<open>TypeError\<close> too.
\<close>

datatype sizeinfo = SizePair int string | SizeBare int

definition any2size :: "pyval \<Rightarrow> pyerr + sizeinfo" where
  "any2size sz =
     (if sz = PyStr ''normal'' \<or> sz = PyInt 128 \<or> sz = PyStr ''128''
        then Inr (SizePair 128 ''normal'')
      else if sz = PyStr ''large'' \<or> sz = PyInt 256 \<or> sz = PyStr ''256''
        then Inr (SizePair 256 ''large'')
      else (case sz of
              PyStr s \<Rightarrow> Inl TypeError
            | PyInt n \<Rightarrow>
                if 0 < n \<and> n \<le> 128 then Inr (SizeBare 128)
                else if 128 < n \<and> n \<le> 256 then Inr (SizeBare 256)
                else Inl ValueError))"

definition subscript0 :: "sizeinfo \<Rightarrow> pyerr + int" where
  "subscript0 r = (case r of SizePair px name \<Rightarrow> Inr px | SizeBare n \<Rightarrow> Inl TypeError)"

definition subscript1 :: "sizeinfo \<Rightarrow> pyerr + string" where
  "subscript1 r = (case r of SizePair px name \<Rightarrow> Inr name | SizeBare n \<Rightarrow> Inl TypeError)"

text \<open>
  The older module's \<^verbatim>\<open>_any2size\<close>: the aliases, then \<^verbatim>\<open>int(size)\<close> inside a
  \<^verbatim>\<open>try\<close> that swallows \<open>ValueError\<close>; every other path falls off the end and returns
  \<^verbatim>\<open>None\<close>. \<^verbatim>\<open>int\<close> of a string is left as a parameter.
\<close>

definition legacy_any2size :: "(string \<Rightarrow> pyerr + int) \<Rightarrow> pyval \<Rightarrow> pyerr + (int \<times> string) option" where
  "legacy_any2size int_of_str sz =
     (if sz = PyStr ''large'' \<or> sz = PyInt 256 \<or> sz = PyStr ''256''
        then Inr (Some (256, ''large''))
      else if sz = PyStr ''normal'' \<or> sz = PyInt 128 \<or> sz = PyStr ''128''
        then Inr (Some (128, ''normal''))
      else (case (case sz of PyInt n \<Rightarrow> Inr n | PyStr s \<Rightarrow> int_of_str s) of
              Inl ValueError \<Rightarrow> Inr None
            | Inl e \<Rightarrow> Inl e
            | Inr n \<Rightarrow> if 0 < n \<and> n \<le> 128 then Inr (Some (128, ''normal'')) else Inr None))"

section \<open>Paths and source references\<close>

type_synonym path = string

definition startswith :: "string \<Rightarrow> string \<Rightarrow> bool" where
  "startswith s p = (take (length p) s = p)"

definition path_join :: "path \<Rightarrow> path \<Rightarrow> path" where
  "path_join a b =
     (if startswith b ''/'' then b
      else if a = [] \<or> last a = CHR ''/'' then a @ b
      else a @ ''/'' @ b)"

definition rstrip_slash :: "string \<Rightarrow> string" where
  "rstrip_slash s = rev (dropWhile (\<lambda>c. c = CHR ''/'') (rev s))"

definition dirname :: "path \<Rightarrow> path" where
  "dirname p =
     (let head = rev (dropWhile (\<lambda>c. c \<noteq> CHR ''/'') (rev p))
      in if head \<noteq> [] \<and> head \<noteq> replicate (length head) CHR ''/''
         then rstrip_slash head else head)"

definition ascii_alpha :: "char \<Rightarrow> bool" where
  "ascii_alpha c =
     (let n = (of_char c :: nat) in (65 \<le> n \<and> n \<le> 90) \<or> (97 \<le> n \<and> n \<le> 122))"

definition ascii_digit :: "char \<Rightarrow> bool" where
  "ascii_digit c = (let n = (of_char c :: nat) in 48 \<le> n \<and> n \<le> 57)"

definition scheme_char :: "char \<Rightarrow> bool" where
  "scheme_char c =
     (ascii_alpha c \<or> ascii_digit c \<or> c = CHR ''.'' \<or> c = CHR ''+'' \<or> c = CHR ''-'')"

text \<open>
  \<^verbatim>\<open>URI_RE.match\<close> for \<^verbatim>\<open>[a-z][a-z0-9.+-]*:\<close> with \<^verbatim>\<open>re.I\<close>: anchored at the start of the
  string; the colon is not in the repeated class, so the match succeeds exactly when the
  longest run of class characters after the first letter is followed by a colon.
\<close>

definition URI_RE_match :: "string \<Rightarrow> bool" where
  "URI_RE_match s =
     (case s of
        [] \<Rightarrow> False
      | c # cs \<Rightarrow>
          ascii_alpha c \<and>
          (case dropWhile scheme_char cs of [] \<Rightarrow> False | d # ds \<Rightarrow> d = CHR '':''))"

text \<open>
  The older module's \<^verbatim>\<open>_URI_RE\<close> is \<^verbatim>\<open>[a-zA-Z0-9.+-]+:\<close>: one or more class characters,
  the first of any kind, then a colon.
\<close>

definition legacy_URI_RE_match :: "string \<Rightarrow> bool" where
  "legacy_URI_RE_match s =
     (case s of
        [] \<Rightarrow> False
      | c # cs \<Rightarrow>
          scheme_char c \<and>
          (case dropWhile scheme_char cs of [] \<Rightarrow> False | d # ds \<Rightarrow> d = CHR '':''))"

text \<open>
  What the module takes from the Python library and the process environment: the value of
  \<^verbatim>\<open>os.getenv('XDG_CACHE_HOME', os.path.expanduser('~/.cache'))\<close>, \<^verbatim>\<open>os.path.normpath\<close>,
  \<^verbatim>\<open>os.path.abspath\<close>, \<^verbatim>\<open>pathname2url\<close>, the hexadecimal MD5 digest of the UTF-8 encoding
  of a string, \<^verbatim>\<open>int(float(s))\<close> on a string (it raises \<open>ValueError\<close> on what is not a
  number and \<open>OverflowError\<close> on an infinity), which imaging toolkits can be imported, the
  pixel size a toolkit gives an image scaled into a box, and the byte size of an encoded
  PNG file.
\<close>

datatype backend = QtBackend | MagickBackend | PilBackend

datatype parse_error = NotANumber | Infinite

record env =
  xdg_cache_home :: string
  normpath :: "path \<Rightarrow> path"
  abspath :: "path \<Rightarrow> path"
  pathname2url :: "path \<Rightarrow> string"
  md5_hexdigest :: "string \<Rightarrow> string"
  int_float_str :: "string \<Rightarrow> parse_error + int"
  is_available :: "backend \<Rightarrow> bool"
  resized :: "backend \<Rightarrow> int \<Rightarrow> nat \<times> nat \<Rightarrow> nat \<times> nat"
  encoded_size :: "nat \<times> nat \<Rightarrow> (string \<rightharpoonup> string) \<Rightarrow> nat"

definition any2uri :: "env \<Rightarrow> string \<Rightarrow> string" where
  "any2uri E sth =
     (if URI_RE_match sth then sth else ''file://'' @ pathname2url E (abspath E sth))"

definition legacy_any2uri :: "env \<Rightarrow> string \<Rightarrow> string" where
  "legacy_any2uri E sth =
     (if legacy_URI_RE_match sth then sth else ''file://'' @ abspath E sth)"

definition thumb_path_prefix :: "env \<Rightarrow> path" where
  "thumb_path_prefix E = path_join (normpath E (xdg_cache_home E)) ''thumbnails''"

definition hash_name :: "env \<Rightarrow> string \<Rightarrow> string" where
  "hash_name E src = md5_hexdigest E (any2uri E src)"

definition build_thumbnail_path :: "env \<Rightarrow> string \<Rightarrow> pyval \<Rightarrow> pyerr + path" where
  "build_thumbnail_path E src sz =
     ebind (ebind (any2size sz) subscript1) (\<lambda>sizename.
       let prefix = path_join (thumb_path_prefix E) sizename
       in if startswith src (prefix @ ''/'') then Inr src
          else Inr (path_join prefix (hash_name E src @ ''.png'')))"


section \<open>Modification times and metadata dictionaries\<close>

definition KEY_URI :: string where "KEY_URI = ''Thumb::URI''"
definition KEY_MTIME :: string where "KEY_MTIME = ''Thumb::MTime''"
definition KEY_WIDTH :: string where "KEY_WIDTH = ''Thumb::Image::Width''"
definition KEY_HEIGHT :: string where "KEY_HEIGHT = ''Thumb::Image::Height''"
definition KEY_SIZE :: string where "KEY_SIZE = ''Thumb::Size''"

fun bit_length :: "nat \<Rightarrow> nat" where
  "bit_length n = (if n = 0 then 0 else Suc (bit_length (n div 2)))"

text \<open>
  \<^verbatim>\<open>int(float(m))\<close> for a Python integer \<open>m\<close>: the conversion to a double rounds to 53
  significant bits, ties to even, and raises \<open>OverflowError\<close> from \<open>2 ^ 1024\<close> on; the
  conversion back is exact.
\<close>

definition int_float :: "int \<Rightarrow> pyerr + int" where
  "int_float m =
     (let a = nat \<bar>m\<bar>; n = bit_length a
      in if n \<le> 53 then Inr m
         else
           (let e = n - 53; q = a div 2 ^ e; r = a mod 2 ^ e; half = 2 ^ (e - 1);
                q' = (if half < r \<or> (r = half \<and> odd q) then q + 1 else q)
            in if 2 ^ 1024 \<le> q' * 2 ^ e then Inl OverflowError
               else Inr (sgn m * int (q' * 2 ^ e))))"

definition digit_char :: "nat \<Rightarrow> char" where
  "digit_char d = char_of (48 + d)"

fun str_nat :: "nat \<Rightarrow> string" where
  "str_nat n = (if n < 10 then [digit_char n] else str_nat (n div 10) @ [digit_char (n mod 10)])"

definition str_int :: "int \<Rightarrow> string" where
  "str_int i = (if i < 0 then CHR ''-'' # str_nat (nat (- i)) else str_nat (nat i))"

section \<open>The file system\<close>

text \<open>
  A path names a node literally (no symbolic links, no relative lookup). A node is a
  directory, a file no toolkit can decode, or an image with its pixel size and embedded
  text. \<open>st_mtime\<close> is the modification time in whole seconds, what
  \<^verbatim>\<open>int(os.path.getmtime(p))\<close> returns. \<open>tmpnames\<close> are the random names
  \<^verbatim>\<open>tempfile.mkstemp\<close> will draw, \<open>clock\<close> the time a written file is stamped with, and
  \<open>trace\<close> the log of the operations that changed the file system.
\<close>

datatype content = Dir | Data | Image "nat \<times> nat" "string \<rightharpoonup> string"

record node =
  body :: content
  st_mtime :: int
  st_size :: nat

datatype fsop =
    Created path
  | Written path
  | Renamed path path
  | Moved path path
  | Chmod path nat
  | MadeDir path

record fsys =
  nodes :: "path \<rightharpoonup> node"
  tmpnames :: "string list"
  clock :: int
  trace :: "fsop list"

definition iobind ::
  "(pyerr + 'a) \<times> fsys \<Rightarrow> ('a \<Rightarrow> fsys \<Rightarrow> (pyerr + 'b) \<times> fsys) \<Rightarrow> (pyerr + 'b) \<times> fsys" where
  "iobind m f = (case m of (Inl e, st) \<Rightarrow> (Inl e, st) | (Inr v, st) \<Rightarrow> f v st)"

definition path_exists :: "fsys \<Rightarrow> path \<Rightarrow> bool" where
  "path_exists st p = (case nodes st p of None \<Rightarrow> False | Some n \<Rightarrow> True)"

definition is_Dir :: "content \<Rightarrow> bool" where
  "is_Dir c = (case c of Dir \<Rightarrow> True | Data \<Rightarrow> False | Image dims txt \<Rightarrow> False)"

text \<open>
  A directory can be written with trailing slashes (\<^verbatim>\<open>os.path.join(d, '')\<close> ends in one):
  \<^verbatim>\<open>os.path.isdir\<close> and \<^verbatim>\<open>os.makedirs\<close>, which the module applies to such a joined
  name, then mean the directory itself. The other lookups take the path as written.
\<close>

definition strip_trailing :: "path \<Rightarrow> path" where
  "strip_trailing p = (if rstrip_slash p = [] then p else rstrip_slash p)"

definition isdir :: "fsys \<Rightarrow> path \<Rightarrow> bool" where
  "isdir st p =
     (case nodes st (strip_trailing p) of None \<Rightarrow> False | Some n \<Rightarrow> is_Dir (body n))"

definition getmtime :: "fsys \<Rightarrow> path option \<Rightarrow> pyerr + int" where
  "getmtime st origname =
     (case origname of
        None \<Rightarrow> Inl TypeError
      | Some p \<Rightarrow> (case nodes st p of None \<Rightarrow> Inl OSError | Some n \<Rightarrow> Inr (st_mtime n)))"

definition getsize :: "fsys \<Rightarrow> path \<Rightarrow> pyerr + nat" where
  "getsize st p = (case nodes st p of None \<Rightarrow> Inl OSError | Some n \<Rightarrow> Inr (st_size n))"

definition log_op :: "fsop \<Rightarrow> fsys \<Rightarrow> fsys" where
  "log_op x st = st\<lparr>trace := trace st @ [x]\<rparr>"

definition os_rename :: "fsys \<Rightarrow> path \<Rightarrow> path \<Rightarrow> (pyerr + unit) \<times> fsys" where
  "os_rename st a b =
     (case nodes st a of
        None \<Rightarrow> (Inl OSError, st)
      | Some n \<Rightarrow>
          if isdir st b \<and> \<not> is_Dir (body n) then (Inl OSError, st)
          else if a = b then (Inr (), log_op (Renamed a b) st)
          else (Inr (), log_op (Renamed a b) (st\<lparr>nodes := (nodes st)(a := None, b \<mapsto> n)\<rparr>)))"

definition shutil_move :: "fsys \<Rightarrow> path \<Rightarrow> path \<Rightarrow> (pyerr + unit) \<times> fsys" where
  "shutil_move st a b =
     (case nodes st a of
        None \<Rightarrow> (Inl OSError, st)
      | Some n \<Rightarrow>
          if isdir st b then (Inl OSError, st)
          else if a = b then (Inr (), log_op (Moved a b) st)
          else (Inr (), log_op (Moved a b) (st\<lparr>nodes := (nodes st)(a := None, b \<mapsto> n)\<rparr>)))"

definition os_chmod :: "fsys \<Rightarrow> path \<Rightarrow> nat \<Rightarrow> (pyerr + unit) \<times> fsys" where
  "os_chmod st p mode =
     (if path_exists st p then (Inr (), log_op (Chmod p mode) st) else (Inl OSError, st))"

definition new_dir :: "fsys \<Rightarrow> path \<Rightarrow> fsys" where
  "new_dir st p =
     log_op (MadeDir p)
       (st\<lparr>nodes := (nodes st)(p \<mapsto> \<lparr>body = Dir, st_mtime = clock st, st_size = 0\<rparr>)\<rparr>)"

definition ancestors :: "path \<Rightarrow> path list" where
  "ancestors p =
     map (\<lambda>i. take i p)
       (filter (\<lambda>i. p ! i = CHR ''/'' \<and> p ! (i - 1) \<noteq> CHR ''/'') [1..<length p])"

fun mkdir_chain :: "fsys \<Rightarrow> path list \<Rightarrow> (pyerr + unit) \<times> fsys" where
  "mkdir_chain st [] = (Inr (), st)"
| "mkdir_chain st (d # ds) =
     (case nodes st d of
        None \<Rightarrow> mkdir_chain (new_dir st d) ds
      | Some n \<Rightarrow> if is_Dir (body n) then mkdir_chain st ds else (Inl OSError, st))"

definition os_makedirs :: "fsys \<Rightarrow> path \<Rightarrow> (pyerr + unit) \<times> fsys" where
  "os_makedirs st p =
     (let q = strip_trailing p
      in iobind (mkdir_chain st (ancestors q)) (\<lambda>u st1.
           if path_exists st1 q then (Inl OSError, st1) else (Inr (), new_dir st1 q)))"

fun first_free :: "(path \<rightharpoonup> node) \<Rightarrow> path \<Rightarrow> string list \<Rightarrow> (path \<times> string list) option" where
  "first_free ns dir [] = None"
| "first_free ns dir (r # rs) =
     (let p = path_join dir (''tmp'' @ r @ ''.png'')
      in (case ns p of None \<Rightarrow> Some (p, rs) | Some n \<Rightarrow> first_free ns dir rs))"

definition tempfile_mkstemp :: "fsys \<Rightarrow> path \<Rightarrow> (pyerr + path) \<times> fsys" where
  "tempfile_mkstemp st dir =
     (if \<not> isdir st dir then (Inl OSError, st)
      else (case first_free (nodes st) dir (tmpnames st) of
              None \<Rightarrow> (Inl OSError, st\<lparr>tmpnames := []\<rparr>)
            | Some (p, rs) \<Rightarrow>
                (Inr p,
                 log_op (Created p)
                   (st\<lparr>nodes := (nodes st)(p \<mapsto> \<lparr>body = Data, st_mtime = clock st, st_size = 0\<rparr>),
                       tmpnames := rs\<rparr>))))"

definition mkstemp :: "fsys \<Rightarrow> path \<Rightarrow> (pyerr + path) \<times> fsys" where
  "mkstemp st dest =
     iobind (tempfile_mkstemp st (dirname dest)) (\<lambda>p st1.
       iobind (os_chmod st1 p 384) (\<lambda>u st2. (Inr p, st2)))"

definition any2mtime :: "fsys \<Rightarrow> path option \<Rightarrow> int option \<Rightarrow> pyerr + int" where
  "any2mtime st origname mtime =
     (case mtime of None \<Rightarrow> getmtime st origname | Some m \<Rightarrow> int_float m)"

definition setdefault :: "(string \<rightharpoonup> string) \<Rightarrow> string \<Rightarrow> string \<Rightarrow> (string \<rightharpoonup> string)" where
  "setdefault d k v = (case d k of None \<Rightarrow> d(k \<mapsto> v) | Some old \<Rightarrow> d)"

definition dict_or_empty :: "(string \<rightharpoonup> string) option \<Rightarrow> (string \<rightharpoonup> string)" where
  "dict_or_empty d = (case d of None \<Rightarrow> Map.empty | Some m \<Rightarrow> m)"

definition info_dict ::
  "env \<Rightarrow> fsys \<Rightarrow> (string \<rightharpoonup> string) option \<Rightarrow> int option \<Rightarrow> string option
     \<Rightarrow> pyerr + (string \<rightharpoonup> string)" where
  "info_dict E st d mtime src =
     (let d0 = dict_or_empty d
      in ebind
           (if mtime \<noteq> None \<or> src \<noteq> None
            then ebind (any2mtime st src mtime) (\<lambda>m. Inr (setdefault d0 KEY_MTIME (str_int m)))
            else Inr d0)
           (\<lambda>d1. case src of
                    None \<Rightarrow> Inr d1
                  | Some s \<Rightarrow> Inr (setdefault d1 KEY_URI (any2uri E s))))"


section \<open>The backends\<close>

text \<open>
  Each backend method is a function of the backend. A toolkit image object carries the
  text of the file it was loaded from; \<open>PilBackend\<close> saves only the text it is given,
  the other two save what the object carries, updated by \<^verbatim>\<open>setattributes\<close>. Asked for a
  key that is absent, \<^verbatim>\<open>QImage.text\<close> and \<^verbatim>\<open>Image.attribute\<close> return the empty string,
  and indexing \<^verbatim>\<open>img.info\<close> raises \<open>KeyError\<close>.
\<close>

definition get_backend :: "env \<Rightarrow> backend option" where
  "get_backend E =
     (if is_available E QtBackend then Some QtBackend
      else if is_available E MagickBackend then Some MagickBackend
      else if is_available E PilBackend then Some PilBackend
      else None)"

definition load_image :: "fsys \<Rightarrow> path \<Rightarrow> ((nat \<times> nat) \<times> (string \<rightharpoonup> string)) option" where
  "load_image st p =
     (case nodes st p of
        None \<Rightarrow> None
      | Some n \<Rightarrow> (case body n of Image dims txt \<Rightarrow> Some (dims, txt) | Dir \<Rightarrow> None | Data \<Rightarrow> None))"

definition save_image ::
  "env \<Rightarrow> fsys \<Rightarrow> path \<Rightarrow> nat \<times> nat \<Rightarrow> (string \<rightharpoonup> string) \<Rightarrow> (pyerr + unit) \<times> fsys" where
  "save_image E st p dims txt =
     (if isdir st p \<or> (\<not> path_exists st p \<and> \<not> isdir st (dirname p)) then (Inl OSError, st)
      else (Inr (),
            log_op (Written p)
              (st\<lparr>nodes := (nodes st)(p \<mapsto>
                 \<lparr>body = Image dims txt, st_mtime = clock st, st_size = encoded_size E dims txt\<rparr>)\<rparr>)))"

text \<open>The tail every writing method shares: temporary file, save, rename, return.\<close>

definition write_via_temp ::
  "env \<Rightarrow> fsys \<Rightarrow> path \<Rightarrow> nat \<times> nat \<Rightarrow> (string \<rightharpoonup> string) \<Rightarrow> (pyerr + path option) \<times> fsys" where
  "write_via_temp E st dest dims txt =
     iobind (mkstemp st dest) (\<lambda>tmp st1.
       iobind (save_image E st1 tmp dims txt) (\<lambda>u st2.
         iobind (os_rename st2 tmp dest) (\<lambda>u st3. (Inr (Some dest), st3))))"

definition own_size_text :: "nat \<times> nat \<Rightarrow> (string \<rightharpoonup> string) \<Rightarrow> (string \<rightharpoonup> string)" where
  "own_size_text dims txt =
     txt(KEY_WIDTH \<mapsto> str_int (int (fst dims)), KEY_HEIGHT \<mapsto> str_int (int (snd dims)))"

definition backend_create_thumbnail ::
  "env \<Rightarrow> backend \<Rightarrow> fsys \<Rightarrow> path \<Rightarrow> path \<Rightarrow> int \<Rightarrow> (string \<rightharpoonup> string) option
     \<Rightarrow> (pyerr + path option) \<times> fsys" where
  "backend_create_thumbnail E b st src dest px moreinfo =
     (case load_image st src of
        None \<Rightarrow> (Inr None, st)
      | Some (dims, txt) \<Rightarrow>
          (case b of
             PilBackend \<Rightarrow>
               write_via_temp E st dest (resized E b px dims)
                 (own_size_text dims (dict_or_empty moreinfo))
           | MagickBackend \<Rightarrow>
               write_via_temp E st dest (resized E b px dims) (txt ++ dict_or_empty moreinfo)
           | QtBackend \<Rightarrow>
               write_via_temp E st dest (resized E b px dims) (txt ++ dict_or_empty moreinfo)))"

definition backend_create_fail ::
  "env \<Rightarrow> backend \<Rightarrow> fsys \<Rightarrow> path \<Rightarrow> (string \<rightharpoonup> string) option \<Rightarrow> (pyerr + path option) \<times> fsys" where
  "backend_create_fail E b st dest moreinfo =
     write_via_temp E st dest (1, 1) (dict_or_empty moreinfo)"

definition backend_update_metadata ::
  "env \<Rightarrow> backend \<Rightarrow> fsys \<Rightarrow> path \<Rightarrow> (string \<rightharpoonup> string) option \<Rightarrow> (pyerr + path option) \<times> fsys" where
  "backend_update_metadata E b st dest moreinfo =
     (case b of
        PilBackend \<Rightarrow>
          (case load_image st dest of
             None \<Rightarrow> (Inl OSError, st)
           | Some (dims, txt) \<Rightarrow> write_via_temp E st dest dims (dict_or_empty moreinfo))
      | MagickBackend \<Rightarrow>
          (case load_image st dest of
             None \<Rightarrow> (Inr None, st)
           | Some (dims, txt) \<Rightarrow>
               write_via_temp E st dest dims (own_size_text dims (txt ++ dict_or_empty moreinfo)))
      | QtBackend \<Rightarrow>
          (case load_image st dest of
             None \<Rightarrow> (Inr None, st)
           | Some (dims, txt) \<Rightarrow>
               write_via_temp E st dest dims (own_size_text dims (txt ++ dict_or_empty moreinfo))))"

record info =
  info_mtime :: int
  info_uri :: string

definition parse_mtime :: "env \<Rightarrow> string \<Rightarrow> pyerr + int" where
  "parse_mtime E s =
     (case int_float_str E s of
        Inl NotANumber \<Rightarrow> Inl ValueError
      | Inl Infinite \<Rightarrow> Inl OverflowError
      | Inr m \<Rightarrow> Inr m)"

definition text_or_empty :: "(string \<rightharpoonup> string) \<Rightarrow> string \<Rightarrow> string" where
  "text_or_empty txt k = (case txt k of None \<Rightarrow> [] | Some v \<Rightarrow> v)"

definition backend_get_info :: "env \<Rightarrow> backend \<Rightarrow> fsys \<Rightarrow> path \<Rightarrow> pyerr + info option" where
  "backend_get_info E b st p =
     (case b of
        PilBackend \<Rightarrow>
          (case load_image st p of
             None \<Rightarrow> Inl OSError
           | Some (dims, txt) \<Rightarrow>
               (case txt KEY_MTIME of
                  None \<Rightarrow> Inl KeyError
                | Some s \<Rightarrow>
                    ebind (parse_mtime E s) (\<lambda>m.
                      case txt KEY_URI of
                        None \<Rightarrow> Inl KeyError
                      | Some u \<Rightarrow> Inr (Some \<lparr>info_mtime = m, info_uri = u\<rparr>))))
      | MagickBackend \<Rightarrow>
          (case load_image st p of
             None \<Rightarrow> Inr None
           | Some (dims, txt) \<Rightarrow>
               ebind (if text_or_empty txt KEY_MTIME = [] then Inr 0
                      else parse_mtime E (text_or_empty txt KEY_MTIME)) (\<lambda>m.
                 Inr (Some \<lparr>info_mtime = m, info_uri = text_or_empty txt KEY_URI\<rparr>)))
      | QtBackend \<Rightarrow>
          (case load_image st p of
             None \<Rightarrow> Inr None
           | Some (dims, txt) \<Rightarrow>
               ebind (if text_or_empty txt KEY_MTIME = [] then Inr 0
                      else parse_mtime E (text_or_empty txt KEY_MTIME)) (\<lambda>m.
                 Inr (Some \<lparr>info_mtime = m, info_uri = text_or_empty txt KEY_URI\<rparr>))))"

section \<open>The store\<close>

definition is_thumbnail_valid :: "env \<Rightarrow> fsys \<Rightarrow> path \<Rightarrow> string \<Rightarrow> int \<Rightarrow> pyerr + bool" where
  "is_thumbnail_valid E st thumbnail uri mtime =
     (case get_backend E of
        None \<Rightarrow> Inl AttributeError
      | Some b \<Rightarrow>
          (case backend_get_info E b st thumbnail of
             Inl e \<Rightarrow> Inl e
           | Inr None \<Rightarrow> Inl TypeError
           | Inr (Some i) \<Rightarrow> Inr (info_uri i = uri \<and> info_mtime i = mtime)))"

definition thumbnail_info :: "env \<Rightarrow> fsys \<Rightarrow> path \<Rightarrow> pyerr + info option" where
  "thumbnail_info E st thumbnail =
     (case get_backend E of
        None \<Rightarrow> Inl AttributeError
      | Some b \<Rightarrow> backend_get_info E b st thumbnail)"

definition fail_path :: "env \<Rightarrow> string \<Rightarrow> string \<Rightarrow> path" where
  "fail_path E src appname =
     path_join (path_join (path_join (thumb_path_prefix E) ''fail'') appname)
       (hash_name E src @ ''.png'')"

definition is_thumbnail_failed ::
  "env \<Rightarrow> fsys \<Rightarrow> string \<Rightarrow> string \<Rightarrow> int option \<Rightarrow> pyerr + bool" where
  "is_thumbnail_failed E st src appname mtime =
     ebind (any2mtime st (Some src) mtime) (\<lambda>m.
       let thumb = fail_path E src appname
       in if path_exists st thumb then is_thumbnail_valid E st thumb (any2uri E src) m
          else Inr False)"

text \<open>
  The older module's \<^verbatim>\<open>is_thumbnail_failed(name, appname)\<close> has no \<open>mtime\<close> parameter and
  only tests that the marker exists. Its digest is of \<open>legacy_any2uri\<close>.
\<close>

definition legacy_is_thumbnail_failed :: "env \<Rightarrow> fsys \<Rightarrow> string \<Rightarrow> string \<Rightarrow> bool" where
  "legacy_is_thumbnail_failed E st name appname =
     path_exists st
       (path_join
          (path_join (path_join (path_join (xdg_cache_home E) ''thumbnails'') ''fail'') appname)
          (md5_hexdigest E (legacy_any2uri E name) @ ''.png''))"

fun try_sizes ::
  "env \<Rightarrow> fsys \<Rightarrow> string \<Rightarrow> string \<Rightarrow> int \<Rightarrow> pyval list \<Rightarrow> pyerr + path option" where
  "try_sizes E st src uri mtime [] = Inr None"
| "try_sizes E st src uri mtime (sz # sizes) =
     ebind (build_thumbnail_path E src sz) (\<lambda>thumb.
       if path_exists st thumb then
         if src = thumb then Inr (Some src)
         else ebind (is_thumbnail_valid E st thumb uri mtime) (\<lambda>ok.
                if ok then Inr (Some thumb) else try_sizes E st src uri mtime sizes)
       else try_sizes E st src uri mtime sizes)"

definition try_get_thumbnail ::
  "env \<Rightarrow> fsys \<Rightarrow> string \<Rightarrow> pyval option \<Rightarrow> int option \<Rightarrow> pyerr + path option" where
  "try_get_thumbnail E st src sz mtime =
     (let sizes = (case sz of None \<Rightarrow> [PyStr ''large'', PyStr ''normal''] | Some s \<Rightarrow> [s])
      in ebind (any2mtime st (Some src) mtime) (\<lambda>m.
           try_sizes E st src (any2uri E src) m sizes))"

definition put_fail ::
  "env \<Rightarrow> fsys \<Rightarrow> string \<Rightarrow> string \<Rightarrow> int option \<Rightarrow> (string \<rightharpoonup> string) option
     \<Rightarrow> (pyerr + path option) \<times> fsys" where
  "put_fail E st src appname mtime moreinfo =
     (let prefix = path_join (path_join (thumb_path_prefix E) ''fail'') appname
      in iobind (if \<not> isdir st prefix then os_makedirs st prefix else (Inr (), st)) (\<lambda>u st1.
           let dest = path_join prefix (hash_name E src @ ''.png'')
           in (case info_dict E st1 moreinfo mtime (Some src) of
                 Inl e \<Rightarrow> (Inl e, st1)
               | Inr d \<Rightarrow>
                   (case get_backend E of
                      None \<Rightarrow> (Inl AttributeError, st1)
                    | Some b \<Rightarrow> backend_create_fail E b st1 dest (Some d)))))"

definition truthy :: "path option \<Rightarrow> bool" where
  "truthy r = (case r of None \<Rightarrow> False | Some p \<Rightarrow> p \<noteq> [])"

definition create_thumbnail ::
  "env \<Rightarrow> fsys \<Rightarrow> string \<Rightarrow> pyval \<Rightarrow> (string \<rightharpoonup> string) option \<Rightarrow> string option
     \<Rightarrow> (pyerr + path option) \<times> fsys" where
  "create_thumbnail E st src sz moreinfo use_fail_appname =
     (case ebind (any2size sz) subscript0 of
        Inl e \<Rightarrow> (Inl e, st)
      | Inr px \<Rightarrow>
     (case getsize st src of
        Inl e \<Rightarrow> (Inl e, st)
      | Inr filesize \<Rightarrow>
     (case build_thumbnail_path E src (PyInt px) of
        Inl e \<Rightarrow> (Inl e, st)
      | Inr dest \<Rightarrow>
     (case info_dict E st moreinfo None (Some src) of
        Inl e \<Rightarrow> (Inl e, st)
      | Inr d \<Rightarrow>
          (let d' = d(KEY_SIZE \<mapsto> str_int (int filesize))
           in iobind (if \<not> isdir st (dirname dest) then os_makedirs st (dirname dest)
                      else (Inr (), st)) (\<lambda>u st1.
                (case get_backend E of
                   None \<Rightarrow> (Inl AttributeError, st1)
                 | Some b \<Rightarrow>
                     iobind (backend_create_thumbnail E b st1 src dest px (Some d')) (\<lambda>r st2.
                       if truthy r then (Inr (Some dest), st2)
                       else (case use_fail_appname of
                               None \<Rightarrow> (Inr None, st2)
                             | Some a \<Rightarrow>
                                 iobind (put_fail E st2 src a None None) (\<lambda>r' st3.
                                   (Inr None, st3)))))))))))"

definition get_thumbnail ::
  "env \<Rightarrow> fsys \<Rightarrow> string \<Rightarrow> pyval option \<Rightarrow> string option \<Rightarrow> (pyerr + path option) \<times> fsys" where
  "get_thumbnail E st src sz use_fail_appname =
     (case try_get_thumbnail E st src sz None of
        Inl e \<Rightarrow> (Inl e, st)
      | Inr (Some thumb) \<Rightarrow> (Inr (Some thumb), st)
      | Inr None \<Rightarrow>
          (case (case use_fail_appname of
                   None \<Rightarrow> Inr False
                 | Some a \<Rightarrow>
                     ebind (any2mtime st (Some src) None) (\<lambda>m.
                       is_thumbnail_failed E st src a (Some m))) of
             Inl e \<Rightarrow> (Inl e, st)
           | Inr True \<Rightarrow> (Inr None, st)
           | Inr False \<Rightarrow>
               create_thumbnail E st src
                 (case sz of None \<Rightarrow> PyStr ''large'' | Some s \<Rightarrow> s) None use_fail_appname))"

definition put_thumbnail ::
  "env \<Rightarrow> fsys \<Rightarrow> string \<Rightarrow> pyval \<Rightarrow> path \<Rightarrow> int option \<Rightarrow> (string \<rightharpoonup> string) option
     \<Rightarrow> (pyerr + path) \<times> fsys" where
  "put_thumbnail E st src sz thumb mtime moreinfo =
     (case build_thumbnail_path E src sz of
        Inl e \<Rightarrow> (Inl e, st)
      | Inr dest \<Rightarrow>
          iobind
            (if dest = thumb then
               iobind (mkstemp st dest) (\<lambda>tmp st1.
                 iobind (os_rename st1 dest tmp) (\<lambda>u st2. (Inr tmp, st2)))
             else if dirname dest = dirname thumb then (Inr thumb, st)
             else
               iobind (mkstemp st dest) (\<lambda>tmp st1.
                 iobind (shutil_move st1 thumb tmp) (\<lambda>u st2. (Inr tmp, st2))))
            (\<lambda>tmp st3.
               (case info_dict E st3 moreinfo mtime (Some src) of
                  Inl e \<Rightarrow> (Inl e, st3)
                | Inr d \<Rightarrow>
                    (case get_backend E of
                       None \<Rightarrow> (Inl AttributeError, st3)
                     | Some b \<Rightarrow>
                         iobind (backend_update_metadata E b st3 tmp (Some d)) (\<lambda>r st4.
                           iobind (os_chmod st4 tmp 384) (\<lambda>u st5.
                             iobind (os_rename st5 tmp dest) (\<lambda>u st6. (Inr dest, st6))))))))"


section \<open>The older module's writers\<close>

text \<open>
  \<^verbatim>\<open>thumbnail.py\<close> is the module's predecessor (Python 2). Its \<^verbatim>\<open>put_thumbnail\<close> and
  \<^verbatim>\<open>put_fail\<close> save the image at its final path; they are embedded to record how they
  differ from the store above. Called without \<open>thumbpath\<close>, \<^verbatim>\<open>put_thumbnail\<close> hands
  \<^verbatim>\<open>None\<close> on as the name of the source, which raises \<open>TypeError\<close>.
\<close>

definition py_truth :: "pyval \<Rightarrow> bool" where
  "py_truth v = (case v of PyInt n \<Rightarrow> n \<noteq> 0 | PyStr s \<Rightarrow> s \<noteq> [])"

definition legacy_thumb_path_prefix :: "env \<Rightarrow> path" where
  "legacy_thumb_path_prefix E = path_join (xdg_cache_home E) ''thumbnails''"

definition legacy_thumbnail_path ::
  "(string \<Rightarrow> pyerr + int) \<Rightarrow> env \<Rightarrow> string \<Rightarrow> pyval \<Rightarrow> pyerr + path" where
  "legacy_thumbnail_path int_of_str E name sz =
     (let md5uri = md5_hexdigest E (legacy_any2uri E name);
          prefix = legacy_thumb_path_prefix E
      in if py_truth sz then
           (case legacy_any2size int_of_str sz of
              Inl e \<Rightarrow> Inl e
            | Inr None \<Rightarrow> Inl TypeError
            | Inr (Some (px, sizename)) \<Rightarrow>
                Inr (path_join (path_join prefix sizename) (md5uri @ ''.png'')))
         else Inr (path_join (path_join prefix ''large'') (md5uri @ ''.png'')))"

definition legacy_create_pnginfo ::
  "string \<Rightarrow> int \<Rightarrow> (string \<rightharpoonup> string) option \<Rightarrow> (string \<rightharpoonup> string)" where
  "legacy_create_pnginfo uri mtime moreinfo =
     [KEY_URI \<mapsto> uri, KEY_MTIME \<mapsto> str_int mtime] ++ dict_or_empty moreinfo"

definition legacy_put_thumbnail ::
  "(string \<Rightarrow> pyerr + int) \<Rightarrow> env \<Rightarrow> fsys \<Rightarrow> string \<Rightarrow> path option \<Rightarrow> pyval option
     \<Rightarrow> int option \<Rightarrow> (string \<rightharpoonup> string) option \<Rightarrow> (pyerr + path) \<times> fsys" where
  "legacy_put_thumbnail int_of_str E st origname thumbpath sz mtime moreinfo =
     (case thumbpath of
        None \<Rightarrow> (Inl TypeError, st)
      | Some tp \<Rightarrow>
          (case load_image st tp of
             None \<Rightarrow> (Inl OSError, st)
           | Some (dims, txt) \<Rightarrow>
               (case legacy_thumbnail_path int_of_str E origname
                       (case sz of None \<Rightarrow> PyInt (int (max (fst dims) (snd dims))) | Some s \<Rightarrow> s) of
                  Inl e \<Rightarrow> (Inl e, st)
                | Inr destpath \<Rightarrow>
                    (case (case mtime of None \<Rightarrow> getmtime st (Some origname) | Some m \<Rightarrow> Inr m) of
                       Inl e \<Rightarrow> (Inl e, st)
                     | Inr m \<Rightarrow>
                         iobind
                           (save_image E st destpath dims
                              (legacy_create_pnginfo (legacy_any2uri E origname) m moreinfo))
                           (\<lambda>u st1. (Inr destpath, st1))))))"

definition legacy_put_fail ::
  "env \<Rightarrow> fsys \<Rightarrow> string \<Rightarrow> string \<Rightarrow> int option \<Rightarrow> (string \<rightharpoonup> string) option
     \<Rightarrow> (pyerr + unit) \<times> fsys" where
  "legacy_put_fail E st origname appname mtime moreinfo =
     (let apppath = path_join (path_join (legacy_thumb_path_prefix E) ''fail'') appname
      in iobind (if \<not> isdir st apppath then os_makedirs st apppath else (Inr (), st)) (\<lambda>u st1.
           (case (case mtime of None \<Rightarrow> getmtime st1 (Some origname) | Some m \<Rightarrow> Inr m) of
              Inl e \<Rightarrow> (Inl e, st1)
            | Inr m \<Rightarrow>
                save_image E st1
                  (path_join apppath (md5_hexdigest E (legacy_any2uri E origname) @ ''.png''))
                  (1, 1)
                  (legacy_create_pnginfo (legacy_any2uri E origname) m moreinfo))))"

section \<open>A worked environment\<close>

text \<open>
  Concrete library functions and file systems on which the theorems below are run:
  POSIX \<^verbatim>\<open>normpath\<close> and \<^verbatim>\<open>abspath\<close> with working directory \<^verbatim>\<open>/home/u\<close>, \<^verbatim>\<open>quote\<close> with
  \<^verbatim>\<open>/\<close> safe, the MD5 digests of the URIs that occur (a table), and \<^verbatim>\<open>int(float(s))\<close>
  on decimal integer literals.
\<close>

fun split_on :: "char \<Rightarrow> string \<Rightarrow> string list" where
  "split_on c [] = [[]]"
| "split_on c (x # xs) =
     (if x = c then [] # split_on c xs
      else (case split_on c xs of [] \<Rightarrow> [[x]] | w # ws \<Rightarrow> (x # w) # ws))"

fun norm_comps :: "bool \<Rightarrow> string list \<Rightarrow> string list \<Rightarrow> string list" where
  "norm_comps rooted new_comps [] = new_comps"
| "norm_comps rooted new_comps (c # cs) =
     (if c = [] \<or> c = ''.'' then norm_comps rooted new_comps cs
      else if c \<noteq> ''..'' \<or> (\<not> rooted \<and> new_comps = [])
              \<or> (new_comps \<noteq> [] \<and> last new_comps = ''..'')
        then norm_comps rooted (new_comps @ [c]) cs
      else if new_comps \<noteq> [] then norm_comps rooted (butlast new_comps) cs
      else norm_comps rooted new_comps cs)"

fun join_slash :: "string list \<Rightarrow> string" where
  "join_slash [] = []"
| "join_slash [c] = c"
| "join_slash (c # cs) = c @ ''/'' @ join_slash cs"

definition posix_normpath :: "path \<Rightarrow> path" where
  "posix_normpath p =
     (if p = [] then ''.''
      else
        (let initial_slashes =
               (if startswith p ''//'' \<and> \<not> startswith p ''///'' then 2
                else if startswith p ''/'' then 1 else (0::nat));
             q = replicate initial_slashes CHR ''/''
                 @ join_slash (norm_comps (initial_slashes \<noteq> 0) [] (split_on CHR ''/'' p))
         in if q = [] then ''.'' else q))"

definition posix_abspath :: "path \<Rightarrow> path \<Rightarrow> path" where
  "posix_abspath cwd p = posix_normpath (if startswith p ''/'' then p else path_join cwd p)"

definition hex_digit :: "nat \<Rightarrow> char" where
  "hex_digit n = (if n < 10 then char_of (48 + n) else char_of (55 + n))"

definition percent :: "nat \<Rightarrow> string" where
  "percent b = [CHR ''%'', hex_digit (b div 16), hex_digit (b mod 16)]"

definition quote_char :: "char \<Rightarrow> string" where
  "quote_char c =
     (let n = (of_char c :: nat)
      in if ascii_alpha c \<or> ascii_digit c \<or> c = CHR ''_'' \<or> c = CHR ''.'' \<or> c = CHR ''-''
            \<or> c = CHR ''~'' \<or> c = CHR ''/'' then [c]
         else if n < 128 then percent n
         else percent (192 + n div 64) @ percent (128 + n mod 64))"

definition url_quote :: "string \<Rightarrow> string" where
  "url_quote s = concat (map quote_char s)"

definition md5_table :: "string \<Rightarrow> string" where
  "md5_table s =
     (if s = ''file:///tmp/a.jpg'' then ''fd3d4bbf23a83793d4c47b368af0416e''
      else if s = ''file:///home/u/.cache/thumbnails/large/abc.png''
        then ''8971fb6849c1068415034a656eb2e16f''
      else if s = ''http://x/y.pdf'' then ''667621a20c8e4b6ec0abf069cf1f8298''
      else if s = ''file:///tmp/a%20b.jpg'' then ''45f1b47640b52dc5428fd58ac89fec15''
      else ''d41d8cd98f00b204e9800998ecf8427e'')"

fun dec_nat :: "nat \<Rightarrow> string \<Rightarrow> nat option" where
  "dec_nat acc [] = Some acc"
| "dec_nat acc (c # cs) =
     (if ascii_digit c then dec_nat (10 * acc + (of_char c - 48)) cs else None)"

definition dec_int :: "string \<Rightarrow> int option" where
  "dec_int s =
     (case s of
        [] \<Rightarrow> None
      | c # cs \<Rightarrow>
          if c = CHR ''-'' then
            (if cs = [] then None else map_option (\<lambda>n. - int n) (dec_nat 0 cs))
          else map_option int (dec_nat 0 s))"

definition dec_int_float_str :: "string \<Rightarrow> parse_error + int" where
  "dec_int_float_str s =
     (case dec_int s of
        None \<Rightarrow> Inl NotANumber
      | Some i \<Rightarrow> (case int_float i of Inl e \<Rightarrow> Inl Infinite | Inr m \<Rightarrow> Inr m))"

definition box_fit :: "backend \<Rightarrow> int \<Rightarrow> nat \<times> nat \<Rightarrow> nat \<times> nat" where
  "box_fit b px dims =
     (let w = fst dims; h = snd dims; m = max (max w h) 1
      in (max 1 (w * nat px div m), max 1 (h * nat px div m)))"

definition env_with :: "(backend \<Rightarrow> bool) \<Rightarrow> env" where
  "env_with avail =
     \<lparr>xdg_cache_home = ''/home/u/.cache'',
      normpath = posix_normpath,
      abspath = posix_abspath ''/home/u'',
      pathname2url = url_quote,
      md5_hexdigest = md5_table,
      int_float_str = dec_int_float_str,
      is_available = avail,
      resized = box_fit,
      encoded_size = (\<lambda>dims txt. 100 + fst dims * snd dims)\<rparr>"

definition only_pil :: "backend \<Rightarrow> bool" where
  "only_pil b = (b = PilBackend)"

definition only_qt :: "backend \<Rightarrow> bool" where
  "only_qt b = (b = QtBackend)"

definition no_backend :: "backend \<Rightarrow> bool" where
  "no_backend b = False"

definition dir_node :: node where
  "dir_node = \<lparr>body = Dir, st_mtime = 900, st_size = 4096\<rparr>"

definition photo :: node where
  "photo = \<lparr>body = Image (640, 480) Map.empty, st_mtime = 1000, st_size = 34567\<rparr>"

definition fs_of :: "(path \<times> node) list \<Rightarrow> fsys" where
  "fs_of xs =
     \<lparr>nodes = map_of xs, tmpnames = [''k3x9q2ab'', ''w7m1c5zz'', ''p0d8e4rt''],
      clock = 2000, trace = []\<rparr>"

text \<open>A home directory with a photograph and the cache directories, no thumbnail yet.\<close>

definition fs_fresh :: fsys where
  "fs_fresh =
     fs_of [(''/tmp'', dir_node), (''/tmp/a.jpg'', photo),
            (''/home'', dir_node), (''/home/u'', dir_node), (''/home/u/.cache'', dir_node),
            (''/home/u/.cache/thumbnails'', dir_node),
            (''/home/u/.cache/thumbnails/large'', dir_node),
            (''/home/u/.cache/thumbnails/normal'', dir_node),
            (''/home/u/.cache/thumbnails/fail'', dir_node),
            (''/home/u/.cache/thumbnails/fail/app-1.0'', dir_node)]"

text \<open>
  A cached thumbnail without text, one whose \<open>Thumb::MTime\<close> is not a number, and a
  scratch image waiting in the \<^verbatim>\<open>large\<close> directory.
\<close>

definition large_a :: path where
  "large_a = ''/home/u/.cache/thumbnails/large/fd3d4bbf23a83793d4c47b368af0416e.png''"

definition normal_a :: path where
  "normal_a = ''/home/u/.cache/thumbnails/normal/fd3d4bbf23a83793d4c47b368af0416e.png''"

definition fs_nokeys :: fsys where
  "fs_nokeys =
     fs_of [(''/tmp/a.jpg'', photo),
            (large_a, \<lparr>body = Image (256, 192) Map.empty, st_mtime = 1500, st_size = 5000\<rparr>)]"

definition fs_badmtime :: fsys where
  "fs_badmtime =
     fs_of [(''/tmp/a.jpg'', photo),
            (large_a,
             \<lparr>body = Image (256, 192)
                       [KEY_MTIME \<mapsto> ''yesterday'', KEY_URI \<mapsto> ''file:///tmp/a.jpg''],
              st_mtime = 1500, st_size = 5000\<rparr>)]"

definition scratch_png :: path where
  "scratch_png = ''/home/u/.cache/thumbnails/large/tmpq1w2e3r4.png''"

definition fs_scratch :: fsys where
  "fs_scratch =
     fs_of [(''/tmp'', dir_node), (''/tmp/a.jpg'', photo),
            (''/home/u/.cache/thumbnails'', dir_node),
            (''/home/u/.cache/thumbnails/large'', dir_node),
            (scratch_png, \<lparr>body = Image (256, 256) Map.empty, st_mtime = 1900, st_size = 7000\<rparr>)]"

text \<open>
  A valid large thumbnail of the photograph, and a fail marker of \<^verbatim>\<open>app-1.0\<close> for it.
\<close>

definition fail_a :: path where
  "fail_a = ''/home/u/.cache/thumbnails/fail/app-1.0/fd3d4bbf23a83793d4c47b368af0416e.png''"

definition record_a :: "string \<rightharpoonup> string" where
  "record_a = [KEY_MTIME \<mapsto> ''1000'', KEY_URI \<mapsto> ''file:///tmp/a.jpg'']"

definition fs_cached :: fsys where
  "fs_cached =
     fs_of [(''/tmp/a.jpg'', photo),
            (large_a, \<lparr>body = Image (256, 192) record_a, st_mtime = 1500, st_size = 5000\<rparr>)]"

definition fs_failed :: fsys where
  "fs_failed =
     fs_of [(''/tmp/a.jpg'', photo),
            (fail_a, \<lparr>body = Image (1, 1) record_a, st_mtime = 1500, st_size = 70\<rparr>)]"

text \<open>A large thumbnail made when the photograph had another time, and a valid normal one.\<close>

definition fs_stale :: fsys where
  "fs_stale =
     fs_of [(''/tmp/a.jpg'', photo),
            (large_a,
             \<lparr>body = Image (256, 192)
                       [KEY_MTIME \<mapsto> ''999'', KEY_URI \<mapsto> ''file:///tmp/a.jpg''],
              st_mtime = 1400, st_size = 5000\<rparr>),
            (normal_a, \<lparr>body = Image (128, 96) record_a, st_mtime = 1500, st_size = 2000\<rparr>)]"

text \<open>Metadata with which a caller claims another source and another time.\<close>

definition forged :: "string \<rightharpoonup> string" where
  "forged = [KEY_URI \<mapsto> ''urn:other'', KEY_MTIME \<mapsto> ''7'']"

text \<open>
  A large thumbnail without text beside a valid normal one; a large thumbnail that
  stores the URI and no time; a fail marker that stores the URI and no time.
\<close>

definition only_magick :: "backend \<Rightarrow> bool" where
  "only_magick b = (b = MagickBackend)"

definition fs_nokeys_normal :: fsys where
  "fs_nokeys_normal =
     fs_of [(''/tmp/a.jpg'', photo),
            (large_a, \<lparr>body = Image (256, 192) Map.empty, st_mtime = 1500, st_size = 5000\<rparr>),
            (normal_a, \<lparr>body = Image (128, 96) record_a, st_mtime = 1500, st_size = 2000\<rparr>)]"

definition uri_only :: "string \<rightharpoonup> string" where
  "uri_only = [KEY_URI \<mapsto> ''file:///tmp/a.jpg'']"

definition fs_nomtime :: fsys where
  "fs_nomtime =
     fs_of [(''/tmp/a.jpg'', photo),
            (large_a, \<lparr>body = Image (256, 192) uri_only, st_mtime = 1500, st_size = 5000\<rparr>)]"

definition fs_marker_nomtime :: fsys where
  "fs_marker_nomtime =
     fs_of [(''/tmp/a.jpg'', photo),
            (fail_a, \<lparr>body = Image (1, 1) uri_only, st_mtime = 1500, st_size = 70\<rparr>)]"

text \<open>
  A scratch file in the \<^verbatim>\<open>large\<close> directory that is not an image; a photograph that
  is not an image either; a preview image outside the cache.
\<close>

definition pdf_large :: path where
  "pdf_large = ''/home/u/.cache/thumbnails/large/667621a20c8e4b6ec0abf069cf1f8298.png''"

definition fs_junk :: fsys where
  "fs_junk =
     fs_of [(''/home/u/.cache/thumbnails'', dir_node),
            (''/home/u/.cache/thumbnails/large'', dir_node),
            (scratch_png, \<lparr>body = Data, st_mtime = 1900, st_size = 12\<rparr>)]"

definition fs_corrupt :: fsys where
  "fs_corrupt =
     fs_of [(''/tmp'', dir_node),
            (''/tmp/a.jpg'', \<lparr>body = Data, st_mtime = 1000, st_size = 34567\<rparr>),
            (''/home/u/.cache/thumbnails'', dir_node),
            (''/home/u/.cache/thumbnails/large'', dir_node),
            (''/home/u/.cache/thumbnails/fail'', dir_node),
            (''/home/u/.cache/thumbnails/fail/app-1.0'', dir_node)]"

definition preview_png :: path where
  "preview_png = ''/tmp/preview.png''"

definition fs_preview :: fsys where
  "fs_preview =
     fs_of [(''/tmp'', dir_node), (''/tmp/a.jpg'', photo),
            (preview_png, \<lparr>body = Image (256, 256) Map.empty, st_mtime = 1900, st_size = 7000\<rparr>),
            (''/home/u/.cache/thumbnails'', dir_node),
            (''/home/u/.cache/thumbnails/large'', dir_node),
            (''/home/u/.cache/thumbnails/fail'', dir_node),
            (''/home/u/.cache/thumbnails/fail/app-1.0'', dir_node)]"

section \<open>Predicates taken from the specification\<close>

text \<open>
  The scheme grammar in the specification's words: a letter, any number of letters,
  digits, dots, pluses and minuses, then a colon, at the start of the reference.
\<close>

definition scheme_grammar :: "string \<Rightarrow> bool" where
  "scheme_grammar s =
     (\<exists>c run rest. s = c # run @ CHR '':'' # rest \<and> ascii_alpha c \<and> list_all scheme_char run)"

text \<open>
  The text stored under a key in the image file at a path, if there is an image there:
  what the file holds, whichever backend reads it.
\<close>

definition stored_text :: "fsys \<Rightarrow> path \<Rightarrow> string \<Rightarrow> string option" where
  "stored_text st p k = (case load_image st p of None \<Rightarrow> None | Some (dims, txt) \<Rightarrow> txt k)"

text \<open>
  A stored record is valid for a URI and a modification time when the file holds that
  URI under \<open>Thumb::URI\<close> and, under \<open>Thumb::MTime\<close>, a text that reads as that time.
\<close>

definition record_valid :: "env \<Rightarrow> fsys \<Rightarrow> path \<Rightarrow> string \<Rightarrow> int \<Rightarrow> bool" where
  "record_valid E st p uri m =
     (stored_text st p KEY_URI = Some uri
      \<and> (case stored_text st p KEY_MTIME of None \<Rightarrow> False | Some s \<Rightarrow> parse_mtime E s = Inr m))"

section \<open>Notions used to state the lemmas\<close>

text \<open>
  What the loop of \<^verbatim>\<open>try_get_thumbnail\<close> does with a candidate whose check returns: the
  candidate is taken when it exists and either is the reference itself or the check
  returns true; it is passed over when it does not exist, or differs from the reference
  and the check returns false. A candidate whose check raises is neither.
\<close>

definition taken :: "env \<Rightarrow> fsys \<Rightarrow> string \<Rightarrow> int \<Rightarrow> path \<Rightarrow> bool" where
  "taken E st src m p =
     (path_exists st p \<and> (src = p \<or> is_thumbnail_valid E st p (any2uri E src) m = Inr True))"

definition passed_over :: "env \<Rightarrow> fsys \<Rightarrow> string \<Rightarrow> int \<Rightarrow> path \<Rightarrow> bool" where
  "passed_over E st src m p =
     (\<not> path_exists st p
      \<or> (src \<noteq> p \<and> is_thumbnail_valid E st p (any2uri E src) m = Inr False))"

text \<open>
  Reading the log of operations: every write goes to a file that \<^verbatim>\<open>mkstemp\<close> created
  earlier in the same run and that has not been renamed away since. \<open>temp_names st d\<close>
  are the paths \<^verbatim>\<open>mkstemp\<close> can create in directory \<open>d\<close>; \<open>delta_ok N st st'\<close> says that
  the operations logged between two states keep that discipline and create and write
  only paths of \<open>N\<close>; \<open>ends_with_rename st st' dest\<close> says no more than that the last of
  them renames some file onto \<open>dest\<close>.
\<close>

fun temp_discipline :: "path set \<Rightarrow> fsop list \<Rightarrow> bool" where
  "temp_discipline T [] = True"
| "temp_discipline T (Created p # ops) = temp_discipline (insert p T) ops"
| "temp_discipline T (Written p # ops) = (p \<in> T \<and> temp_discipline T ops)"
| "temp_discipline T (Renamed a b # ops) = temp_discipline (T - {a}) ops"
| "temp_discipline T (Moved a b # ops) = temp_discipline (T - {a}) ops"
| "temp_discipline T (Chmod p m # ops) = temp_discipline T ops"
| "temp_discipline T (MadeDir p # ops) = temp_discipline T ops"

definition temp_names :: "fsys \<Rightarrow> path \<Rightarrow> path set" where
  "temp_names st d = (\<lambda>n. path_join d (''tmp'' @ n @ ''.png'')) ` set (tmpnames st)"

definition delta_ok :: "path set \<Rightarrow> fsys \<Rightarrow> fsys \<Rightarrow> bool" where
  "delta_ok N st st' =
     (\<exists>ops. trace st' = trace st @ ops \<and> temp_discipline {} ops
        \<and> (\<forall>p. Created p \<in> set ops \<or> Written p \<in> set ops \<longrightarrow> p \<in> N))"

definition ends_with_rename :: "fsys \<Rightarrow> fsys \<Rightarrow> path \<Rightarrow> bool" where
  "ends_with_rename st st' dest =
     (\<exists>ops tmp. trace st' = trace st @ ops @ [Renamed tmp dest])"

section \<open>Properties\<close>

section \<open>Size arguments: what the parser returns and what its callers do with it\<close>

lemma any2size_aliases:
  "any2size (PyStr ''normal'') = Inr (SizePair 128 ''normal'')"
  "any2size (PyInt 128) = Inr (SizePair 128 ''normal'')"
  "any2size (PyStr ''128'') = Inr (SizePair 128 ''normal'')"
  "any2size (PyStr ''large'') = Inr (SizePair 256 ''large'')"
  "any2size (PyInt 256) = Inr (SizePair 256 ''large'')"
  "any2size (PyStr ''256'') = Inr (SizePair 256 ''large'')"
  by (simp_all add: any2size_def)

lemma any2size_numeric:
  "0 < n \<Longrightarrow> n < 128 \<Longrightarrow> any2size (PyInt n) = Inr (SizeBare 128)"
  "128 < n \<Longrightarrow> n < 256 \<Longrightarrow> any2size (PyInt n) = Inr (SizeBare 256)"
  "n \<le> 0 \<or> 256 < n \<Longrightarrow> any2size (PyInt n) = Inl ValueError"
  by (auto simp: any2size_def)

lemma any2size_other_string:
  "s \<notin> {''normal'', ''128'', ''large'', ''256''} \<Longrightarrow> any2size (PyStr s) = Inl TypeError"
  by (simp add: any2size_def)

lemma build_thumbnail_path_bare:
  "0 < n \<Longrightarrow> n \<le> 256 \<Longrightarrow> n \<noteq> 128 \<Longrightarrow> n \<noteq> 256 \<Longrightarrow>
     build_thumbnail_path E src (PyInt n) = Inl TypeError"
  by (auto simp: build_thumbnail_path_def any2size_def ebind_def subscript1_def)

lemma legacy_any2size_upper_range:
  "128 < n \<Longrightarrow> n < 256 \<Longrightarrow> legacy_any2size int_of_str (PyInt n) = Inr None"
  by (simp add: legacy_any2size_def)

text \<open>
  C4. The claim: a number in \<open>(0, 128]\<close> is mapped to the Normal class, a number in
  \<open>(128, 256]\<close> to the Large class, and every public operation taking a size accepts
  these. The code: for a number of either range other than 128 and 256, \<^verbatim>\<open>_any2size\<close>
  returns the bare box size, not the pair its callers subscript, so
  \<^verbatim>\<open>build_thumbnail_path\<close>, \<^verbatim>\<open>try_get_thumbnail\<close>, \<^verbatim>\<open>create_thumbnail\<close> and
  \<^verbatim>\<open>put_thumbnail\<close> raise \<open>TypeError\<close> on the sizes 100 and 200.
\<close>

theorem any2size_bare_integer_breaks_callers:
  "any2size (PyInt 100) = Inr (SizeBare 128)
   \<and> build_thumbnail_path E src (PyInt 100) = Inl TypeError
   \<and> try_get_thumbnail E st src (Some (PyInt 100)) (Some 0) = Inl TypeError
   \<and> create_thumbnail E st src (PyInt 100) moreinfo app = (Inl TypeError, st)
   \<and> put_thumbnail E st src (PyInt 100) thumb mtime moreinfo = (Inl TypeError, st)
   \<and> any2size (PyInt 200) = Inr (SizeBare 256)
   \<and> build_thumbnail_path E src (PyInt 200) = Inl TypeError"
  by (simp add: any2size_def build_thumbnail_path_def ebind_def subscript1_def subscript0_def
      try_get_thumbnail_def create_thumbnail_def put_thumbnail_def any2mtime_def int_float_def)

section \<open>Canonical URIs\<close>

lemma colon_not_scheme_char: "\<not> scheme_char CHR '':''"
  by (simp add: scheme_char_def ascii_alpha_def ascii_digit_def)

lemma dropWhile_run:
  "list_all P run \<Longrightarrow> \<not> P d \<Longrightarrow> dropWhile P (run @ d # rest) = d # rest"
  by (induction run) auto

text \<open>The executable matcher accepts exactly the strings of the grammar.\<close>

lemma URI_RE_match_grammar: "URI_RE_match s = scheme_grammar s"
proof
  assume "URI_RE_match s"
  then obtain c cs where s: "s = c # cs" and c: "ascii_alpha c"
    and d: "case dropWhile scheme_char cs of [] \<Rightarrow> False | d # ds \<Rightarrow> d = CHR '':''"
    by (auto simp: URI_RE_match_def split: list.splits)
  from d obtain ds where ds: "dropWhile scheme_char cs = CHR '':'' # ds"
    by (auto split: list.splits)
  have "cs = takeWhile scheme_char cs @ CHR '':'' # ds"
    using takeWhile_dropWhile_id [of scheme_char cs] ds by simp
  moreover have "list_all scheme_char (takeWhile scheme_char cs)"
    by (simp add: list_all_iff) (meson set_takeWhileD)
  ultimately show "scheme_grammar s"
    unfolding scheme_grammar_def using s c by blast
next
  assume "scheme_grammar s"
  then obtain c run rest where "s = c # run @ CHR '':'' # rest" "ascii_alpha c"
    "list_all scheme_char run"
    unfolding scheme_grammar_def by blast
  then show "URI_RE_match s"
    by (simp add: URI_RE_match_def dropWhile_run colon_not_scheme_char)
qed

lemma URI_RE_match_file:
  "URI_RE_match (CHR ''f'' # CHR ''i'' # CHR ''l'' # CHR ''e'' # CHR '':'' # x)"
  by (simp add: URI_RE_match_def ascii_alpha_def scheme_char_def ascii_digit_def)

lemma legacy_URI_RE_match_file:
  "legacy_URI_RE_match (CHR ''f'' # CHR ''i'' # CHR ''l'' # CHR ''e'' # CHR '':'' # x)"
  by (simp add: legacy_URI_RE_match_def ascii_alpha_def scheme_char_def ascii_digit_def)

lemma any2uri_fixed: "any2uri E (any2uri E r) = any2uri E r"
  by (simp add: any2uri_def URI_RE_match_file)

text \<open>
  C6. Canonicalisation is a function of the reference (and of the library's
  \<^verbatim>\<open>abspath\<close> and \<^verbatim>\<open>pathname2url\<close>); a reference of the scheme grammar is returned
  unchanged, any other becomes \<^verbatim>\<open>file://\<close> followed by the percent-encoded absolute
  path; and canonicalising a canonical URI returns it.
\<close>

theorem any2uri_idempotent:
  "any2uri E (any2uri E r) = any2uri E r
   \<and> (scheme_grammar r \<longrightarrow> any2uri E r = r)
   \<and> (\<not> scheme_grammar r \<longrightarrow> any2uri E r = ''file://'' @ pathname2url E (abspath E r))"
  by (simp add: any2uri_def URI_RE_match_file URI_RE_match_grammar [symmetric])

theorem any2uri_idempotent_witness:
  "any2uri (env_with only_pil) (any2uri (env_with only_pil) ''a b.jpg'')
     = any2uri (env_with only_pil) ''a b.jpg''
   \<and> any2uri (env_with only_pil) ''a b.jpg'' = ''file:///home/u/a%20b.jpg''
   \<and> scheme_grammar ''http://x/y.pdf''
   \<and> any2uri (env_with only_pil) ''http://x/y.pdf'' = ''http://x/y.pdf''"
proof -
  have 1: "any2uri (env_with only_pil) (any2uri (env_with only_pil) ''a b.jpg'')
             = any2uri (env_with only_pil) ''a b.jpg''"
    using any2uri_idempotent [of "env_with only_pil" "''a b.jpg''"] by blast
  have 2: "any2uri (env_with only_pil) ''a b.jpg'' = ''file:///home/u/a%20b.jpg''"
    by code_simp
  have 3: "scheme_grammar ''http://x/y.pdf''"
    unfolding URI_RE_match_grammar [symmetric]
    by (simp add: URI_RE_match_def ascii_alpha_def scheme_char_def ascii_digit_def)
  have 4: "any2uri (env_with only_pil) ''http://x/y.pdf'' = ''http://x/y.pdf''"
    using any2uri_idempotent [of "env_with only_pil" "''http://x/y.pdf''"] 3 by blast
  show ?thesis using 1 2 3 4 by blast
qed

text \<open>
  The older module's \<^verbatim>\<open>_any2uri\<close> is idempotent too, but it does not percent-encode the
  path, and it returns unchanged a reference whose scheme starts with a digit.
\<close>

lemma legacy_any2uri_idempotent: "legacy_any2uri E (legacy_any2uri E r) = legacy_any2uri E r"
  by (simp add: legacy_any2uri_def legacy_URI_RE_match_file)

lemma legacy_any2uri_digit_scheme:
  "legacy_any2uri E ''1a:x'' = ''1a:x'' \<and> \<not> scheme_grammar ''1a:x''"
  unfolding URI_RE_match_grammar [symmetric]
  by (simp add: legacy_any2uri_def legacy_URI_RE_match_def URI_RE_match_def ascii_alpha_def
      scheme_char_def ascii_digit_def)

section \<open>Thumbnail paths\<close>

lemma any2size_pair_cases:
  "any2size sz = Inr (SizePair px name) \<Longrightarrow>
     (px = 128 \<and> name = ''normal'') \<or> (px = 256 \<and> name = ''large'')"
  by (auto simp: any2size_def split: if_splits pyval.splits)

text \<open>
  Two references with one canonical URI and two thumbnail paths: a file inside the
  \<^verbatim>\<open>large\<close> directory is its own thumbnail path, while its \<^verbatim>\<open>file://\<close> URI is sent to
  the path of its digest.
\<close>

theorem same_uri_different_path:
  "any2uri (env_with only_pil) ''/home/u/.cache/thumbnails/large/abc.png''
     = any2uri (env_with only_pil) ''file:///home/u/.cache/thumbnails/large/abc.png''
   \<and> build_thumbnail_path (env_with only_pil) ''/home/u/.cache/thumbnails/large/abc.png''
         (PyStr ''large'')
       \<noteq> build_thumbnail_path (env_with only_pil)
           ''file:///home/u/.cache/thumbnails/large/abc.png'' (PyStr ''large'')"
  by code_simp

text \<open>
  C7, amended. For a size that names a class, the thumbnail path of a reference is the
  reference itself when it starts with the directory of that class, and otherwise the
  hexadecimal MD5 digest of its canonical URI, with \<^verbatim>\<open>.png\<close>, joined to that directory.
  Two references with the same canonical URI have the same identifier, and the same
  path when neither lies in that directory.
\<close>

theorem build_thumbnail_path_formula:
  assumes "any2size sz = Inr (SizePair px name)"
  shows "build_thumbnail_path E ref sz =
           Inr (if startswith ref (path_join (thumb_path_prefix E) name @ ''/'') then ref
                else path_join (path_join (thumb_path_prefix E) name)
                       (md5_hexdigest E (any2uri E ref) @ ''.png''))
         \<and> (any2uri E r1 = any2uri E r2 \<longrightarrow> hash_name E r1 = hash_name E r2)
         \<and> (any2uri E r1 = any2uri E r2
              \<and> \<not> startswith r1 (path_join (thumb_path_prefix E) name @ ''/'')
              \<and> \<not> startswith r2 (path_join (thumb_path_prefix E) name @ ''/'')
            \<longrightarrow> build_thumbnail_path E r1 sz = build_thumbnail_path E r2 sz)"
  using assms by (simp add: build_thumbnail_path_def ebind_def subscript1_def hash_name_def)

theorem build_thumbnail_path_formula_witness:
  "any2size (PyStr ''large'') = Inr (SizePair 256 ''large'')
   \<and> build_thumbnail_path (env_with only_pil) ''/tmp/a.jpg'' (PyStr ''large'')
       = Inr ''/home/u/.cache/thumbnails/large/fd3d4bbf23a83793d4c47b368af0416e.png''
   \<and> any2uri (env_with only_pil) ''/tmp/a.jpg'' = any2uri (env_with only_pil) ''file:///tmp/a.jpg''
   \<and> build_thumbnail_path (env_with only_pil) ''/tmp/a.jpg'' (PyStr ''large'')
       = build_thumbnail_path (env_with only_pil) ''file:///tmp/a.jpg'' (PyStr ''large'')"
proof -
  have s: "any2size (PyStr ''large'') = Inr (SizePair 256 ''large'')"
    by (simp add: any2size_def)
  have u: "any2uri (env_with only_pil) ''/tmp/a.jpg''
             = any2uri (env_with only_pil) ''file:///tmp/a.jpg''"
    by code_simp
  have n1: "\<not> startswith ''/tmp/a.jpg''
               (path_join (thumb_path_prefix (env_with only_pil)) ''large'' @ ''/'')"
    by code_simp
  have n2: "\<not> startswith ''file:///tmp/a.jpg''
               (path_join (thumb_path_prefix (env_with only_pil)) ''large'' @ ''/'')"
    by code_simp
  have v: "build_thumbnail_path (env_with only_pil) ''/tmp/a.jpg'' (PyStr ''large'')
             = Inr ''/home/u/.cache/thumbnails/large/fd3d4bbf23a83793d4c47b368af0416e.png''"
    by code_simp
  have "build_thumbnail_path (env_with only_pil) ''/tmp/a.jpg'' (PyStr ''large'')
          = build_thumbnail_path (env_with only_pil) ''file:///tmp/a.jpg'' (PyStr ''large'')"
    using build_thumbnail_path_formula [OF s, of "env_with only_pil" _ "''/tmp/a.jpg''"
        "''file:///tmp/a.jpg''"] u n1 n2
    by blast
  with s u v show ?thesis by blast
qed

section \<open>Reading the metadata of a stored thumbnail\<close>

lemma ebind_simps [simp]:
  "ebind (Inl e) f = Inl e"
  "ebind (Inr v) f = f v"
  by (simp_all add: ebind_def)

lemma parse_mtime_not_KeyError: "parse_mtime E s \<noteq> Inl KeyError"
  by (simp add: parse_mtime_def split: sum.splits parse_error.splits)

lemma parse_mtime_errors:
  "parse_mtime E s = Inl e \<Longrightarrow> e = ValueError \<or> e = OverflowError"
  by (auto simp: parse_mtime_def split: sum.splits parse_error.splits)

lemma load_nokeys: "load_image fs_nokeys large_a = Some ((256, 192), Map.empty)"
  by (simp add: load_image_def fs_nokeys_def fs_of_def large_a_def)

lemma load_badmtime:
  "load_image fs_badmtime large_a
     = Some ((256, 192), [KEY_MTIME \<mapsto> ''yesterday'', KEY_URI \<mapsto> ''file:///tmp/a.jpg''])"
  by (simp add: load_image_def fs_badmtime_def fs_of_def large_a_def)

lemma parse_yesterday: "parse_mtime (env_with a) ''yesterday'' = Inl ValueError"
  by (simp add: parse_mtime_def env_with_def dec_int_float_str_def dec_int_def ascii_digit_def)

text \<open>
  The PIL backend on an image file: \<open>KeyError\<close> when \<open>Thumb::MTime\<close> is absent, or when
  the time parses and \<open>Thumb::URI\<close> is absent; the parser's \<open>ValueError\<close> or
  \<open>OverflowError\<close> (never \<open>KeyError\<close>) when the stored time does not parse; a record
  only of the two stored values. The other two backends on a file without
  \<open>Thumb::MTime\<close>: the time 0.
\<close>

lemma pil_get_info_missing_keys:
  assumes "load_image st p = Some (dims, txt)"
  shows "(txt KEY_MTIME = None \<longrightarrow> backend_get_info E PilBackend st p = Inl KeyError)
       \<and> (\<forall>s m. txt KEY_MTIME = Some s \<and> parse_mtime E s = Inr m \<and> txt KEY_URI = None \<longrightarrow>
             backend_get_info E PilBackend st p = Inl KeyError)
       \<and> (\<forall>s e. txt KEY_MTIME = Some s \<and> parse_mtime E s = Inl e \<longrightarrow>
             backend_get_info E PilBackend st p = Inl e \<and> e \<noteq> KeyError)
       \<and> (\<forall>i. backend_get_info E PilBackend st p = Inr i \<longrightarrow>
             (\<exists>s u m. txt KEY_MTIME = Some s \<and> txt KEY_URI = Some u \<and> parse_mtime E s = Inr m
                \<and> i = Some \<lparr>info_mtime = m, info_uri = u\<rparr>))
       \<and> (b \<noteq> PilBackend \<and> txt KEY_MTIME = None \<longrightarrow>
             backend_get_info E b st p
               = Inr (Some \<lparr>info_mtime = 0, info_uri = text_or_empty txt KEY_URI\<rparr>))"
  using assms parse_mtime_not_KeyError [of E]
  by (cases b)
     (auto simp: backend_get_info_def text_or_empty_def ebind_def
        split: option.splits sum.splits)

lemma get_info_examples:
  "load_image fs_nokeys large_a = Some ((256, 192), Map.empty)
   \<and> backend_get_info (env_with only_pil) PilBackend fs_nokeys large_a = Inl KeyError
   \<and> backend_get_info (env_with only_pil) MagickBackend fs_nokeys large_a
       = Inr (Some \<lparr>info_mtime = 0, info_uri = []\<rparr>)
   \<and> backend_get_info (env_with only_pil) PilBackend fs_badmtime large_a = Inl ValueError"
proof -
  have 1: "backend_get_info (env_with only_pil) PilBackend fs_nokeys large_a = Inl KeyError"
    using pil_get_info_missing_keys [OF load_nokeys, where E = "env_with only_pil"] by simp
  have 2: "backend_get_info (env_with only_pil) MagickBackend fs_nokeys large_a
             = Inr (Some \<lparr>info_mtime = 0, info_uri = []\<rparr>)"
    using pil_get_info_missing_keys [OF load_nokeys, where E = "env_with only_pil"
        and b = MagickBackend]
    by (simp add: text_or_empty_def)
  have 3: "backend_get_info (env_with only_pil) PilBackend fs_badmtime large_a = Inl ValueError"
    using pil_get_info_missing_keys [OF load_badmtime, where E = "env_with only_pil"]
      parse_yesterday [of only_pil]
    by (simp add: KEY_MTIME_def KEY_URI_def)
  show ?thesis using load_nokeys 1 2 3 by blast
qed

lemma qt_backend: "get_backend (env_with only_qt) = Some QtBackend"
  by (simp add: get_backend_def env_with_def only_qt_def)

lemma magick_backend: "get_backend (env_with only_magick) = Some MagickBackend"
  by (simp add: get_backend_def env_with_def only_magick_def)

lemma pil_get_info_no_mtime:
  "load_image st p = Some (dims, tx) \<Longrightarrow> tx KEY_MTIME = None \<Longrightarrow>
     backend_get_info E PilBackend st p = Inl KeyError"
  by (simp add: backend_get_info_def)

lemma default_mtime:
  "b \<noteq> PilBackend \<Longrightarrow> load_image st p = Some (dims, tx) \<Longrightarrow>
   text_or_empty tx KEY_MTIME = [] \<Longrightarrow>
     backend_get_info E b st p
       = Inr (Some \<lparr>info_mtime = 0, info_uri = text_or_empty tx KEY_URI\<rparr>)"
  by (cases b) (simp_all add: backend_get_info_def)

text \<open>
C9. The claim: reading the metadata of a stored thumbnail reports a missing
  \<open>Thumb::MTime\<close> or \<open>Thumb::URI\<close> as such and never puts a value in its place. The
  code: on a PNG file without text the Qt and the Magick backend return a record with
  the modification time 0 and the empty URI, and the validity check then accepts the
  file for that URI and that time; the PIL backend raises \<open>KeyError\<close> on the same
  file.
\<close>

theorem get_info_substitutes_defaults:
  "stored_text fs_nokeys large_a KEY_MTIME = None
   \<and> stored_text fs_nokeys large_a KEY_URI = None
   \<and> backend_get_info (env_with only_qt) QtBackend fs_nokeys large_a
       = Inr (Some \<lparr>info_mtime = 0, info_uri = []\<rparr>)
   \<and> backend_get_info (env_with only_magick) MagickBackend fs_nokeys large_a
       = Inr (Some \<lparr>info_mtime = 0, info_uri = []\<rparr>)
   \<and> backend_get_info (env_with only_pil) PilBackend fs_nokeys large_a = Inl KeyError
   \<and> thumbnail_info (env_with only_qt) fs_nokeys large_a
       = Inr (Some \<lparr>info_mtime = 0, info_uri = []\<rparr>)
   \<and> thumbnail_info (env_with only_magick) fs_nokeys large_a
       = Inr (Some \<lparr>info_mtime = 0, info_uri = []\<rparr>)
   \<and> thumbnail_info (env_with only_pil) fs_nokeys large_a = Inl KeyError
   \<and> is_thumbnail_valid (env_with only_qt) fs_nokeys large_a [] 0 = Inr True"
proof -
  have "get_backend (env_with only_pil) = Some PilBackend"
    by (simp add: get_backend_def env_with_def only_pil_def)
  then show ?thesis
    by (simp add: stored_text_def load_nokeys default_mtime pil_get_info_no_mtime
        text_or_empty_def is_thumbnail_valid_def thumbnail_info_def qt_backend magick_backend)
qed

section \<open>The worked environment, evaluated\<close>

lemma iobind_simps [simp]:
  "iobind (Inl e, s) f = (Inl e, s)"
  "iobind (Inr v, s) f = f v s"
  by (simp_all add: iobind_def)

lemma rstrip_slash_last: "p \<noteq> [] \<Longrightarrow> last p \<noteq> CHR ''/'' \<Longrightarrow> rstrip_slash p = p"
  by (cases p rule: rev_cases) (auto simp: rstrip_slash_def)

lemma strip_trailing_last: "p \<noteq> [] \<Longrightarrow> last p \<noteq> CHR ''/'' \<Longrightarrow> strip_trailing p = p"
  by (simp add: strip_trailing_def rstrip_slash_last)

lemma temp_name_last:
  "path_join d (CHR ''t'' # CHR ''m'' # CHR ''p'' # n @ ''.png'') \<noteq> []"
  "last (path_join d (CHR ''t'' # CHR ''m'' # CHR ''p'' # n @ ''.png'')) = CHR ''g''"
  by (auto simp: path_join_def startswith_def)

lemma strip_trailing_temp_name [simp]:
  "strip_trailing (path_join d (CHR ''t'' # CHR ''m'' # CHR ''p'' # n @ ''.png''))
     = path_join d (CHR ''t'' # CHR ''m'' # CHR ''p'' # n @ ''.png'')"
  by (rule strip_trailing_last) (simp_all add: temp_name_last)

lemma strip_trailing_temp: "p \<in> temp_names st d \<Longrightarrow> strip_trailing p = p"
  by (auto simp: temp_names_def)

lemma strip_trailing_paths [simp]:
  "strip_trailing large_a = large_a" "strip_trailing normal_a = normal_a"
  "strip_trailing fail_a = fail_a" "strip_trailing scratch_png = scratch_png"
  "strip_trailing pdf_large = pdf_large" "strip_trailing preview_png = preview_png"
  "strip_trailing ''/home/u/.cache/thumbnails/large'' = ''/home/u/.cache/thumbnails/large''"
  "strip_trailing ''/home/u/.cache/thumbnails/normal'' = ''/home/u/.cache/thumbnails/normal''"
  "strip_trailing ''/home/u/.cache/thumbnails/fail/app-1.0''
     = ''/home/u/.cache/thumbnails/fail/app-1.0''"
  "strip_trailing ''/tmp'' = ''/tmp''"
  by (simp_all add: strip_trailing_last large_a_def normal_a_def fail_a_def scratch_png_def
      pdf_large_def preview_png_def)

lemma prefix_ex: "thumb_path_prefix (env_with a) = ''/home/u/.cache/thumbnails''"
  by code_simp

lemma uri_a: "any2uri (env_with a) ''/tmp/a.jpg'' = ''file:///tmp/a.jpg''"
  by code_simp

lemma hash_a: "hash_name (env_with a) ''/tmp/a.jpg'' = ''fd3d4bbf23a83793d4c47b368af0416e''"
  by (simp add: hash_name_def uri_a) (simp add: env_with_def md5_table_def)

lemma large_path_a:
  "build_thumbnail_path (env_with a) ''/tmp/a.jpg'' (PyStr ''large'') = Inr large_a"
  by (simp add: build_thumbnail_path_def any2size_def subscript1_def prefix_ex hash_a
      path_join_def startswith_def large_a_def)

lemma large_path_a256:
  "build_thumbnail_path (env_with a) ''/tmp/a.jpg'' (PyInt 256) = Inr large_a"
  by (simp add: build_thumbnail_path_def any2size_def subscript1_def prefix_ex hash_a
      path_join_def startswith_def large_a_def)

lemma normal_path_a:
  "build_thumbnail_path (env_with a) ''/tmp/a.jpg'' (PyStr ''normal'') = Inr normal_a"
  by (simp add: build_thumbnail_path_def any2size_def subscript1_def prefix_ex hash_a
      path_join_def startswith_def normal_a_def)

lemma fail_path_a: "fail_path (env_with a) ''/tmp/a.jpg'' ''app-1.0'' = fail_a"
  by (simp add: fail_path_def prefix_ex hash_a path_join_def startswith_def fail_a_def)

lemma dirname_large_a: "dirname large_a = ''/home/u/.cache/thumbnails/large''"
  by (simp add: dirname_def rstrip_slash_def large_a_def)

lemma dirname_fail_a: "dirname fail_a = ''/home/u/.cache/thumbnails/fail/app-1.0''"
  by (simp add: dirname_def rstrip_slash_def fail_a_def)

lemma no_backend_None: "get_backend (env_with no_backend) = None"
  by (simp add: get_backend_def env_with_def no_backend_def)

lemma pil_backend: "get_backend (env_with only_pil) = Some PilBackend"
  by (simp add: get_backend_def env_with_def only_pil_def)

lemma dec_1000: "dec_int_float_str ''1000'' = Inr 1000"
  by code_simp

lemma dec_999: "dec_int_float_str ''999'' = Inr 999"
  by code_simp

lemma dec_100: "dec_int_float_str ''100'' = Inr 100"
  by code_simp

lemma parse_1000: "parse_mtime (env_with a) ''1000'' = Inr 1000"
  by (simp add: parse_mtime_def env_with_def dec_1000)

lemma parse_999: "parse_mtime (env_with a) ''999'' = Inr 999"
  by (simp add: parse_mtime_def env_with_def dec_999)

lemma str_int_100: "str_int 100 = ''100''"
  by code_simp

lemma int_float_1000: "int_float 1000 = Inr 1000"
  by code_simp

lemma int_float_small: "int_float 0 = Inr 0" "int_float 100 = Inr 100" "int_float 200 = Inr 200"
  by code_simp+

lemma mtime_a:
  "any2mtime fs_cached (Some ''/tmp/a.jpg'') None = Inr 1000"
  "any2mtime fs_stale (Some ''/tmp/a.jpg'') None = Inr 1000"
  "any2mtime fs_fresh (Some ''/tmp/a.jpg'') None = Inr 1000"
  "any2mtime fs_failed (Some ''/tmp/a.jpg'') None = Inr 1000"
  by (simp_all add: any2mtime_def getmtime_def fs_cached_def fs_stale_def fs_fresh_def
      fs_failed_def fs_of_def photo_def large_a_def normal_a_def fail_a_def)

lemma fresh_facts:
  "getsize fs_fresh ''/tmp/a.jpg'' = Inr 34567"
  "getmtime fs_fresh (Some ''/tmp/a.jpg'') = Inr 1000"
  "isdir fs_fresh ''/home/u/.cache/thumbnails/large''"
  "isdir fs_fresh ''/home/u/.cache/thumbnails/fail/app-1.0''"
  "\<not> path_exists fs_fresh fail_a"
  by (simp_all add: getsize_def getmtime_def isdir_def path_exists_def fs_fresh_def fs_of_def
      photo_def dir_node_def is_Dir_def fail_a_def)

lemma no_slash_fresh: "\<forall>n \<in> set (tmpnames fs_fresh). CHR ''/'' \<notin> set n"
  by (simp add: fs_fresh_def fs_of_def)

lemma uri_pdf: "any2uri (env_with a) ''http://x/y.pdf'' = ''http://x/y.pdf''"
  by (simp add: any2uri_def URI_RE_match_def ascii_alpha_def scheme_char_def ascii_digit_def)

lemma large_path_pdf:
  "build_thumbnail_path (env_with a) ''http://x/y.pdf'' (PyStr ''large'')
     = Inr ''/home/u/.cache/thumbnails/large/667621a20c8e4b6ec0abf069cf1f8298.png''"
  by (simp add: build_thumbnail_path_def any2size_def subscript1_def prefix_ex hash_name_def
      uri_pdf path_join_def startswith_def)
     (simp add: env_with_def md5_table_def)

lemma info_record_a:
  "load_image st p = Some (dims, record_a) \<Longrightarrow>
     backend_get_info (env_with a) PilBackend st p
       = Inr (Some \<lparr>info_mtime = 1000, info_uri = ''file:///tmp/a.jpg''\<rparr>)"
  by (simp add: backend_get_info_def record_a_def parse_1000 KEY_MTIME_def KEY_URI_def)

section \<open>Looking a thumbnail up\<close>

lemma is_thumbnail_valid_True:
  "is_thumbnail_valid E st p u m = Inr True \<longleftrightarrow>
     (\<exists>b i. get_backend E = Some b \<and> backend_get_info E b st p = Inr (Some i)
        \<and> info_uri i = u \<and> info_mtime i = m)"
  by (auto simp: is_thumbnail_valid_def split: option.splits sum.splits)

lemma is_thumbnail_valid_False:
  "is_thumbnail_valid E st p u m = Inr False \<longleftrightarrow>
     (\<exists>b i. get_backend E = Some b \<and> backend_get_info E b st p = Inr (Some i)
        \<and> \<not> (info_uri i = u \<and> info_mtime i = m))"
  by (auto simp: is_thumbnail_valid_def split: option.splits sum.splits)

lemma try_sizes_hit:
  "build_thumbnail_path E src sz = Inr p \<Longrightarrow> taken E st src m p \<Longrightarrow>
     try_sizes E st src (any2uri E src) m (sz # sizes) = Inr (Some p)"
  by (auto simp: taken_def)

lemma try_sizes_miss:
  "build_thumbnail_path E src sz = Inr p \<Longrightarrow> passed_over E st src m p \<Longrightarrow>
     try_sizes E st src (any2uri E src) m (sz # sizes)
       = try_sizes E st src (any2uri E src) m sizes"
  by (auto simp: passed_over_def)

text \<open>
An exception raised while the metadata of an existing candidate is read ends the
  probe: the sizes after it are not tried.
\<close>

lemma try_sizes_raises:
  "build_thumbnail_path E src sz = Inr p \<Longrightarrow> path_exists st p \<Longrightarrow> src \<noteq> p \<Longrightarrow>
   is_thumbnail_valid E st p (any2uri E src) m = Inl e \<Longrightarrow>
     try_sizes E st src (any2uri E src) m (sz # sizes) = Inl e"
  by simp

lemma try_sizes_Nil: "try_sizes E st src u m [] = Inr None"
  by simp

lemma try_get_thumbnail_unfold:
  "any2mtime st (Some src) mtime = Inr m \<Longrightarrow>
     try_get_thumbnail E st src sz mtime
       = try_sizes E st src (any2uri E src) m
           (case sz of None \<Rightarrow> [PyStr ''large'', PyStr ''normal''] | Some s \<Rightarrow> [s])"
  by (simp add: try_get_thumbnail_def del: try_sizes.simps)

text \<open>
When the check of every candidate that is reached returns: with the size omitted the
  candidates are the large path, then the normal path; with a size given, the path of
  that size. The first candidate taken is returned, and when every candidate is passed
  over the result is \<^verbatim>\<open>None\<close>. The check returns true exactly when the backend reports
  a record with the canonical URI of the reference and the expected time.
\<close>

lemma try_get_thumbnail_checks_return:
  assumes m: "any2mtime st (Some src) mtime = Inr m"
    and L: "build_thumbnail_path E src (PyStr ''large'') = Inr L"
    and N: "build_thumbnail_path E src (PyStr ''normal'') = Inr N"
  shows "(taken E st src m L \<longrightarrow> try_get_thumbnail E st src None mtime = Inr (Some L))
       \<and> (passed_over E st src m L \<and> taken E st src m N \<longrightarrow>
            try_get_thumbnail E st src None mtime = Inr (Some N))
       \<and> (passed_over E st src m L \<and> passed_over E st src m N \<longrightarrow>
            try_get_thumbnail E st src None mtime = Inr None)
       \<and> (\<forall>s p. build_thumbnail_path E src s = Inr p \<longrightarrow>
            (taken E st src m p \<longrightarrow> try_get_thumbnail E st src (Some s) mtime = Inr (Some p))
            \<and> (passed_over E st src m p \<longrightarrow> try_get_thumbnail E st src (Some s) mtime = Inr None))
       \<and> (\<forall>p. is_thumbnail_valid E st p (any2uri E src) m = Inr True \<longleftrightarrow>
            (\<exists>b i. get_backend E = Some b \<and> backend_get_info E b st p = Inr (Some i)
               \<and> info_uri i = any2uri E src \<and> info_mtime i = m))"
proof -
  have 1: "try_get_thumbnail E st src None mtime = Inr (Some L)" if "taken E st src m L"
    using that by (simp add: try_get_thumbnail_unfold [OF m] try_sizes_hit [OF L]
        del: try_sizes.simps)
  have 2: "try_get_thumbnail E st src None mtime = Inr (Some N)"
    if "passed_over E st src m L" "taken E st src m N"
    using that by (simp add: try_get_thumbnail_unfold [OF m] try_sizes_miss [OF L]
        try_sizes_hit [OF N] del: try_sizes.simps)
  have 3: "try_get_thumbnail E st src None mtime = Inr None"
    if "passed_over E st src m L" "passed_over E st src m N"
    using that by (simp add: try_get_thumbnail_unfold [OF m] try_sizes_miss [OF L]
        try_sizes_miss [OF N] try_sizes_Nil del: try_sizes.simps)
  have 4: "try_get_thumbnail E st src (Some s) mtime = Inr (Some p)"
    if "build_thumbnail_path E src s = Inr p" "taken E st src m p" for s p
    using that by (simp add: try_get_thumbnail_unfold [OF m] try_sizes_hit
        del: try_sizes.simps)
  have 5: "try_get_thumbnail E st src (Some s) mtime = Inr None"
    if "build_thumbnail_path E src s = Inr p" "passed_over E st src m p" for s p
    using that by (simp add: try_get_thumbnail_unfold [OF m] try_sizes_miss try_sizes_Nil
        del: try_sizes.simps)
  show ?thesis
    using 1 2 3 4 5 is_thumbnail_valid_True by blast
qed

lemma hit_cached: "taken (env_with only_pil) fs_cached ''/tmp/a.jpg'' 1000 large_a"
proof -
  have "load_image fs_cached large_a = Some ((256, 192), record_a)"
    by (simp add: load_image_def fs_cached_def fs_of_def large_a_def)
  then have "is_thumbnail_valid (env_with only_pil) fs_cached large_a ''file:///tmp/a.jpg'' 1000
               = Inr True"
    by (simp add: is_thumbnail_valid_def pil_backend info_record_a)
  moreover have "path_exists fs_cached large_a"
    by (simp add: path_exists_def fs_cached_def fs_of_def large_a_def)
  ultimately show ?thesis by (simp add: taken_def uri_a)
qed

lemma miss_fresh:
  "passed_over E fs_fresh src m large_a" "passed_over E fs_fresh src m normal_a"
  "passed_over E fs_failed src m large_a" "passed_over E fs_failed src m normal_a"
  by (simp_all add: passed_over_def path_exists_def fs_fresh_def fs_failed_def fs_of_def large_a_def
      normal_a_def fail_a_def)

lemma miss_stale: "passed_over (env_with only_pil) fs_stale ''/tmp/a.jpg'' 1000 large_a"
proof -
  have "load_image fs_stale large_a
          = Some ((256, 192), [KEY_MTIME \<mapsto> ''999'', KEY_URI \<mapsto> ''file:///tmp/a.jpg''])"
    by (simp add: load_image_def fs_stale_def fs_of_def large_a_def)
  then have "is_thumbnail_valid (env_with only_pil) fs_stale large_a ''file:///tmp/a.jpg'' 1000
               = Inr False"
    by (simp add: is_thumbnail_valid_def pil_backend backend_get_info_def parse_999
        KEY_MTIME_def KEY_URI_def)
  then show ?thesis by (simp add: passed_over_def uri_a large_a_def)
qed

lemma hit_stale: "taken (env_with only_pil) fs_stale ''/tmp/a.jpg'' 1000 normal_a"
proof -
  have "load_image fs_stale normal_a = Some ((128, 96), record_a)"
    by (simp add: load_image_def fs_stale_def fs_of_def large_a_def normal_a_def)
  then have "is_thumbnail_valid (env_with only_pil) fs_stale normal_a ''file:///tmp/a.jpg'' 1000
               = Inr True"
    by (simp add: is_thumbnail_valid_def pil_backend info_record_a)
  moreover have "path_exists fs_stale normal_a"
    by (simp add: path_exists_def fs_stale_def fs_of_def large_a_def normal_a_def)
  ultimately show ?thesis by (simp add: taken_def uri_a)
qed

lemma try_get_thumbnail_examples:
  "try_get_thumbnail (env_with only_pil) fs_cached ''/tmp/a.jpg'' None None = Inr (Some large_a)
   \<and> try_get_thumbnail (env_with only_pil) fs_stale ''/tmp/a.jpg'' None None = Inr (Some normal_a)
   \<and> try_get_thumbnail (env_with only_pil) fs_fresh ''/tmp/a.jpg'' None None = Inr None
   \<and> try_get_thumbnail (env_with only_pil) fs_stale ''/tmp/a.jpg'' (Some (PyStr ''large'')) None
       = Inr None"
proof -
  note L = large_path_a [of only_pil] and N = normal_path_a [of only_pil]
  have 1: "try_get_thumbnail (env_with only_pil) fs_cached ''/tmp/a.jpg'' None None
             = Inr (Some large_a)"
    using try_get_thumbnail_checks_return [OF mtime_a(1) L N] hit_cached by blast
  have 2: "try_get_thumbnail (env_with only_pil) fs_stale ''/tmp/a.jpg'' None None
             = Inr (Some normal_a)"
    using try_get_thumbnail_checks_return [OF mtime_a(2) L N] miss_stale hit_stale by blast
  have 3: "try_get_thumbnail (env_with only_pil) fs_fresh ''/tmp/a.jpg'' None None = Inr None"
    using try_get_thumbnail_checks_return [OF mtime_a(3) L N] miss_fresh(1,2) by blast
  have 4: "try_get_thumbnail (env_with only_pil) fs_stale ''/tmp/a.jpg''
             (Some (PyStr ''large'')) None = Inr None"
    using try_get_thumbnail_checks_return [OF mtime_a(2) L N] L miss_stale by blast
  show ?thesis using 1 2 3 4 by blast
qed

lemma load_nokeys_normal:
  "load_image fs_nokeys_normal large_a = Some ((256, 192), Map.empty)"
  "load_image fs_nokeys_normal normal_a = Some ((128, 96), record_a)"
  "path_exists fs_nokeys_normal large_a" "path_exists fs_nokeys_normal normal_a"
  "path_exists fs_nokeys large_a" "\<not> path_exists fs_nokeys normal_a"
  "any2mtime fs_nokeys_normal (Some ''/tmp/a.jpg'') None = Inr 1000"
  "any2mtime fs_nokeys (Some ''/tmp/a.jpg'') None = Inr 1000"
  by (simp_all add: load_image_def path_exists_def any2mtime_def getmtime_def
      fs_nokeys_normal_def fs_nokeys_def fs_of_def large_a_def normal_a_def photo_def)

lemma load_nomtime:
  "load_image fs_nomtime large_a = Some ((256, 192), uri_only)"
  "path_exists fs_nomtime large_a"
  "load_image fs_marker_nomtime fail_a = Some ((1, 1), uri_only)"
  "path_exists fs_marker_nomtime fail_a"
  by (simp_all add: load_image_def path_exists_def fs_nomtime_def fs_marker_nomtime_def
      fs_of_def large_a_def fail_a_def)

lemma uri_only_keys:
  "uri_only KEY_MTIME = None" "uri_only KEY_URI = Some ''file:///tmp/a.jpg''"
  by (simp_all add: uri_only_def KEY_MTIME_def KEY_URI_def)

lemma record_a_keys:
  "record_a KEY_MTIME = Some ''1000''" "record_a KEY_URI = Some ''file:///tmp/a.jpg''"
  by (simp_all add: record_a_def KEY_MTIME_def KEY_URI_def)

text \<open>
C1. The claim: \<^verbatim>\<open>try_get_thumbnail\<close> returns the first candidate, large then normal,
  that exists and stores the canonical URI and the modification time of the source, and
  \<^verbatim>\<open>None\<close> when no candidate is valid. The code: with the PIL backend, a large
  thumbnail without \<open>Thumb::MTime\<close> makes the call raise \<open>KeyError\<close>; the valid
  normal thumbnail beside it is never looked at, and without a normal thumbnail the
  result is not \<^verbatim>\<open>None\<close> either. With the Qt backend, a large thumbnail that stores
  the URI and no time is returned for the time 0.
\<close>

theorem try_get_thumbnail_unreadable_candidate:
  "build_thumbnail_path (env_with only_pil) ''/tmp/a.jpg'' (PyStr ''large'') = Inr large_a
   \<and> build_thumbnail_path (env_with only_pil) ''/tmp/a.jpg'' (PyStr ''normal'') = Inr normal_a
   \<and> any2uri (env_with only_pil) ''/tmp/a.jpg'' = ''file:///tmp/a.jpg''
   \<and> any2mtime fs_nokeys_normal (Some ''/tmp/a.jpg'') None = Inr 1000
   \<and> path_exists fs_nokeys_normal large_a
   \<and> \<not> record_valid (env_with only_pil) fs_nokeys_normal large_a ''file:///tmp/a.jpg'' 1000
   \<and> path_exists fs_nokeys_normal normal_a
   \<and> record_valid (env_with only_pil) fs_nokeys_normal normal_a ''file:///tmp/a.jpg'' 1000
   \<and> try_get_thumbnail (env_with only_pil) fs_nokeys_normal ''/tmp/a.jpg'' None None
       = Inl KeyError
   \<and> \<not> record_valid (env_with only_pil) fs_nokeys large_a ''file:///tmp/a.jpg'' 1000
   \<and> \<not> path_exists fs_nokeys normal_a
   \<and> try_get_thumbnail (env_with only_pil) fs_nokeys ''/tmp/a.jpg'' None None = Inl KeyError
   \<and> stored_text fs_nomtime large_a KEY_MTIME = None
   \<and> \<not> record_valid (env_with only_qt) fs_nomtime large_a ''file:///tmp/a.jpg'' 0
   \<and> try_get_thumbnail (env_with only_qt) fs_nomtime ''/tmp/a.jpg'' None (Some 0)
       = Inr (Some large_a)"
proof -
  have neq: "''/tmp/a.jpg'' \<noteq> large_a" by (simp add: large_a_def)
  have v1: "is_thumbnail_valid (env_with only_pil) fs_nokeys_normal large_a ''file:///tmp/a.jpg''
              1000 = Inl KeyError"
    by (simp add: is_thumbnail_valid_def pil_backend pil_get_info_no_mtime [OF load_nokeys_normal(1)])
  have v2: "is_thumbnail_valid (env_with only_pil) fs_nokeys large_a ''file:///tmp/a.jpg''
              1000 = Inl KeyError"
    by (simp add: is_thumbnail_valid_def pil_backend pil_get_info_no_mtime [OF load_nokeys])
  have v3: "is_thumbnail_valid (env_with only_qt) fs_nomtime large_a ''file:///tmp/a.jpg'' 0
              = Inr True"
    by (simp add: is_thumbnail_valid_def qt_backend default_mtime [OF _ load_nomtime(1)]
        text_or_empty_def uri_only_keys)
  have 1: "try_get_thumbnail (env_with only_pil) fs_nokeys_normal ''/tmp/a.jpg'' None None
             = Inl KeyError"
    using try_sizes_raises [OF large_path_a load_nokeys_normal(3) neq, of only_pil 1000 KeyError]
    by (simp add: try_get_thumbnail_unfold [OF load_nokeys_normal(7)] uri_a v1
        del: try_sizes.simps)
  have 2: "try_get_thumbnail (env_with only_pil) fs_nokeys ''/tmp/a.jpg'' None None
             = Inl KeyError"
    using try_sizes_raises [OF large_path_a load_nokeys_normal(5) neq, of only_pil 1000 KeyError]
    by (simp add: try_get_thumbnail_unfold [OF load_nokeys_normal(8)] uri_a v2
        del: try_sizes.simps)
  have m0: "any2mtime fs_nomtime (Some ''/tmp/a.jpg'') (Some 0) = Inr 0"
    by (simp add: any2mtime_def int_float_small)
  have 3: "try_get_thumbnail (env_with only_qt) fs_nomtime ''/tmp/a.jpg'' None (Some 0)
             = Inr (Some large_a)"
    using try_sizes_hit [OF large_path_a, of only_qt fs_nomtime 0]
    by (simp add: try_get_thumbnail_unfold [OF m0] taken_def load_nomtime(2) uri_a v3
        del: try_sizes.simps)
  have r1: "\<not> record_valid (env_with only_pil) fs_nokeys_normal large_a ''file:///tmp/a.jpg'' 1000"
    by (simp add: record_valid_def stored_text_def load_nokeys_normal)
  have r2: "record_valid (env_with only_pil) fs_nokeys_normal normal_a ''file:///tmp/a.jpg'' 1000"
    by (simp add: record_valid_def stored_text_def load_nokeys_normal record_a_keys parse_1000)
  have r3: "\<not> record_valid (env_with only_pil) fs_nokeys large_a ''file:///tmp/a.jpg'' 1000"
    by (simp add: record_valid_def stored_text_def load_nokeys)
  have s: "stored_text fs_nomtime large_a KEY_MTIME = None"
    by (simp add: stored_text_def load_nomtime uri_only_keys)
  have r4: "\<not> record_valid (env_with only_qt) fs_nomtime large_a ''file:///tmp/a.jpg'' 0"
    by (simp add: record_valid_def s)
  show ?thesis
    using large_path_a [of only_pil] normal_path_a [of only_pil] uri_a [of only_pil]
      load_nokeys_normal(3,4,6,7) r1 r2 r3 r4 1 2 3 s
    by blast
qed

section \<open>Retrieve or generate\<close>

text \<open>
C3. \<^verbatim>\<open>get_thumbnail\<close> returns the path \<^verbatim>\<open>try_get_thumbnail\<close> finds, leaving the file
  system as it is; when nothing is found, an application name is given and its fail
  marker is valid for the current modification time, it returns \<^verbatim>\<open>None\<close>, again
  without touching the file system; otherwise it is \<^verbatim>\<open>create_thumbnail\<close> at the given
  size, or at \<^verbatim>\<open>large\<close> when none is given.
\<close>

theorem get_thumbnail_state_machine:
  "(try_get_thumbnail E st src sz None = Inr (Some p) \<longrightarrow>
      get_thumbnail E st src sz app = (Inr (Some p), st))
   \<and> (try_get_thumbnail E st src sz None = Inr None \<and> app = Some a
        \<and> any2mtime st (Some src) None = Inr m
        \<and> is_thumbnail_failed E st src a (Some m) = Inr True \<longrightarrow>
      get_thumbnail E st src sz app = (Inr None, st))
   \<and> (try_get_thumbnail E st src sz None = Inr None
        \<and> (app = None \<or> (app = Some a \<and> any2mtime st (Some src) None = Inr m
              \<and> is_thumbnail_failed E st src a (Some m) = Inr False)) \<longrightarrow>
      get_thumbnail E st src sz app
        = create_thumbnail E st src (case sz of None \<Rightarrow> PyStr ''large'' | Some s \<Rightarrow> s) None app)"
  by (auto simp: get_thumbnail_def)

lemma try_get_cached:
  "try_get_thumbnail (env_with only_pil) fs_cached ''/tmp/a.jpg'' None None = Inr (Some large_a)"
  by (simp add: try_get_thumbnail_unfold [OF mtime_a(1)] try_sizes_hit [OF large_path_a hit_cached]
      del: try_sizes.simps)

lemma try_get_nothing:
  "try_get_thumbnail (env_with a) fs_fresh ''/tmp/a.jpg'' None None = Inr None"
  "try_get_thumbnail (env_with a) fs_failed ''/tmp/a.jpg'' None None = Inr None"
  by (simp_all add: try_get_thumbnail_unfold [OF mtime_a(3)] try_get_thumbnail_unfold [OF mtime_a(4)]
      try_sizes_miss [OF large_path_a] try_sizes_miss [OF normal_path_a] miss_fresh try_sizes_Nil
      del: try_sizes.simps)

lemma failed_marker:
  "is_thumbnail_failed (env_with only_pil) fs_failed ''/tmp/a.jpg'' ''app-1.0'' (Some 1000) = Inr True"
proof -
  have "load_image fs_failed fail_a = Some ((1, 1), record_a)"
    by (simp add: load_image_def fs_failed_def fs_of_def fail_a_def)
  then have "is_thumbnail_valid (env_with only_pil) fs_failed fail_a ''file:///tmp/a.jpg'' 1000
               = Inr True"
    by (simp add: is_thumbnail_valid_def pil_backend info_record_a)
  moreover have "path_exists fs_failed fail_a"
    by (simp add: path_exists_def fs_failed_def fs_of_def fail_a_def)
  ultimately show ?thesis
    by (simp add: is_thumbnail_failed_def any2mtime_def int_float_1000 fail_path_a uri_a)
qed

theorem get_thumbnail_state_machine_witness:
  "get_thumbnail (env_with only_pil) fs_cached ''/tmp/a.jpg'' None None
     = (Inr (Some large_a), fs_cached)
   \<and> get_thumbnail (env_with only_pil) fs_failed ''/tmp/a.jpg'' None (Some ''app-1.0'')
       = (Inr None, fs_failed)
   \<and> get_thumbnail (env_with only_pil) fs_fresh ''/tmp/a.jpg'' None None
       = create_thumbnail (env_with only_pil) fs_fresh ''/tmp/a.jpg'' (PyStr ''large'') None None"
proof -
  have 1: "get_thumbnail (env_with only_pil) fs_cached ''/tmp/a.jpg'' None None
             = (Inr (Some large_a), fs_cached)"
    using get_thumbnail_state_machine [of "env_with only_pil" fs_cached "''/tmp/a.jpg''" None
        large_a None] try_get_cached
    by blast
  have 2: "get_thumbnail (env_with only_pil) fs_failed ''/tmp/a.jpg'' None (Some ''app-1.0'')
             = (Inr None, fs_failed)"
    using get_thumbnail_state_machine [of "env_with only_pil" fs_failed "''/tmp/a.jpg''" None
        _ "Some ''app-1.0''" "''app-1.0''" 1000] try_get_nothing(2) mtime_a(4) failed_marker
    by blast
  have 3: "get_thumbnail (env_with only_pil) fs_fresh ''/tmp/a.jpg'' None None
             = create_thumbnail (env_with only_pil) fs_fresh ''/tmp/a.jpg'' (PyStr ''large'')
                 None None"
    using get_thumbnail_state_machine [of "env_with only_pil" fs_fresh "''/tmp/a.jpg''" None
        _ None] try_get_nothing(1)
    by simp
  show ?thesis using 1 2 3 by blast
qed

section \<open>No backend\<close>

text \<open>
Without a backend, \<^verbatim>\<open>get_backend()\<close> is \<^verbatim>\<open>None\<close> and the method call on it raises
  \<open>AttributeError\<close>: none of the three writers returns.
\<close>

lemma create_thumbnail_no_backend:
  "get_backend E = None \<Longrightarrow> \<exists>e. fst (create_thumbnail E st src sz mi app) = Inl e"
  by (auto simp: create_thumbnail_def iobind_def Let_def split: sum.splits prod.splits)

lemma put_fail_no_backend:
  "get_backend E = None \<Longrightarrow> \<exists>e. fst (put_fail E st src a mtime mi) = Inl e"
  by (auto simp: put_fail_def iobind_def Let_def split: sum.splits prod.splits)

lemma put_thumbnail_no_backend:
  "get_backend E = None \<Longrightarrow> \<exists>e. fst (put_thumbnail E st src sz thumb mtime mi) = Inl e"
  by (auto simp: put_thumbnail_def iobind_def Let_def split: sum.splits prod.splits)

lemma info_dict_total:
  "any2mtime st (Some src) mtime = Inr m \<Longrightarrow> \<exists>d. info_dict E st mi mtime (Some src) = Inr d"
  by (simp add: info_dict_def Let_def)

lemma create_thumbnail_AttributeError:
  assumes "get_backend E = None" "ebind (any2size sz) subscript0 = Inr px"
    "getsize st src = Inr n" "build_thumbnail_path E src (PyInt px) = Inr dest"
    "getmtime st (Some src) = Inr m" "isdir st (dirname dest)"
  shows "create_thumbnail E st src sz mi app = (Inl AttributeError, st)"
  using assms by (simp add: create_thumbnail_def info_dict_def Let_def any2mtime_def)

lemma put_fail_AttributeError:
  assumes "get_backend E = None"
    "isdir st (path_join (path_join (thumb_path_prefix E) ''fail'') appname)"
    "any2mtime st (Some src) mtime = Inr m"
  shows "put_fail E st src appname mtime mi = (Inl AttributeError, st)"
  using assms by (simp add: put_fail_def info_dict_def Let_def)

lemma put_thumbnail_AttributeError:
  assumes "get_backend E = None" "build_thumbnail_path E src sz = Inr dest" "dest \<noteq> thumb"
    "dirname dest = dirname thumb" "any2mtime st (Some src) mtime = Inr m"
  shows "put_thumbnail E st src sz thumb mtime mi = (Inl AttributeError, st)"
  using assms by (simp add: put_thumbnail_def info_dict_def Let_def)

text \<open>
C5. The claim: with no backend available the generating calls return \<^verbatim>\<open>None\<close> or
  a failure value and never raise. The code: \<^verbatim>\<open>create_thumbnail\<close>, \<^verbatim>\<open>get_thumbnail\<close>,
  \<^verbatim>\<open>put_fail\<close> and \<^verbatim>\<open>put_thumbnail\<close> raise \<open>AttributeError\<close> on an existing image.
  The path-only operations do work: the thumbnail path is computed, and a fail marker
  that does not exist is reported absent.
\<close>

theorem no_backend_raises:
  "get_backend (env_with no_backend) = None
   \<and> create_thumbnail (env_with no_backend) fs_fresh ''/tmp/a.jpg'' (PyStr ''large'') None None
       = (Inl AttributeError, fs_fresh)
   \<and> get_thumbnail (env_with no_backend) fs_fresh ''/tmp/a.jpg'' None None
       = (Inl AttributeError, fs_fresh)
   \<and> put_fail (env_with no_backend) fs_fresh ''/tmp/a.jpg'' ''app-1.0'' (Some 100) None
       = (Inl AttributeError, fs_fresh)
   \<and> put_thumbnail (env_with no_backend) fs_scratch ''http://x/y.pdf'' (PyStr ''large'')
         scratch_png (Some 0) None
       = (Inl AttributeError, fs_scratch)
   \<and> build_thumbnail_path (env_with no_backend) ''/tmp/a.jpg'' (PyStr ''large'') = Inr large_a
   \<and> is_thumbnail_failed (env_with no_backend) fs_fresh ''/tmp/a.jpg'' ''app-1.0'' (Some 100)
       = Inr False"
proof -
  have c: "create_thumbnail (env_with no_backend) fs_fresh ''/tmp/a.jpg'' (PyStr ''large'') None
             None = (Inl AttributeError, fs_fresh)"
    by (rule create_thumbnail_AttributeError [OF no_backend_None _ fresh_facts(1)
          large_path_a256 fresh_facts(2)])
       (simp_all add: any2size_def subscript0_def dirname_large_a fresh_facts)
  have g: "get_thumbnail (env_with no_backend) fs_fresh ''/tmp/a.jpg'' None None
             = (Inl AttributeError, fs_fresh)"
    by (simp add: get_thumbnail_def try_get_nothing c)
  have f: "put_fail (env_with no_backend) fs_fresh ''/tmp/a.jpg'' ''app-1.0'' (Some 100) None
             = (Inl AttributeError, fs_fresh)"
    by (rule put_fail_AttributeError [OF no_backend_None, where m = 100])
       (simp_all add: prefix_ex path_join_def startswith_def fresh_facts any2mtime_def
          int_float_small)
  have p: "put_thumbnail (env_with no_backend) fs_scratch ''http://x/y.pdf'' (PyStr ''large'')
             scratch_png (Some 0) None = (Inl AttributeError, fs_scratch)"
    by (rule put_thumbnail_AttributeError [OF no_backend_None large_path_pdf, where m = 0])
       (simp_all add: scratch_png_def dirname_def rstrip_slash_def any2mtime_def int_float_small)
  have i: "is_thumbnail_failed (env_with no_backend) fs_fresh ''/tmp/a.jpg'' ''app-1.0''
             (Some 100) = Inr False"
    by (simp add: is_thumbnail_failed_def any2mtime_def int_float_small fail_path_a fresh_facts)
  show ?thesis using no_backend_None c g f p large_path_a i by blast
qed

section \<open>Temporary files and the primitives that change the file system\<close>

lemma first_free_Some:
  "first_free ns dir names = Some (p, rs) \<Longrightarrow>
     (\<exists>n \<in> set names. p = path_join dir (''tmp'' @ n @ ''.png'')) \<and> ns p = None
       \<and> set rs \<subseteq> set names"
  by (induction names) (auto simp: Let_def split: option.splits)

lemma log_op_simps [simp]:
  "trace (log_op x st) = trace st @ [x]"
  "nodes (log_op x st) = nodes st"
  "tmpnames (log_op x st) = tmpnames st"
  "clock (log_op x st) = clock st"
  by (simp_all add: log_op_def)

lemma tempfile_mkstemp_Inr:
  assumes "tempfile_mkstemp st dir = (Inr p, st1)"
  shows "p \<in> temp_names st dir" "nodes st p = None" "isdir st dir"
    "nodes st1 = (nodes st)(p \<mapsto> \<lparr>body = Data, st_mtime = clock st, st_size = 0\<rparr>)"
    "trace st1 = trace st @ [Created p]" "set (tmpnames st1) \<subseteq> set (tmpnames st)"
    "clock st1 = clock st"
  using assms
  by (auto simp: tempfile_mkstemp_def temp_names_def split: if_splits option.splits
      dest!: first_free_Some)

lemma tempfile_mkstemp_Inl:
  assumes "tempfile_mkstemp st dir = (Inl e, st1)"
  shows "nodes st1 = nodes st" "trace st1 = trace st" "set (tmpnames st1) \<subseteq> set (tmpnames st)"
    "clock st1 = clock st"
  using assms
  by (auto simp: tempfile_mkstemp_def split: if_splits option.splits)

lemma mkstemp_Inr:
  assumes "mkstemp st dest = (Inr p, st1)"
  shows "p \<in> temp_names st (dirname dest)" "nodes st p = None" "isdir st (dirname dest)"
    "nodes st1 = (nodes st)(p \<mapsto> \<lparr>body = Data, st_mtime = clock st, st_size = 0\<rparr>)"
    "trace st1 = trace st @ [Created p, Chmod p 384]"
    "set (tmpnames st1) \<subseteq> set (tmpnames st)" "clock st1 = clock st"
proof -
  from assms obtain s where s: "tempfile_mkstemp st (dirname dest) = (Inr p, s)"
    and c: "os_chmod s p 384 = (Inr (), st1)"
    by (auto simp: mkstemp_def iobind_def split: prod.splits sum.splits)
  note t = tempfile_mkstemp_Inr [OF s]
  from c have st1: "st1 = log_op (Chmod p 384) s"
    by (auto simp: os_chmod_def split: if_splits)
  show "p \<in> temp_names st (dirname dest)" "nodes st p = None" "isdir st (dirname dest)"
    "nodes st1 = (nodes st)(p \<mapsto> \<lparr>body = Data, st_mtime = clock st, st_size = 0\<rparr>)"
    "trace st1 = trace st @ [Created p, Chmod p 384]"
    "set (tmpnames st1) \<subseteq> set (tmpnames st)" "clock st1 = clock st"
    using t by (simp_all add: st1)
qed

lemma mkstemp_Inl:
  assumes "mkstemp st dest = (Inl e, st1)"
  shows "nodes st1 = nodes st" "trace st1 = trace st" "set (tmpnames st1) \<subseteq> set (tmpnames st)"
proof -
  from assms have "tempfile_mkstemp st (dirname dest) = (Inl e, st1)"
    by (auto simp: mkstemp_def iobind_def os_chmod_def path_exists_def
        split: prod.splits sum.splits if_splits dest: tempfile_mkstemp_Inr(4))
  then show "nodes st1 = nodes st" "trace st1 = trace st"
    "set (tmpnames st1) \<subseteq> set (tmpnames st)"
    by (simp_all add: tempfile_mkstemp_Inl)
qed

lemma mkstemp_fresh: "mkstemp st dest = (Inr p, st1) \<Longrightarrow> \<not> path_exists st p"
  by (simp add: mkstemp_Inr(2) path_exists_def)

lemma iobind_Inr_E:
  assumes "iobind m f = (Inr r, st')"
  obtains v s where "m = (Inr v, s)" "f v s = (Inr r, st')"
  using assms by (auto simp: iobind_def split: prod.splits sum.splits)

lemma iobind_cases:
  assumes "iobind m f = (r, st')"
  obtains (err) e where "m = (Inl e, st')" "r = Inl e"
        | (ok) v s where "m = (Inr v, s)" "f v s = (r, st')"
  using assms by (auto simp: iobind_def split: prod.splits sum.splits)

lemma save_image_Inr:
  assumes "save_image E st p dims txt = (Inr u, st1)"
  shows "nodes st1 = (nodes st)(p \<mapsto>
           \<lparr>body = Image dims txt, st_mtime = clock st, st_size = encoded_size E dims txt\<rparr>)"
    "trace st1 = trace st @ [Written p]" "tmpnames st1 = tmpnames st" "clock st1 = clock st"
  using assms by (auto simp: save_image_def split: if_splits)

lemma save_image_Inl:
  "save_image E st p dims txt = (Inl e, st1) \<Longrightarrow> st1 = st"
  by (auto simp: save_image_def split: if_splits)

lemma os_rename_Inr:
  assumes "os_rename st a b = (Inr u, st1)"
  shows "nodes st1 b = nodes st a" "nodes st a \<noteq> None" "a \<noteq> b \<Longrightarrow> nodes st1 a = None"
    "q \<noteq> a \<Longrightarrow> q \<noteq> b \<Longrightarrow> nodes st1 q = nodes st q"
    "trace st1 = trace st @ [Renamed a b]" "tmpnames st1 = tmpnames st" "clock st1 = clock st"
  using assms by (auto simp: os_rename_def split: option.splits if_splits)

lemma os_rename_Inl: "os_rename st a b = (Inl e, st1) \<Longrightarrow> st1 = st"
  by (auto simp: os_rename_def split: option.splits if_splits)

lemma shutil_move_Inr:
  assumes "shutil_move st a b = (Inr u, st1)"
  shows "nodes st1 b = nodes st a" "nodes st a \<noteq> None"
    "trace st1 = trace st @ [Moved a b]" "tmpnames st1 = tmpnames st" "clock st1 = clock st"
  using assms by (auto simp: shutil_move_def split: option.splits if_splits)

lemma shutil_move_Inl: "shutil_move st a b = (Inl e, st1) \<Longrightarrow> st1 = st"
  by (auto simp: shutil_move_def split: option.splits if_splits)

lemma os_chmod_Inr:
  assumes "os_chmod st p m = (Inr u, st1)"
  shows "nodes st1 = nodes st" "trace st1 = trace st @ [Chmod p m]" "tmpnames st1 = tmpnames st"
    "clock st1 = clock st"
  using assms by (auto simp: os_chmod_def split: if_splits)

lemma os_chmod_Inl: "os_chmod st p m = (Inl e, st1) \<Longrightarrow> st1 = st"
  by (auto simp: os_chmod_def split: if_splits)

section \<open>Writing through a temporary file\<close>

lemma write_via_temp_Inr:
  assumes "write_via_temp E st dest dims txt = (Inr r, st')"
  obtains p where "r = Some dest" "p \<in> temp_names st (dirname dest)" "nodes st p = None"
    "trace st' = trace st @ [Created p, Chmod p 384, Written p, Renamed p dest]"
    "nodes st' dest
       = Some \<lparr>body = Image dims txt, st_mtime = clock st, st_size = encoded_size E dims txt\<rparr>"
    "set (tmpnames st') \<subseteq> set (tmpnames st)" "clock st' = clock st"
proof -
  from assms obtain p s1 where m: "mkstemp st dest = (Inr p, s1)"
    and rest: "iobind (save_image E s1 p dims txt) (\<lambda>u st2.
                 iobind (os_rename st2 p dest) (\<lambda>u st3. (Inr (Some dest), st3))) = (Inr r, st')"
    unfolding write_via_temp_def by (erule iobind_Inr_E)
  from rest obtain u s2 where sv: "save_image E s1 p dims txt = (Inr u, s2)"
    and rest2: "iobind (os_rename s2 p dest) (\<lambda>u st3. (Inr (Some dest), st3)) = (Inr r, st')"
    by (erule iobind_Inr_E)
  from rest2 obtain u' where rn: "os_rename s2 p dest = (Inr u', st')" and r: "r = Some dest"
    by (auto elim!: iobind_Inr_E)
  note M = mkstemp_Inr [OF m] and S = save_image_Inr [OF sv] and R = os_rename_Inr [OF rn]
  show thesis
  proof (rule that [of p])
    show "r = Some dest" by (rule r)
    show "p \<in> temp_names st (dirname dest)" "nodes st p = None" by (rule M)+
    show "trace st' = trace st @ [Created p, Chmod p 384, Written p, Renamed p dest]"
      by (simp add: R(5) S(2) M(5))
    show "nodes st' dest
            = Some \<lparr>body = Image dims txt, st_mtime = clock st,
                    st_size = encoded_size E dims txt\<rparr>"
      by (simp add: R(1) S(1) S(4) M(7))
    show "set (tmpnames st') \<subseteq> set (tmpnames st)" by (simp add: R(6) S(3) M(6))
    show "clock st' = clock st" by (simp add: R(7) S(4) M(7))
  qed
qed

lemma write_via_temp_Inl:
  assumes "write_via_temp E st dest dims txt = (Inl e, st')"
  shows "set (tmpnames st') \<subseteq> set (tmpnames st)
       \<and> (trace st' = trace st
          \<or> (\<exists>p \<in> temp_names st (dirname dest).
                trace st' = trace st @ [Created p, Chmod p 384, Written p]))"
  using assms unfolding write_via_temp_def
proof (cases rule: iobind_cases)
  case (err e')
  then show ?thesis using mkstemp_Inl [of st dest e' st'] by simp
next
  case (ok p s1)
  note M = mkstemp_Inr [OF ok(1)]
  from ok(2) show ?thesis
  proof (cases rule: iobind_cases)
    case (err e')
    then show ?thesis using save_image_Inl [OF err(1)] M strip_trailing_temp [OF M(1)]
      by (simp add: save_image_def isdir_def path_exists_def is_Dir_def)
  next
    case (ok u s2)
    note S = save_image_Inr [OF ok(1)]
    from ok(2) have "os_rename s2 p dest = (Inl e, st')"
      by (auto elim!: iobind_cases)
    then have "st' = s2" by (rule os_rename_Inl)
    then show ?thesis using S M by auto
  qed
qed

lemma load_image_node:
  "nodes st p = Some \<lparr>body = Image dims txt, st_mtime = t, st_size = n\<rparr> \<Longrightarrow>
     load_image st p = Some (dims, txt)"
  by (simp add: load_image_def)

lemma write_via_temp_stored:
  assumes "write_via_temp E st dest dims txt = (Inr r, st')"
  shows "r = Some dest" "load_image st' dest = Some (dims, txt)" "path_exists st' dest"
  using assms by (auto elim!: write_via_temp_Inr simp: load_image_def path_exists_def)

lemma write_via_temp_succeeds:
  assumes "isdir st (dirname dest)" "tmpnames st = n # ns"
    "nodes st (path_join (dirname dest) (''tmp'' @ n @ ''.png'')) = None" "\<not> isdir st dest"
  shows "fst (write_via_temp E st dest dims tx) = Inr (Some dest)"
  using assms
  by (simp add: write_via_temp_def mkstemp_def tempfile_mkstemp_def Let_def os_chmod_def
      path_exists_def save_image_def isdir_def is_Dir_def os_rename_def)

section \<open>Fail markers\<close>

lemma keys_distinct [simp]:
  "KEY_MTIME \<noteq> KEY_URI" "KEY_URI \<noteq> KEY_MTIME"
  "KEY_WIDTH \<noteq> KEY_URI" "KEY_WIDTH \<noteq> KEY_MTIME" "KEY_HEIGHT \<noteq> KEY_URI"
  "KEY_HEIGHT \<noteq> KEY_MTIME" "KEY_SIZE \<noteq> KEY_URI" "KEY_SIZE \<noteq> KEY_MTIME"
  "KEY_URI \<noteq> KEY_WIDTH" "KEY_MTIME \<noteq> KEY_WIDTH" "KEY_URI \<noteq> KEY_HEIGHT"
  "KEY_MTIME \<noteq> KEY_HEIGHT" "KEY_URI \<noteq> KEY_SIZE" "KEY_MTIME \<noteq> KEY_SIZE"
  by (simp_all add: KEY_URI_def KEY_MTIME_def KEY_WIDTH_def KEY_HEIGHT_def KEY_SIZE_def)

lemma str_nat_nonempty: "str_nat n \<noteq> []"
  by (subst str_nat.simps) simp

lemma str_int_nonempty: "str_int i \<noteq> []"
  by (simp add: str_int_def str_nat_nonempty)

lemma info_dict_given:
  "int_float m = Inr m' \<Longrightarrow>
     info_dict E st None (Some m) (Some src)
       = Inr [KEY_MTIME \<mapsto> str_int m', KEY_URI \<mapsto> any2uri E src]"
  by (simp add: info_dict_def dict_or_empty_def any2mtime_def setdefault_def)

lemma info_dict_keeps:
  "info_dict E st (Some d0) mtime (Some src) = Inr d \<Longrightarrow> d0 k = Some v \<Longrightarrow> d k = Some v"
  by (auto simp: info_dict_def dict_or_empty_def setdefault_def ebind_def Let_def
      split: sum.splits option.splits if_splits)

lemma info_dict_defaults:
  assumes "info_dict E st mi mtime (Some src) = Inr d"
  shows "dict_or_empty mi KEY_URI = None \<Longrightarrow> d KEY_URI = Some (any2uri E src)"
    and "dict_or_empty mi KEY_MTIME = None \<Longrightarrow>
           \<exists>m. any2mtime st (Some src) mtime = Inr m \<and> d KEY_MTIME = Some (str_int m)"
  using assms
  by (auto simp: info_dict_def setdefault_def ebind_def Let_def
      split: sum.splits option.splits if_splits)

lemma put_fail_Inr:
  assumes "put_fail E st src a mtime mi = (Inr r, st')"
  obtains st1 d b where "info_dict E st1 mi mtime (Some src) = Inr d" "get_backend E = Some b"
    "r = Some (fail_path E src a)" "load_image st' (fail_path E src a) = Some ((1, 1), d)"
    "path_exists st' (fail_path E src a)"
proof -
  from assms obtain u st1 where
    rest: "(case info_dict E st1 mi mtime (Some src) of
              Inl e \<Rightarrow> (Inl e, st1)
            | Inr d \<Rightarrow>
                (case get_backend E of
                   None \<Rightarrow> (Inl AttributeError, st1)
                 | Some b \<Rightarrow> backend_create_fail E b st1 (fail_path E src a) (Some d)))
           = (Inr r, st')"
    unfolding put_fail_def Let_def fail_path_def [symmetric] by (auto elim!: iobind_Inr_E)
  then obtain d b where d: "info_dict E st1 mi mtime (Some src) = Inr d"
    and b: "get_backend E = Some b"
    and w: "write_via_temp E st1 (fail_path E src a) (1, 1) d = (Inr r, st')"
    by (auto simp: backend_create_fail_def dict_or_empty_def split: sum.splits option.splits)
  show thesis
    using that [OF d b] write_via_temp_stored [OF w] by simp
qed

lemma put_fail_succeeds:
  assumes "get_backend E = Some b"
    "isdir st (path_join (path_join (thumb_path_prefix E) ''fail'') a)"
    "any2mtime st (Some src) mtime = Inr m"
    "isdir st (dirname (fail_path E src a))" "tmpnames st = n # ns"
    "nodes st (path_join (dirname (fail_path E src a)) (''tmp'' @ n @ ''.png'')) = None"
    "\<not> isdir st (fail_path E src a)"
  shows "fst (put_fail E st src a mtime mi) = Inr (Some (fail_path E src a))"
proof -
  obtain d where d: "info_dict E st mi mtime (Some src) = Inr d"
    using info_dict_total [OF assms(3)] by blast
  show ?thesis
    unfolding put_fail_def Let_def fail_path_def [symmetric]
    by (simp add: assms(1,2) d backend_create_fail_def
        write_via_temp_succeeds [OF assms(4,5,6,7)])
qed

lemma put_fail_fresh:
  "fst (put_fail (env_with only_pil) fs_fresh ''/tmp/a.jpg'' ''app-1.0'' (Some 100) mi)
     = Inr (Some fail_a)"
proof -
  have "fst (put_fail (env_with only_pil) fs_fresh ''/tmp/a.jpg'' ''app-1.0'' (Some 100) mi)
          = Inr (Some (fail_path (env_with only_pil) ''/tmp/a.jpg'' ''app-1.0''))"
  proof (rule put_fail_succeeds [OF pil_backend, where m = 100 and n = "''k3x9q2ab''"])
    show "isdir fs_fresh
            (path_join (path_join (thumb_path_prefix (env_with only_pil)) ''fail'') ''app-1.0'')"
      by (simp add: prefix_ex path_join_def startswith_def fresh_facts)
    show "any2mtime fs_fresh (Some ''/tmp/a.jpg'') (Some 100) = Inr 100"
      by (simp add: any2mtime_def int_float_small)
    show "isdir fs_fresh (dirname (fail_path (env_with only_pil) ''/tmp/a.jpg'' ''app-1.0''))"
      by (simp add: fail_path_a dirname_fail_a fresh_facts)
    show "tmpnames fs_fresh = [''k3x9q2ab'', ''w7m1c5zz'', ''p0d8e4rt'']"
      by (simp add: fs_fresh_def fs_of_def)
    show "nodes fs_fresh
            (path_join (dirname (fail_path (env_with only_pil) ''/tmp/a.jpg'' ''app-1.0''))
               (''tmp'' @ ''k3x9q2ab'' @ ''.png'')) = None"
      by (simp add: fail_path_a dirname_fail_a path_join_def startswith_def fs_fresh_def
          fs_of_def)
    show "\<not> isdir fs_fresh (fail_path (env_with only_pil) ''/tmp/a.jpg'' ''app-1.0'')"
      using fresh_facts(5)
      by (simp add: fail_path_a isdir_def path_exists_def split: option.splits)
  qed
  then show ?thesis by (simp add: fail_path_a)
qed

lemma is_thumbnail_failed_True:
  "int_float m = Inr m' \<Longrightarrow>
   is_thumbnail_failed E st src a (Some m) = Inr True \<longleftrightarrow>
     path_exists st (fail_path E src a)
     \<and> (\<exists>b i. get_backend E = Some b
           \<and> backend_get_info E b st (fail_path E src a) = Inr (Some i)
           \<and> info_uri i = any2uri E src \<and> info_mtime i = m')"
  by (auto simp: is_thumbnail_failed_def any2mtime_def Let_def is_thumbnail_valid_True)

lemma get_info_of_record:
  assumes "load_image st p = Some (dims, txt)" "txt KEY_MTIME = Some (str_int m)"
    "txt KEY_URI = Some u" "int_float_str E (str_int m) = Inr m"
  shows "backend_get_info E b st p = Inr (Some \<lparr>info_mtime = m, info_uri = u\<rparr>)"
  using assms
  by (cases b)
     (simp_all add: backend_get_info_def text_or_empty_def parse_mtime_def str_int_nonempty)

text \<open>
In terms of what the backend reports, for a time \<open>m\<close> that a double holds exactly:
  \<^verbatim>\<open>is_thumbnail_failed(src, a, m)\<close> returns true exactly when the marker exists at the
  fail path and the bound backend reports for it the canonical URI of \<open>src\<close> and the
  time \<open>m\<close>. After a \<^verbatim>\<open>put_fail(src, a, mtime=m)\<close> that returned, on a library whose
  \<^verbatim>\<open>int(float(s))\<close> reads the decimal text of \<open>m\<close> back, the query returns true for \<open>m\<close>
  and false for every other such time.
\<close>

lemma is_thumbnail_failed_by_report:
  assumes rep: "int_float m = Inr m"
  shows "(is_thumbnail_failed E st src a (Some m) = Inr True \<longleftrightarrow>
            path_exists st (fail_path E src a)
            \<and> (\<exists>b i. get_backend E = Some b
                  \<and> backend_get_info E b st (fail_path E src a) = Inr (Some i)
                  \<and> info_uri i = any2uri E src \<and> info_mtime i = m))
       \<and> (\<forall>r st' m'. put_fail E st src a (Some m) None = (Inr r, st')
              \<and> int_float_str E (str_int m) = Inr m \<and> int_float m' = Inr m' \<longrightarrow>
            is_thumbnail_failed E st' src a (Some m') = Inr (m' = m))"
proof -
  have "is_thumbnail_failed E st' src a (Some m') = Inr (m' = m)"
    if pf: "put_fail E st src a (Some m) None = (Inr r, st')"
      and rt: "int_float_str E (str_int m) = Inr m" and rep': "int_float m' = Inr m'"
    for r st' m'
  proof -
    from pf obtain st1 d b where d: "info_dict E st1 None (Some m) (Some src) = Inr d"
      and b: "get_backend E = Some b"
      and l: "load_image st' (fail_path E src a) = Some ((1, 1), d)"
      and x: "path_exists st' (fail_path E src a)"
      by (auto elim!: put_fail_Inr)
    from d have d': "d = [KEY_MTIME \<mapsto> str_int m, KEY_URI \<mapsto> any2uri E src]"
      by (simp add: info_dict_given [OF rep])
    have "backend_get_info E b st' (fail_path E src a)
            = Inr (Some \<lparr>info_mtime = m, info_uri = any2uri E src\<rparr>)"
      by (rule get_info_of_record [OF l _ _ rt]) (simp_all add: d')
    then show ?thesis
      using b x rep'
      by (auto simp: is_thumbnail_failed_def any2mtime_def Let_def is_thumbnail_valid_def)
  qed
  then show ?thesis
    using is_thumbnail_failed_True [OF rep] by blast
qed

lemma put_fail_then_is_thumbnail_failed:
  "int_float 100 = Inr 100
   \<and> fst (put_fail (env_with only_pil) fs_fresh ''/tmp/a.jpg'' ''app-1.0'' (Some 100) None)
       = Inr (Some fail_a)
   \<and> is_thumbnail_failed (env_with only_pil)
        (snd (put_fail (env_with only_pil) fs_fresh ''/tmp/a.jpg'' ''app-1.0'' (Some 100) None))
        ''/tmp/a.jpg'' ''app-1.0'' (Some 100) = Inr True
   \<and> is_thumbnail_failed (env_with only_pil)
        (snd (put_fail (env_with only_pil) fs_fresh ''/tmp/a.jpg'' ''app-1.0'' (Some 100) None))
        ''/tmp/a.jpg'' ''app-1.0'' (Some 200) = Inr False
   \<and> is_thumbnail_failed (env_with only_pil) fs_fresh ''/tmp/a.jpg'' ''app-1.0'' (Some 100)
       \<noteq> Inr True"
proof -
  let ?E = "env_with only_pil"
  let ?run = "put_fail ?E fs_fresh ''/tmp/a.jpg'' ''app-1.0'' (Some 100) None"
  note T = is_thumbnail_failed_by_report [OF int_float_small(2), of ?E fs_fresh "''/tmp/a.jpg''"
      "''app-1.0''"]
  have run: "?run = (Inr (Some fail_a), snd ?run)"
    using put_fail_fresh [of None] by (simp add: prod_eq_iff)
  have rt: "int_float_str ?E (str_int 100) = Inr 100"
    by (simp add: str_int_100 env_with_def dec_100)
  have R: "is_thumbnail_failed ?E st' ''/tmp/a.jpg'' ''app-1.0'' (Some m') = Inr (m' = 100)"
    if "?run = (Inr r, st')" "int_float m' = Inr m'" for r st' m'
    using T rt that by blast
  have a: "is_thumbnail_failed ?E (snd ?run) ''/tmp/a.jpg'' ''app-1.0'' (Some 100) = Inr True"
    using R [OF run int_float_small(2)] by simp
  have b: "is_thumbnail_failed ?E (snd ?run) ''/tmp/a.jpg'' ''app-1.0'' (Some 200)
             = Inr False"
    using R [OF run int_float_small(3)] by simp
  have c: "is_thumbnail_failed ?E fs_fresh ''/tmp/a.jpg'' ''app-1.0'' (Some 100) \<noteq> Inr True"
    using T fresh_facts(5) by (simp add: fail_path_a)
  show ?thesis using int_float_small(2) put_fail_fresh [of None] a b c by blast
qed

text \<open>
C2. The claim: \<^verbatim>\<open>is_thumbnail_failed(src, a, m)\<close> is true exactly when the marker
  exists and stores the canonical URI of the source and the time \<open>m\<close>. The code: for a
  marker that stores the URI and no \<open>Thumb::MTime\<close>, the call with \<open>m = 0\<close> returns
  true under the Qt and the Magick backend, and raises \<open>KeyError\<close> under the PIL
  backend.
\<close>

theorem is_thumbnail_failed_absent_mtime:
  "fail_path (env_with only_qt) ''/tmp/a.jpg'' ''app-1.0'' = fail_a
   \<and> path_exists fs_marker_nomtime fail_a
   \<and> stored_text fs_marker_nomtime fail_a KEY_URI
       = Some (any2uri (env_with only_qt) ''/tmp/a.jpg'')
   \<and> stored_text fs_marker_nomtime fail_a KEY_MTIME = None
   \<and> \<not> record_valid (env_with only_qt) fs_marker_nomtime fail_a
         (any2uri (env_with only_qt) ''/tmp/a.jpg'') 0
   \<and> is_thumbnail_failed (env_with only_qt) fs_marker_nomtime ''/tmp/a.jpg'' ''app-1.0'' (Some 0)
       = Inr True
   \<and> is_thumbnail_failed (env_with only_magick) fs_marker_nomtime ''/tmp/a.jpg'' ''app-1.0''
         (Some 0) = Inr True
   \<and> is_thumbnail_failed (env_with only_pil) fs_marker_nomtime ''/tmp/a.jpg'' ''app-1.0''
         (Some 0) = Inl KeyError"
proof -
  have q: "is_thumbnail_failed (env_with only_qt) fs_marker_nomtime ''/tmp/a.jpg'' ''app-1.0''
             (Some 0) = Inr True"
    by (simp add: is_thumbnail_failed_def any2mtime_def int_float_small fail_path_a
        load_nomtime uri_a is_thumbnail_valid_def qt_backend
        default_mtime [OF _ load_nomtime(3)] text_or_empty_def uri_only_keys)
  have m: "is_thumbnail_failed (env_with only_magick) fs_marker_nomtime ''/tmp/a.jpg''
             ''app-1.0'' (Some 0) = Inr True"
    by (simp add: is_thumbnail_failed_def any2mtime_def int_float_small fail_path_a
        load_nomtime uri_a is_thumbnail_valid_def magick_backend
        default_mtime [OF _ load_nomtime(3)] text_or_empty_def uri_only_keys)
  have p: "is_thumbnail_failed (env_with only_pil) fs_marker_nomtime ''/tmp/a.jpg''
             ''app-1.0'' (Some 0) = Inl KeyError"
    by (simp add: is_thumbnail_failed_def any2mtime_def int_float_small fail_path_a
        load_nomtime uri_a is_thumbnail_valid_def pil_backend
        pil_get_info_no_mtime [OF load_nomtime(3)] uri_only_keys)
  show ?thesis
    using q m p fail_path_a [of only_qt] load_nomtime(4)
    by (simp add: record_valid_def stored_text_def load_nomtime uri_only_keys uri_a)
qed

section \<open>Caller-supplied metadata\<close>

lemma own_size_text_keeps:
  "k \<noteq> KEY_WIDTH \<Longrightarrow> k \<noteq> KEY_HEIGHT \<Longrightarrow> own_size_text dims tx k = tx k"
  by (simp add: own_size_text_def)

lemma backend_create_thumbnail_stored:
  assumes "backend_create_thumbnail E b st src dest px (Some d) = (Inr r, st')" "truthy r"
  shows "\<exists>dims tx. load_image st' dest = Some (dims, tx)
           \<and> (\<forall>k v. d k = Some v \<and> k \<noteq> KEY_WIDTH \<and> k \<noteq> KEY_HEIGHT \<longrightarrow> tx k = Some v)"
proof -
  from assms obtain dims0 tx0 where l: "load_image st src = Some (dims0, tx0)"
    by (auto simp: backend_create_thumbnail_def truthy_def split: option.splits)
  show ?thesis
  proof (cases b)
    case PilBackend
    with assms l have "write_via_temp E st dest (resized E b px dims0)
                         (own_size_text dims0 d) = (Inr r, st')"
      by (simp add: backend_create_thumbnail_def dict_or_empty_def)
    from write_via_temp_stored(2) [OF this] show ?thesis
      by (simp add: own_size_text_keeps)
  next
    case MagickBackend
    with assms l have "write_via_temp E st dest (resized E b px dims0) (tx0 ++ d)
                         = (Inr r, st')"
      by (simp add: backend_create_thumbnail_def dict_or_empty_def)
    from write_via_temp_stored(2) [OF this] show ?thesis
      by (simp add: map_add_Some_iff)
  next
    case QtBackend
    with assms l have "write_via_temp E st dest (resized E b px dims0) (tx0 ++ d)
                         = (Inr r, st')"
      by (simp add: backend_create_thumbnail_def dict_or_empty_def)
    from write_via_temp_stored(2) [OF this] show ?thesis
      by (simp add: map_add_Some_iff)
  qed
qed

lemma backend_update_metadata_stored:
  assumes "backend_update_metadata E b st p (Some d) = (Inr r, st')"
  shows "(r = None \<and> st' = st \<and> load_image st p = None)
       \<or> (\<exists>dims tx. load_image st' p = Some (dims, tx)
             \<and> (\<forall>k v. d k = Some v \<and> k \<noteq> KEY_WIDTH \<and> k \<noteq> KEY_HEIGHT \<longrightarrow> tx k = Some v))"
proof (cases "load_image st p")
  case None
  with assms show ?thesis
    by (cases b) (simp_all add: backend_update_metadata_def)
next
  case (Some a)
  obtain dims0 tx0 where a: "a = (dims0, tx0)" by (cases a)
  show ?thesis
  proof (cases b)
    case PilBackend
    with assms Some a have "write_via_temp E st p dims0 d = (Inr r, st')"
      by (simp add: backend_update_metadata_def dict_or_empty_def)
    from write_via_temp_stored(2) [OF this] show ?thesis by simp
  next
    case MagickBackend
    with assms Some a have "write_via_temp E st p dims0 (own_size_text dims0 (tx0 ++ d))
                              = (Inr r, st')"
      by (simp add: backend_update_metadata_def dict_or_empty_def)
    from write_via_temp_stored(2) [OF this] show ?thesis
      by (simp add: own_size_text_keeps map_add_Some_iff)
  next
    case QtBackend
    with assms Some a have "write_via_temp E st p dims0 (own_size_text dims0 (tx0 ++ d))
                              = (Inr r, st')"
      by (simp add: backend_update_metadata_def dict_or_empty_def)
    from write_via_temp_stored(2) [OF this] show ?thesis
      by (simp add: own_size_text_keeps map_add_Some_iff)
  qed
qed

lemma create_thumbnail_Some:
  assumes "create_thumbnail E st src sz mi app = (Inr (Some dest), st')"
  obtains px n d st1 b r where "info_dict E st mi None (Some src) = Inr d"
    "backend_create_thumbnail E b st1 src dest px (Some (d(KEY_SIZE \<mapsto> str_int (int n))))
       = (Inr r, st')" "truthy r"
  using assms unfolding create_thumbnail_def Let_def
  by (auto simp: iobind_def split: sum.splits prod.splits option.splits if_splits)

lemma load_image_cong: "nodes st p = nodes st' q \<Longrightarrow> load_image st p = load_image st' q"
  by (simp add: load_image_def)

lemma put_thumbnail_Inr:
  assumes "put_thumbnail E st src sz thumb mtime mi = (Inr dest, st')"
  obtains tmp st3 d b r st4 where "info_dict E st3 mi mtime (Some src) = Inr d"
    "backend_update_metadata E b st3 tmp (Some d) = (Inr r, st4)"
    "load_image st' dest = load_image st4 tmp"
proof -
  from assms obtain dest0 where bp: "build_thumbnail_path E src sz = Inr dest0"
    by (auto simp: put_thumbnail_def split: sum.splits)
  from assms bp obtain tmp st3 where
    rest: "(case info_dict E st3 mi mtime (Some src) of
              Inl e \<Rightarrow> (Inl e, st3)
            | Inr d \<Rightarrow>
                (case get_backend E of
                   None \<Rightarrow> (Inl AttributeError, st3)
                 | Some b \<Rightarrow>
                     iobind (backend_update_metadata E b st3 tmp (Some d)) (\<lambda>r st4.
                       iobind (os_chmod st4 tmp 384) (\<lambda>u st5.
                         iobind (os_rename st5 tmp dest0) (\<lambda>u st6. (Inr dest0, st6))))))
           = (Inr dest, st')"
    by (auto simp: put_thumbnail_def elim!: iobind_Inr_E)
  then obtain d b where d: "info_dict E st3 mi mtime (Some src) = Inr d"
    and chain: "iobind (backend_update_metadata E b st3 tmp (Some d)) (\<lambda>r st4.
                  iobind (os_chmod st4 tmp 384) (\<lambda>u st5.
                    iobind (os_rename st5 tmp dest0) (\<lambda>u st6. (Inr dest0, st6))))
                = (Inr dest, st')"
    by (auto split: sum.splits option.splits)
  from chain obtain r st4 u st5 u' where um: "backend_update_metadata E b st3 tmp (Some d) = (Inr r, st4)"
    and ch: "os_chmod st4 tmp 384 = (Inr u, st5)"
    and rn: "os_rename st5 tmp dest0 = (Inr u', st')" and eq: "dest0 = dest"
    by (auto elim!: iobind_Inr_E)
  have "nodes st' dest = nodes st4 tmp"
    using os_rename_Inr(1) [OF rn] os_chmod_Inr(1) [OF ch] eq by simp
  then have "load_image st' dest = load_image st4 tmp" by (rule load_image_cong)
  with d um show thesis by (rule that)
qed

text \<open>
Where a record is stored: when the caller's \<open>moreinfo\<close> has a value under
  \<open>Thumb::URI\<close> or \<open>Thumb::MTime\<close>, the dictionary \<^verbatim>\<open>_info_dict\<close> builds has that value,
  and so has the image that a returning \<^verbatim>\<open>put_fail\<close> or \<^verbatim>\<open>create_thumbnail\<close> leaves at
  the path it returns, and the image a returning \<^verbatim>\<open>put_thumbnail\<close> leaves at its
  destination when there is an image there.
\<close>

lemma caller_metadata_kept_where_stored:
  assumes "mi k = Some v" and "k = KEY_URI \<or> k = KEY_MTIME"
  shows "(\<forall>d. info_dict E st (Some mi) mtime (Some src) = Inr d \<longrightarrow> d k = Some v)
       \<and> (\<forall>r st'. put_fail E st src a mtime (Some mi) = (Inr r, st') \<longrightarrow>
             stored_text st' (fail_path E src a) k = Some v)
       \<and> (\<forall>dest st'. create_thumbnail E st src sz (Some mi) app = (Inr (Some dest), st') \<longrightarrow>
             stored_text st' dest k = Some v)
       \<and> (\<forall>dest st'. put_thumbnail E st src sz thumb mtime (Some mi) = (Inr dest, st')
               \<and> load_image st' dest \<noteq> None \<longrightarrow>
             stored_text st' dest k = Some v)"
proof -
  from assms(2) have k: "k \<noteq> KEY_WIDTH" "k \<noteq> KEY_HEIGHT" "k \<noteq> KEY_SIZE" by auto
  have 1: "d k = Some v" if "info_dict E s (Some mi) mt (Some src) = Inr d" for d s mt
    using that assms(1) by (rule info_dict_keeps)
  have 2: "stored_text st' (fail_path E src a) k = Some v"
    if "put_fail E st src a mtime (Some mi) = (Inr r, st')" for r st'
    using that by (auto elim!: put_fail_Inr simp: stored_text_def 1)
  have 3: "stored_text st' dest k = Some v"
    if "create_thumbnail E st src sz (Some mi) app = (Inr (Some dest), st')" for dest st'
  proof -
    from that obtain px n d st1 b r where d: "info_dict E st (Some mi) None (Some src) = Inr d"
      and c: "backend_create_thumbnail E b st1 src dest px
                (Some (d(KEY_SIZE \<mapsto> str_int (int n)))) = (Inr r, st')" and t: "truthy r"
      by (rule create_thumbnail_Some)
    from backend_create_thumbnail_stored [OF c t]
    obtain dims tx where l: "load_image st' dest = Some (dims, tx)"
      and keep: "\<forall>k v. (d(KEY_SIZE \<mapsto> str_int (int n))) k = Some v \<and> k \<noteq> KEY_WIDTH
                   \<and> k \<noteq> KEY_HEIGHT \<longrightarrow> tx k = Some v"
      by blast
    have "tx k = Some v" using keep k 1 [OF d] by simp
    with l show ?thesis by (simp add: stored_text_def)
  qed
  have 4: "stored_text st' dest k = Some v"
    if "put_thumbnail E st src sz thumb mtime (Some mi) = (Inr dest, st')"
      "load_image st' dest \<noteq> None" for dest st'
  proof -
    from that(1) obtain tmp st3 d b r st4 where
      d: "info_dict E st3 (Some mi) mtime (Some src) = Inr d"
      and um: "backend_update_metadata E b st3 tmp (Some d) = (Inr r, st4)"
      and l: "load_image st' dest = load_image st4 tmp"
      by (rule put_thumbnail_Inr)
    from backend_update_metadata_stored [OF um] that(2) l
    obtain dims tx where "load_image st4 tmp = Some (dims, tx)"
      and "\<forall>k v. d k = Some v \<and> k \<noteq> KEY_WIDTH \<and> k \<noteq> KEY_HEIGHT \<longrightarrow> tx k = Some v"
      by auto
    then show ?thesis using l k 1 [OF d] by (simp add: stored_text_def)
  qed
  show ?thesis using 1 2 3 4 by blast
qed

lemma caller_metadata_kept_put_fail:
  "forged KEY_URI = Some ''urn:other''
   \<and> fst (put_fail (env_with only_pil) fs_fresh ''/tmp/a.jpg'' ''app-1.0'' (Some 100)
          (Some forged)) = Inr (Some fail_a)
   \<and> stored_text
        (snd (put_fail (env_with only_pil) fs_fresh ''/tmp/a.jpg'' ''app-1.0'' (Some 100)
                (Some forged)))
        fail_a KEY_URI = Some ''urn:other''
   \<and> stored_text
        (snd (put_fail (env_with only_pil) fs_fresh ''/tmp/a.jpg'' ''app-1.0'' (Some 100)
                (Some forged)))
        fail_a KEY_MTIME = Some ''7''
   \<and> any2uri (env_with only_pil) ''/tmp/a.jpg'' = ''file:///tmp/a.jpg''"
proof -
  let ?E = "env_with only_pil"
  let ?run = "put_fail ?E fs_fresh ''/tmp/a.jpg'' ''app-1.0'' (Some 100) (Some forged)"
  have u: "forged KEY_URI = Some ''urn:other''" and t: "forged KEY_MTIME = Some ''7''"
    by (simp_all add: forged_def)
  have run: "?run = (Inr (Some fail_a), snd ?run)"
    using put_fail_fresh [of "Some forged"] by (simp add: prod_eq_iff)
  have K: "stored_text st' (fail_path ?E ''/tmp/a.jpg'' ''app-1.0'') k = Some v"
    if "forged k = Some v" "k = KEY_URI \<or> k = KEY_MTIME" "?run = (Inr r, st')" for k v r st'
    using caller_metadata_kept_where_stored [where mi = forged and k = k and v = v and E = ?E
        and st = fs_fresh and mtime = "Some 100" and src = "''/tmp/a.jpg''" and a = "''app-1.0''"]
      that
    by blast
  have a: "stored_text (snd ?run) fail_a KEY_URI = Some ''urn:other''"
    using K [OF u _ run] by (simp add: fail_path_a)
  have b: "stored_text (snd ?run) fail_a KEY_MTIME = Some ''7''"
    using K [OF t _ run] by (simp add: fail_path_a)
  show ?thesis using u put_fail_fresh [of "Some forged"] a b uri_a by blast
qed

section \<open>The runs of the writers\<close>

text \<open>
When its preconditions hold in the file system, a writer returns, and the state it
  leaves is the one written out here: the first temporary name is drawn, the image is
  saved there and renamed onto the destination.
\<close>

lemma mkstemp_run:
  assumes "isdir st (dirname dest)" "tmpnames st = n # ns"
    "tmp = path_join (dirname dest) (''tmp'' @ n @ ''.png'')" "nodes st tmp = None"
  shows "mkstemp st dest =
    (Inr tmp,
     st\<lparr>nodes := (nodes st)(tmp \<mapsto> \<lparr>body = Data, st_mtime = clock st, st_size = 0\<rparr>),
        tmpnames := ns,
        trace := trace st @ [Created tmp, Chmod tmp 384]\<rparr>)"
  using assms
  by (simp add: mkstemp_def tempfile_mkstemp_def os_chmod_def path_exists_def log_op_def)

lemma write_via_temp_run:
  assumes "isdir st (dirname dest)" "tmpnames st = n # ns"
    "tmp = path_join (dirname dest) (''tmp'' @ n @ ''.png'')" "nodes st tmp = None"
    "\<not> isdir st dest" "tmp \<noteq> dest"
  shows "write_via_temp E st dest dims tx =
    (Inr (Some dest),
     st\<lparr>nodes := (nodes st)(dest \<mapsto>
           \<lparr>body = Image dims tx, st_mtime = clock st, st_size = encoded_size E dims tx\<rparr>),
        tmpnames := ns,
        trace := trace st @ [Created tmp, Chmod tmp 384, Written tmp, Renamed tmp dest]\<rparr>)"
proof -
  have "(nodes st)(tmp := None) = nodes st" using assms(4) by (simp add: fun_upd_idem)
  then show ?thesis
    using assms
    by (simp add: write_via_temp_def mkstemp_run [OF assms(1-4)] save_image_def isdir_def
        path_exists_def is_Dir_def os_rename_def log_op_def)
qed

lemma put_fail_run:
  assumes "get_backend E = Some b"
    "isdir st (path_join (path_join (thumb_path_prefix E) ''fail'') a)"
    "info_dict E st mi mtime (Some src) = Inr d"
    "isdir st (dirname (fail_path E src a))" "tmpnames st = n # ns"
    "tmp = path_join (dirname (fail_path E src a)) (''tmp'' @ n @ ''.png'')"
    "nodes st tmp = None" "\<not> isdir st (fail_path E src a)" "tmp \<noteq> fail_path E src a"
  shows "put_fail E st src a mtime mi =
    (Inr (Some (fail_path E src a)),
     st\<lparr>nodes := (nodes st)(fail_path E src a \<mapsto>
           \<lparr>body = Image (1, 1) d, st_mtime = clock st, st_size = encoded_size E (1, 1) d\<rparr>),
        tmpnames := ns,
        trace := trace st @ [Created tmp, Chmod tmp 384, Written tmp,
                             Renamed tmp (fail_path E src a)]\<rparr>)"
  unfolding put_fail_def Let_def fail_path_def [symmetric]
  by (simp add: assms(1,2,3) backend_create_fail_def dict_or_empty_def
      write_via_temp_run [OF assms(4-9)])

lemma create_thumbnail_run:
  assumes "ebind (any2size sz) subscript0 = Inr px" "getsize st src = Inr filesize"
    "build_thumbnail_path E src (PyInt px) = Inr dest"
    "info_dict E st mi None (Some src) = Inr d" "get_backend E = Some b"
    "load_image st src = Some (dims, tx)"
    "isdir st (dirname dest)" "tmpnames st = n # ns"
    "tmp = path_join (dirname dest) (''tmp'' @ n @ ''.png'')" "nodes st tmp = None"
    "\<not> isdir st dest" "tmp \<noteq> dest" "dest \<noteq> []"
  shows "create_thumbnail E st src sz mi app =
    (Inr (Some dest),
     st\<lparr>nodes := (nodes st)(dest \<mapsto>
           \<lparr>body = Image (resized E b px dims)
                     (case b of
                        PilBackend \<Rightarrow> own_size_text dims (d(KEY_SIZE \<mapsto> str_int (int filesize)))
                      | MagickBackend \<Rightarrow> tx ++ d(KEY_SIZE \<mapsto> str_int (int filesize))
                      | QtBackend \<Rightarrow> tx ++ d(KEY_SIZE \<mapsto> str_int (int filesize))),
            st_mtime = clock st,
            st_size = encoded_size E (resized E b px dims)
                     (case b of
                        PilBackend \<Rightarrow> own_size_text dims (d(KEY_SIZE \<mapsto> str_int (int filesize)))
                      | MagickBackend \<Rightarrow> tx ++ d(KEY_SIZE \<mapsto> str_int (int filesize))
                      | QtBackend \<Rightarrow> tx ++ d(KEY_SIZE \<mapsto> str_int (int filesize)))\<rparr>),
        tmpnames := ns,
        trace := trace st @ [Created tmp, Chmod tmp 384, Written tmp, Renamed tmp dest]\<rparr>)"
  unfolding create_thumbnail_def
  by (cases b)
     (simp_all add: assms(1-7) Let_def backend_create_thumbnail_def dict_or_empty_def
        write_via_temp_run [OF assms(7-12)] truthy_def assms(13))

lemma create_thumbnail_marks_failure:
  assumes "ebind (any2size sz) subscript0 = Inr px" "getsize st src = Inr filesize"
    "build_thumbnail_path E src (PyInt px) = Inr dest"
    "info_dict E st mi None (Some src) = Inr d" "get_backend E = Some b"
    "load_image st src = None" "isdir st (dirname dest)"
    "put_fail E st src a None None = (Inr r, st')"
  shows "create_thumbnail E st src sz mi (Some a) = (Inr None, st')"
  unfolding create_thumbnail_def
  by (simp add: assms Let_def backend_create_thumbnail_def truthy_def)


lemma info_dict_given_time:
  "info_dict E st mi (Some m) (Some src) = info_dict E st' mi (Some m) (Some src)"
  by (simp add: info_dict_def any2mtime_def)

lemma put_thumbnail_unloadable_run:
  assumes "build_thumbnail_path E src sz = Inr dest" "dest \<noteq> thumb"
    "dirname dest = dirname thumb" "info_dict E st mi mtime (Some src) = Inr d"
    "get_backend E = Some b" "b \<noteq> PilBackend" "nodes st thumb = Some nd"
    "load_image st thumb = None" "\<not> isdir st dest"
  shows "put_thumbnail E st src sz thumb mtime mi =
    (Inr dest,
     st\<lparr>nodes := (nodes st)(thumb := None, dest \<mapsto> nd),
        trace := trace st @ [Chmod thumb 384, Renamed thumb dest]\<rparr>)"
  using assms
  by (cases b)
     (simp_all add: put_thumbnail_def backend_update_metadata_def os_chmod_def path_exists_def
        os_rename_def log_op_def isdir_def)

lemma put_thumbnail_unloadable_pil:
  assumes "build_thumbnail_path E src sz = Inr dest" "dest \<noteq> thumb"
    "dirname dest = dirname thumb" "info_dict E st mi mtime (Some src) = Inr d"
    "get_backend E = Some PilBackend" "load_image st thumb = None"
  shows "put_thumbnail E st src sz thumb mtime mi = (Inl OSError, st)"
  using assms by (simp add: put_thumbnail_def backend_update_metadata_def)

lemma put_thumbnail_move_run:
  assumes build: "build_thumbnail_path E src sz = Inr dest"
    and branch: "dest \<noteq> thumb" "dirname dest \<noteq> dirname thumb"
    and dir: "isdir st (dirname dest)"
    and names: "tmpnames st = n1 # n2 # ns"
      "t1 = path_join (dirname dest) (''tmp'' @ n1 @ ''.png'')"
      "t2 = path_join (dirname dest) (''tmp'' @ n2 @ ''.png'')"
      "dirname t1 = dirname dest"
    and free: "nodes st t1 = None" "nodes st t2 = None"
    and distinct: "t1 \<noteq> t2" "thumb \<noteq> t1" "thumb \<noteq> t2" "dest \<noteq> t1" "dest \<noteq> t2"
    and thumb: "nodes st thumb = Some \<lparr>body = Image dims tx, st_mtime = tm, st_size = sz0\<rparr>"
    and info: "info_dict E st mi (Some m) (Some src) = Inr d"
    and backend: "get_backend E = Some b"
    and stored: "tx' = (case b of PilBackend \<Rightarrow> d | MagickBackend \<Rightarrow> own_size_text dims (tx ++ d)
                      | QtBackend \<Rightarrow> own_size_text dims (tx ++ d))"
    and dest: "\<not> isdir st dest" "strip_trailing dest = dest"
  shows "put_thumbnail E st src sz thumb (Some m) mi =
    (Inr dest,
     st\<lparr>nodes := (nodes st)(thumb := None, dest \<mapsto>
           \<lparr>body = Image dims tx', st_mtime = clock st, st_size = encoded_size E dims tx'\<rparr>),
        tmpnames := ns,
        trace := trace st @ [Created t1, Chmod t1 384, Moved thumb t1,
                             Created t2, Chmod t2 384, Written t2, Renamed t2 t1,
                             Chmod t1 384, Renamed t1 dest]\<rparr>)"
proof -
  let ?nd = "\<lparr>body = Image dims tx, st_mtime = tm, st_size = sz0\<rparr>"
  let ?img = "\<lparr>body = Image dims tx', st_mtime = clock st, st_size = encoded_size E dims tx'\<rparr>"
  define S1 where "S1 = st\<lparr>nodes := (nodes st)(t1 \<mapsto> \<lparr>body = Data, st_mtime = clock st, st_size = 0\<rparr>),
        tmpnames := n2 # ns, trace := trace st @ [Created t1, Chmod t1 384]\<rparr>"
  define S2 where "S2 = S1\<lparr>nodes := (nodes S1)(thumb := None, t1 \<mapsto> ?nd),
        trace := trace S1 @ [Moved thumb t1]\<rparr>"
  define S3 where "S3 = S2\<lparr>nodes := (nodes S2)(t1 \<mapsto> ?img), tmpnames := ns,
        trace := trace S2 @ [Created t2, Chmod t2 384, Written t2, Renamed t2 t1]\<rparr>"
  have st1: "strip_trailing t1 = t1" by (simp add: names(2))
  have 1: "mkstemp st dest = (Inr t1, S1)"
    unfolding S1_def by (rule mkstemp_run [OF dir names(1,2) free(1)])
  have 2: "shutil_move S1 thumb t1 = (Inr (), S2)"
    using thumb distinct(2)
    by (simp add: shutil_move_def S1_def S2_def isdir_def st1 is_Dir_def log_op_def)
  obtain q dn where q: "q = strip_trailing (dirname dest)" "nodes st q = Some dn" "is_Dir (body dn)"
    using dir by (auto simp: isdir_def split: option.splits)
  have qne: "q \<noteq> t1" "q \<noteq> thumb"
    using q free(1) thumb by (auto simp: is_Dir_def)
  have d2: "isdir S2 (dirname t1)"
    using q qne by (simp add: isdir_def names(4) S2_def S1_def)
  have n2: "nodes S2 t2 = None"
    using free(2) distinct by (simp add: S2_def S1_def)
  have nd2: "\<not> isdir S2 t1"
    by (simp add: isdir_def st1 S2_def S1_def is_Dir_def)
  have t2': "t2 = path_join (dirname t1) (''tmp'' @ n2 @ ''.png'')"
    by (simp add: names(3,4))
  have tn2: "tmpnames S2 = n2 # ns" by (simp add: S2_def S1_def)
  have 3: "write_via_temp E S2 t1 dims tx' = (Inr (Some t1), S3)"
    using write_via_temp_run [OF d2 tn2 t2' n2 nd2, of E dims tx'] distinct(1)
    by (simp add: S3_def) (simp add: S2_def S1_def)
  have l2: "load_image S2 t1 = Some (dims, tx)"
    by (simp add: load_image_def S2_def S1_def)
  have i2: "info_dict E S2 mi (Some m) (Some src) = Inr d"
    using info info_dict_given_time [of E S2 mi m src st] by simp
  have 4: "backend_update_metadata E b S2 t1 (Some d) = (Inr (Some t1), S3)"
    by (cases b) (simp_all add: backend_update_metadata_def l2 dict_or_empty_def 3 [symmetric] stored)
  have nd3: "\<not> isdir S3 dest"
    using dest distinct(4) branch(1)
    by (simp add: isdir_def S3_def S2_def S1_def)
  have "put_thumbnail E st src sz thumb (Some m) mi =
          (Inr dest, log_op (Renamed t1 dest)
             ((log_op (Chmod t1 384) S3)\<lparr>nodes := (nodes S3)(t1 := None, dest \<mapsto> ?img)\<rparr>))"
    using branch distinct(4) nd3
    by (simp add: put_thumbnail_def build 1 2 i2 backend 4 os_chmod_def path_exists_def
        os_rename_def)
       (simp add: S3_def isdir_def log_op_def)
  also have "log_op (Renamed t1 dest)
             ((log_op (Chmod t1 384) S3)\<lparr>nodes := (nodes S3)(t1 := None, dest \<mapsto> ?img)\<rparr>)
      = st\<lparr>nodes := (nodes st)(thumb := None, dest \<mapsto> ?img), tmpnames := ns,
        trace := trace st @ [Created t1, Chmod t1 384, Moved thumb t1,
                             Created t2, Chmod t2 384, Written t2, Renamed t2 t1,
                             Chmod t1 384, Renamed t1 dest]\<rparr>"
  proof -
    have "(nodes S3)(t1 := None, dest \<mapsto> ?img) = (nodes st)(thumb := None, dest \<mapsto> ?img)"
      using free(1) distinct by (auto simp: S3_def S2_def S1_def fun_eq_iff)
    then show ?thesis
      by (simp add: log_op_def S3_def S2_def S1_def)
  qed
  finally show ?thesis .
qed

lemma junk_facts:
  "nodes fs_junk scratch_png = Some \<lparr>body = Data, st_mtime = 1900, st_size = 12\<rparr>"
  "load_image fs_junk scratch_png = None"
  "\<not> isdir fs_junk pdf_large"
  "pdf_large \<noteq> scratch_png"
  "dirname pdf_large = dirname scratch_png"
  by (simp_all add: load_image_def isdir_def fs_junk_def fs_of_def scratch_png_def pdf_large_def
      dirname_def rstrip_slash_def strip_trailing_last)

lemma forged_keys: "forged KEY_URI = Some ''urn:other''" "forged KEY_MTIME = Some ''7''"
  by (simp_all add: forged_def)

lemma pdf_path: "build_thumbnail_path (env_with a) ''http://x/y.pdf'' (PyStr ''large'') = Inr pdf_large"
  by (simp add: large_path_pdf pdf_large_def)

lemma str_int_1000: "str_int 1000 = ''1000''"
  by code_simp

lemma corrupt_facts:
  "getsize fs_corrupt ''/tmp/a.jpg'' = Inr 34567"
  "getmtime fs_corrupt (Some ''/tmp/a.jpg'') = Inr 1000"
  "load_image fs_corrupt ''/tmp/a.jpg'' = None"
  "isdir fs_corrupt ''/home/u/.cache/thumbnails/large''"
  "isdir fs_corrupt ''/home/u/.cache/thumbnails/fail/app-1.0''"
  "nodes fs_corrupt ''/home/u/.cache/thumbnails/fail/app-1.0/tmpk3x9q2ab.png'' = None"
  "\<not> isdir fs_corrupt fail_a"
  "tmpnames fs_corrupt = [''k3x9q2ab'', ''w7m1c5zz'', ''p0d8e4rt'']"
  by (simp_all add: getsize_def getmtime_def load_image_def isdir_def fs_corrupt_def fs_of_def
      dir_node_def is_Dir_def fail_a_def strip_trailing_last)

lemma temp_fail_a:
  "path_join (dirname fail_a) ''tmpk3x9q2ab.png''
     = ''/home/u/.cache/thumbnails/fail/app-1.0/tmpk3x9q2ab.png''"
  "''/home/u/.cache/thumbnails/fail/app-1.0/tmpk3x9q2ab.png'' \<noteq> fail_a"
  "path_join (path_join (thumb_path_prefix (env_with a)) ''fail'') ''app-1.0''
     = ''/home/u/.cache/thumbnails/fail/app-1.0''"
  by (simp_all add: dirname_fail_a path_join_def startswith_def prefix_ex)
     (simp add: fail_a_def)

lemma temp_large_a:
  "path_join (dirname large_a) ''tmpk3x9q2ab.png''
     = ''/home/u/.cache/thumbnails/large/tmpk3x9q2ab.png''"
  "path_join (dirname large_a) ''tmpw7m1c5zz.png''
     = ''/home/u/.cache/thumbnails/large/tmpw7m1c5zz.png''"
  "''/home/u/.cache/thumbnails/large/tmpk3x9q2ab.png'' \<noteq> large_a"
  "''/home/u/.cache/thumbnails/large/tmpw7m1c5zz.png'' \<noteq> large_a"
  "dirname ''/home/u/.cache/thumbnails/large/tmpk3x9q2ab.png'' = dirname large_a"
  by (simp_all add: dirname_large_a path_join_def startswith_def)
     (simp_all add: large_a_def dirname_def rstrip_slash_def)

lemma info_dict_default_a:
  "getmtime st (Some ''/tmp/a.jpg'') = Inr 1000 \<Longrightarrow>
     info_dict (env_with a) st None None (Some ''/tmp/a.jpg'')
       = Inr [KEY_MTIME \<mapsto> ''1000'', KEY_URI \<mapsto> ''file:///tmp/a.jpg'']"
  by (simp add: info_dict_def dict_or_empty_def any2mtime_def setdefault_def uri_a str_int_1000)

lemma put_fail_corrupt:
  "put_fail (env_with only_pil) fs_corrupt ''/tmp/a.jpg'' ''app-1.0'' None None =
     (Inr (Some fail_a),
      fs_corrupt\<lparr>nodes := (nodes fs_corrupt)(fail_a \<mapsto>
            \<lparr>body = Image (1, 1) [KEY_MTIME \<mapsto> ''1000'', KEY_URI \<mapsto> ''file:///tmp/a.jpg''],
             st_mtime = clock fs_corrupt,
             st_size = encoded_size (env_with only_pil) (1, 1)
                         [KEY_MTIME \<mapsto> ''1000'', KEY_URI \<mapsto> ''file:///tmp/a.jpg'']\<rparr>),
         tmpnames := [''w7m1c5zz'', ''p0d8e4rt''],
         trace := trace fs_corrupt @
           [Created ''/home/u/.cache/thumbnails/fail/app-1.0/tmpk3x9q2ab.png'',
            Chmod ''/home/u/.cache/thumbnails/fail/app-1.0/tmpk3x9q2ab.png'' 384,
            Written ''/home/u/.cache/thumbnails/fail/app-1.0/tmpk3x9q2ab.png'',
            Renamed ''/home/u/.cache/thumbnails/fail/app-1.0/tmpk3x9q2ab.png'' fail_a]\<rparr>)"
proof -
  let ?E = "env_with only_pil"
  let ?tmp = "''/home/u/.cache/thumbnails/fail/app-1.0/tmpk3x9q2ab.png''"
  have 2: "isdir fs_corrupt (path_join (path_join (thumb_path_prefix ?E) ''fail'') ''app-1.0'')"
    by (simp add: temp_fail_a(3) corrupt_facts)
  have 4: "isdir fs_corrupt (dirname (fail_path ?E ''/tmp/a.jpg'' ''app-1.0''))"
    by (simp add: fail_path_a dirname_fail_a corrupt_facts)
  have 6: "?tmp = path_join (dirname (fail_path ?E ''/tmp/a.jpg'' ''app-1.0''))
                    (''tmp'' @ ''k3x9q2ab'' @ ''.png'')"
    by (simp add: fail_path_a temp_fail_a(1))
  have 8: "\<not> isdir fs_corrupt (fail_path ?E ''/tmp/a.jpg'' ''app-1.0'')"
    by (simp add: fail_path_a corrupt_facts)
  have 9: "?tmp \<noteq> fail_path ?E ''/tmp/a.jpg'' ''app-1.0''"
    by (simp add: fail_path_a temp_fail_a(2))
  show ?thesis
    using put_fail_run [OF pil_backend 2 info_dict_default_a [OF corrupt_facts(2)] 4
        corrupt_facts(8) 6 corrupt_facts(6) 8 9]
    by (simp add: fail_path_a)
qed

lemma preview_facts:
  "getsize fs_preview ''/tmp/a.jpg'' = Inr 34567"
  "getmtime fs_preview (Some ''/tmp/a.jpg'') = Inr 1000"
  "load_image fs_preview ''/tmp/a.jpg'' = Some ((640, 480), Map.empty)"
  "nodes fs_preview preview_png
     = Some \<lparr>body = Image (256, 256) Map.empty, st_mtime = 1900, st_size = 7000\<rparr>"
  "load_image fs_preview preview_png = Some ((256, 256), Map.empty)"
  "isdir fs_preview ''/home/u/.cache/thumbnails/large''"
  "isdir fs_preview ''/home/u/.cache/thumbnails/fail/app-1.0''"
  "nodes fs_preview ''/home/u/.cache/thumbnails/large/tmpk3x9q2ab.png'' = None"
  "nodes fs_preview ''/home/u/.cache/thumbnails/large/tmpw7m1c5zz.png'' = None"
  "nodes fs_preview ''/home/u/.cache/thumbnails/fail/app-1.0/tmpk3x9q2ab.png'' = None"
  "\<not> isdir fs_preview large_a" "\<not> isdir fs_preview fail_a"
  "\<not> path_exists fs_preview large_a" "\<not> path_exists fs_preview fail_a"
  "tmpnames fs_preview = [''k3x9q2ab'', ''w7m1c5zz'', ''p0d8e4rt'']"
  "trace fs_preview = []"
  by (simp_all add: getsize_def getmtime_def load_image_def isdir_def path_exists_def
      fs_preview_def fs_of_def photo_def dir_node_def is_Dir_def fail_a_def large_a_def
      preview_png_def strip_trailing_last)

lemma preview_paths:
  "large_a \<noteq> preview_png" "dirname large_a \<noteq> dirname preview_png"
  "preview_png \<noteq> ''/home/u/.cache/thumbnails/large/tmpk3x9q2ab.png''"
  "preview_png \<noteq> ''/home/u/.cache/thumbnails/large/tmpw7m1c5zz.png''"
  by (simp_all add: dirname_large_a)
     (simp_all add: large_a_def preview_png_def dirname_def rstrip_slash_def)

lemma info_dict_forged:
  assumes "info_dict E st (Some forged) mtime (Some src) = Inr d"
  shows "d KEY_URI = Some ''urn:other''" "d KEY_MTIME = Some ''7''"
  using info_dict_keeps [OF assms] by (simp_all add: forged_keys)

lemma put_fail_preview:
  assumes b: "get_backend (env_with a) = Some b"
    and d: "info_dict (env_with a) fs_preview mi mtime (Some ''/tmp/a.jpg'') = Inr d"
  shows "put_fail (env_with a) fs_preview ''/tmp/a.jpg'' ''app-1.0'' mtime mi =
    (Inr (Some fail_a),
     fs_preview\<lparr>nodes := (nodes fs_preview)(fail_a \<mapsto>
           \<lparr>body = Image (1, 1) d, st_mtime = clock fs_preview,
            st_size = encoded_size (env_with a) (1, 1) d\<rparr>),
        tmpnames := [''w7m1c5zz'', ''p0d8e4rt''],
        trace :=
          [Created ''/home/u/.cache/thumbnails/fail/app-1.0/tmpk3x9q2ab.png'',
           Chmod ''/home/u/.cache/thumbnails/fail/app-1.0/tmpk3x9q2ab.png'' 384,
           Written ''/home/u/.cache/thumbnails/fail/app-1.0/tmpk3x9q2ab.png'',
           Renamed ''/home/u/.cache/thumbnails/fail/app-1.0/tmpk3x9q2ab.png'' fail_a]\<rparr>)"
proof -
  let ?E = "env_with a"
  let ?tmp = "''/home/u/.cache/thumbnails/fail/app-1.0/tmpk3x9q2ab.png''"
  have 2: "isdir fs_preview (path_join (path_join (thumb_path_prefix ?E) ''fail'') ''app-1.0'')"
    by (simp add: temp_fail_a(3) preview_facts)
  have 4: "isdir fs_preview (dirname (fail_path ?E ''/tmp/a.jpg'' ''app-1.0''))"
    by (simp add: fail_path_a dirname_fail_a preview_facts)
  have 6: "?tmp = path_join (dirname (fail_path ?E ''/tmp/a.jpg'' ''app-1.0''))
                    (''tmp'' @ ''k3x9q2ab'' @ ''.png'')"
    by (simp add: fail_path_a temp_fail_a(1))
  have 8: "\<not> isdir fs_preview (fail_path ?E ''/tmp/a.jpg'' ''app-1.0'')"
    by (simp add: fail_path_a preview_facts)
  have 9: "?tmp \<noteq> fail_path ?E ''/tmp/a.jpg'' ''app-1.0''"
    by (simp add: fail_path_a temp_fail_a(2))
  show ?thesis
    using put_fail_run [OF b 2 d 4 preview_facts(15) 6 preview_facts(10) 8 9]
    by (simp add: fail_path_a preview_facts(16))
qed

lemma create_thumbnail_preview:
  assumes b: "get_backend (env_with a) = Some PilBackend"
    and d: "info_dict (env_with a) fs_preview mi None (Some ''/tmp/a.jpg'') = Inr d"
  shows "create_thumbnail (env_with a) fs_preview ''/tmp/a.jpg'' (PyStr ''large'') mi app =
    (Inr (Some large_a),
     fs_preview\<lparr>nodes := (nodes fs_preview)(large_a \<mapsto>
           \<lparr>body = Image (resized (env_with a) PilBackend 256 (640, 480))
                     (own_size_text (640, 480) (d(KEY_SIZE \<mapsto> str_int 34567))),
            st_mtime = clock fs_preview,
            st_size = encoded_size (env_with a) (resized (env_with a) PilBackend 256 (640, 480))
                     (own_size_text (640, 480) (d(KEY_SIZE \<mapsto> str_int 34567)))\<rparr>),
        tmpnames := [''w7m1c5zz'', ''p0d8e4rt''],
        trace :=
          [Created ''/home/u/.cache/thumbnails/large/tmpk3x9q2ab.png'',
           Chmod ''/home/u/.cache/thumbnails/large/tmpk3x9q2ab.png'' 384,
           Written ''/home/u/.cache/thumbnails/large/tmpk3x9q2ab.png'',
           Renamed ''/home/u/.cache/thumbnails/large/tmpk3x9q2ab.png'' large_a]\<rparr>)"
proof -
  let ?tmp = "''/home/u/.cache/thumbnails/large/tmpk3x9q2ab.png''"
  have 1: "ebind (any2size (PyStr ''large'')) subscript0 = Inr 256"
    by (simp add: any2size_def subscript0_def)
  have 7: "isdir fs_preview (dirname large_a)"
    by (simp add: dirname_large_a preview_facts)
  have 9: "?tmp = path_join (dirname large_a) (''tmp'' @ ''k3x9q2ab'' @ ''.png'')"
    by (simp add: temp_large_a(1))
  have 13: "large_a \<noteq> []" by (simp add: large_a_def)
  show ?thesis
    using create_thumbnail_run [OF 1 preview_facts(1) large_path_a256 d b preview_facts(3) 7
      preview_facts(15) 9 preview_facts(8,11) temp_large_a(3) 13, of app]
    by (simp add: preview_facts(16))
qed

lemma put_thumbnail_preview:
  assumes b: "get_backend (env_with a) = Some b"
    and d: "info_dict (env_with a) fs_preview mi (Some m) (Some ''/tmp/a.jpg'') = Inr d"
    and t: "tx' = (case b of PilBackend \<Rightarrow> d
                   | MagickBackend \<Rightarrow> own_size_text (256, 256) (Map.empty ++ d)
                   | QtBackend \<Rightarrow> own_size_text (256, 256) (Map.empty ++ d))"
  shows "put_thumbnail (env_with a) fs_preview ''/tmp/a.jpg'' (PyStr ''large'') preview_png
           (Some m) mi =
    (Inr large_a,
     fs_preview\<lparr>nodes := (nodes fs_preview)(preview_png := None, large_a \<mapsto>
           \<lparr>body = Image (256, 256) tx', st_mtime = clock fs_preview,
            st_size = encoded_size (env_with a) (256, 256) tx'\<rparr>),
        tmpnames := [''p0d8e4rt''],
        trace :=
          [Created ''/home/u/.cache/thumbnails/large/tmpk3x9q2ab.png'',
           Chmod ''/home/u/.cache/thumbnails/large/tmpk3x9q2ab.png'' 384,
           Moved preview_png ''/home/u/.cache/thumbnails/large/tmpk3x9q2ab.png'',
           Created ''/home/u/.cache/thumbnails/large/tmpw7m1c5zz.png'',
           Chmod ''/home/u/.cache/thumbnails/large/tmpw7m1c5zz.png'' 384,
           Written ''/home/u/.cache/thumbnails/large/tmpw7m1c5zz.png'',
           Renamed ''/home/u/.cache/thumbnails/large/tmpw7m1c5zz.png''
             ''/home/u/.cache/thumbnails/large/tmpk3x9q2ab.png'',
           Chmod ''/home/u/.cache/thumbnails/large/tmpk3x9q2ab.png'' 384,
           Renamed ''/home/u/.cache/thumbnails/large/tmpk3x9q2ab.png'' large_a]\<rparr>)"
proof -
  let ?t1 = "''/home/u/.cache/thumbnails/large/tmpk3x9q2ab.png''"
  let ?t2 = "''/home/u/.cache/thumbnails/large/tmpw7m1c5zz.png''"
  have dir: "isdir fs_preview (dirname large_a)"
    by (simp add: dirname_large_a preview_facts)
  have t1: "?t1 = path_join (dirname large_a) (''tmp'' @ ''k3x9q2ab'' @ ''.png'')"
    by (simp add: temp_large_a(1))
  have t2: "?t2 = path_join (dirname large_a) (''tmp'' @ ''w7m1c5zz'' @ ''.png'')"
    by (simp add: temp_large_a(2))
  have ne: "?t1 \<noteq> ?t2" by simp
  show ?thesis
    using put_thumbnail_move_run [OF large_path_a preview_paths(1,2) dir preview_facts(15)
      t1 t2 temp_large_a(5) preview_facts(8,9) ne preview_paths(3,4)
      temp_large_a(3) [symmetric] temp_large_a(4) [symmetric] preview_facts(4) d b t
      preview_facts(11) strip_trailing_paths(1)]
    by (simp add: preview_facts(16))
qed

text \<open>
C10. The claim: in every call of \<^verbatim>\<open>put_thumbnail\<close>, \<^verbatim>\<open>put_fail\<close> or
  \<^verbatim>\<open>create_thumbnail\<close> whose \<open>moreinfo\<close> has \<open>Thumb::URI\<close> or \<open>Thumb::MTime\<close>, the
  caller's value is kept and the derived one is not written. The code: under the Qt or
  the Magick backend, \<^verbatim>\<open>put_thumbnail\<close> on a scratch file the toolkit cannot load
  moves the file to the destination and returns, with no text stored at all (the PIL
  backend raises \<open>OSError\<close> on the same call); and \<^verbatim>\<open>create_thumbnail\<close> on a source
  that cannot be decoded, with an application name, writes a fail marker that holds the
  derived URI and time, not the caller's. Where the image is written from the caller's
  dictionary (the last seven conjuncts) the caller's values are the ones stored.
\<close>

theorem caller_metadata_not_always_kept:
  "forged KEY_URI = Some ''urn:other'' \<and> forged KEY_MTIME = Some ''7''
   \<and> fst (put_thumbnail (env_with only_qt) fs_junk ''http://x/y.pdf'' (PyStr ''large'')
            scratch_png (Some 0) (Some forged)) = Inr pdf_large
   \<and> nodes (snd (put_thumbnail (env_with only_qt) fs_junk ''http://x/y.pdf'' (PyStr ''large'')
                   scratch_png (Some 0) (Some forged))) pdf_large
       = Some \<lparr>body = Data, st_mtime = 1900, st_size = 12\<rparr>
   \<and> stored_text (snd (put_thumbnail (env_with only_qt) fs_junk ''http://x/y.pdf''
                         (PyStr ''large'') scratch_png (Some 0) (Some forged))) pdf_large KEY_URI
       = None
   \<and> stored_text (snd (put_thumbnail (env_with only_qt) fs_junk ''http://x/y.pdf''
                         (PyStr ''large'') scratch_png (Some 0) (Some forged))) pdf_large KEY_MTIME
       = None
   \<and> fst (put_thumbnail (env_with only_magick) fs_junk ''http://x/y.pdf'' (PyStr ''large'')
            scratch_png (Some 0) (Some forged)) = Inr pdf_large
   \<and> put_thumbnail (env_with only_pil) fs_junk ''http://x/y.pdf'' (PyStr ''large'')
         scratch_png (Some 0) (Some forged) = (Inl OSError, fs_junk)
   \<and> fst (create_thumbnail (env_with only_pil) fs_corrupt ''/tmp/a.jpg'' (PyStr ''large'')
            (Some forged) (Some ''app-1.0'')) = Inr None
   \<and> stored_text (snd (create_thumbnail (env_with only_pil) fs_corrupt ''/tmp/a.jpg''
                         (PyStr ''large'') (Some forged) (Some ''app-1.0''))) fail_a KEY_URI
       = Some ''file:///tmp/a.jpg''
   \<and> stored_text (snd (create_thumbnail (env_with only_pil) fs_corrupt ''/tmp/a.jpg''
                         (PyStr ''large'') (Some forged) (Some ''app-1.0''))) fail_a KEY_MTIME
       = Some ''1000''
   \<and> fst (put_thumbnail (env_with only_qt) fs_preview ''/tmp/a.jpg'' (PyStr ''large'')
            preview_png (Some 100) (Some forged)) = Inr large_a
   \<and> stored_text (snd (put_thumbnail (env_with only_qt) fs_preview ''/tmp/a.jpg''
                         (PyStr ''large'') preview_png (Some 100) (Some forged))) large_a KEY_URI
       = Some ''urn:other''
   \<and> stored_text (snd (put_thumbnail (env_with only_pil) fs_preview ''/tmp/a.jpg''
                         (PyStr ''large'') preview_png (Some 100) (Some forged))) large_a KEY_MTIME
       = Some ''7''
   \<and> fst (create_thumbnail (env_with only_pil) fs_preview ''/tmp/a.jpg'' (PyStr ''large'')
            (Some forged) (Some ''app-1.0'')) = Inr (Some large_a)
   \<and> stored_text (snd (create_thumbnail (env_with only_pil) fs_preview ''/tmp/a.jpg''
                         (PyStr ''large'') (Some forged) (Some ''app-1.0''))) large_a KEY_URI
       = Some ''urn:other''
   \<and> fst (put_fail (env_with only_pil) fs_preview ''/tmp/a.jpg'' ''app-1.0'' (Some 100)
            (Some forged)) = Inr (Some fail_a)
   \<and> stored_text (snd (put_fail (env_with only_pil) fs_preview ''/tmp/a.jpg'' ''app-1.0''
                         (Some 100) (Some forged))) fail_a KEY_URI
       = Some ''urn:other''"
proof -
  obtain d where d: "\<And>a. info_dict (env_with a) fs_junk (Some forged) (Some 0)
                        (Some ''http://x/y.pdf'') = Inr d"
    by (simp add: info_dict_def any2mtime_def int_float_small uri_pdf)
  have q: "put_thumbnail (env_with only_qt) fs_junk ''http://x/y.pdf'' (PyStr ''large'')
             scratch_png (Some 0) (Some forged)
           = (Inr pdf_large,
              fs_junk\<lparr>nodes := (nodes fs_junk)(scratch_png := None,
                         pdf_large \<mapsto> \<lparr>body = Data, st_mtime = 1900, st_size = 12\<rparr>),
                      trace := trace fs_junk @ [Chmod scratch_png 384,
                                                Renamed scratch_png pdf_large]\<rparr>)"
    by (rule put_thumbnail_unloadable_run [OF pdf_path junk_facts(4,5) d qt_backend _
          junk_facts(1,2,3)]) simp
  have mg: "put_thumbnail (env_with only_magick) fs_junk ''http://x/y.pdf'' (PyStr ''large'')
             scratch_png (Some 0) (Some forged)
           = (Inr pdf_large,
              fs_junk\<lparr>nodes := (nodes fs_junk)(scratch_png := None,
                         pdf_large \<mapsto> \<lparr>body = Data, st_mtime = 1900, st_size = 12\<rparr>),
                      trace := trace fs_junk @ [Chmod scratch_png 384,
                                                Renamed scratch_png pdf_large]\<rparr>)"
    by (rule put_thumbnail_unloadable_run [OF pdf_path junk_facts(4,5) d magick_backend _
          junk_facts(1,2,3)]) simp
  have p: "put_thumbnail (env_with only_pil) fs_junk ''http://x/y.pdf'' (PyStr ''large'')
             scratch_png (Some 0) (Some forged) = (Inl OSError, fs_junk)"
    by (rule put_thumbnail_unloadable_pil [OF pdf_path junk_facts(4,5) d pil_backend
          junk_facts(2)])
  obtain d' where d': "info_dict (env_with only_pil) fs_corrupt (Some forged) None
                         (Some ''/tmp/a.jpg'') = Inr d'"
    by (simp add: info_dict_def any2mtime_def corrupt_facts)
  have c: "create_thumbnail (env_with only_pil) fs_corrupt ''/tmp/a.jpg'' (PyStr ''large'')
             (Some forged) (Some ''app-1.0'')
           = (Inr None, snd (put_fail (env_with only_pil) fs_corrupt ''/tmp/a.jpg'' ''app-1.0''
                               None None))"
    by (rule create_thumbnail_marks_failure [OF _ corrupt_facts(1) large_path_a256 d'
          pil_backend corrupt_facts(3)])
       (simp_all add: any2size_def subscript0_def dirname_large_a corrupt_facts put_fail_corrupt)
  obtain e where e: "\<And>a. info_dict (env_with a) fs_preview (Some forged) (Some 100)
                        (Some ''/tmp/a.jpg'') = Inr e"
    by (simp add: info_dict_def any2mtime_def int_float_small uri_a)
  obtain g where g: "info_dict (env_with only_pil) fs_preview (Some forged) None
                        (Some ''/tmp/a.jpg'') = Inr g"
    by (simp add: info_dict_def any2mtime_def preview_facts)
  note E = info_dict_forged [OF e [of only_pil]] and G = info_dict_forged [OF g]
  have pq: "stored_text (snd (put_thumbnail (env_with only_qt) fs_preview ''/tmp/a.jpg''
                         (PyStr ''large'') preview_png (Some 100) (Some forged))) large_a KEY_URI
              = Some ''urn:other''"
    "fst (put_thumbnail (env_with only_qt) fs_preview ''/tmp/a.jpg'' (PyStr ''large'')
            preview_png (Some 100) (Some forged)) = Inr large_a"
    by (simp_all add: put_thumbnail_preview [OF qt_backend e refl] stored_text_def load_image_def
        own_size_text_def E)
  have pp: "stored_text (snd (put_thumbnail (env_with only_pil) fs_preview ''/tmp/a.jpg''
                         (PyStr ''large'') preview_png (Some 100) (Some forged))) large_a KEY_MTIME
              = Some ''7''"
    by (simp add: put_thumbnail_preview [OF pil_backend e refl] stored_text_def load_image_def E)
  have cp: "stored_text (snd (create_thumbnail (env_with only_pil) fs_preview ''/tmp/a.jpg''
                         (PyStr ''large'') (Some forged) (Some ''app-1.0''))) large_a KEY_URI
              = Some ''urn:other''"
    "fst (create_thumbnail (env_with only_pil) fs_preview ''/tmp/a.jpg'' (PyStr ''large'')
            (Some forged) (Some ''app-1.0'')) = Inr (Some large_a)"
    by (simp_all add: create_thumbnail_preview [OF pil_backend g] stored_text_def load_image_def
        own_size_text_def G)
  have fp: "stored_text (snd (put_fail (env_with only_pil) fs_preview ''/tmp/a.jpg'' ''app-1.0''
                         (Some 100) (Some forged))) fail_a KEY_URI = Some ''urn:other''"
    "fst (put_fail (env_with only_pil) fs_preview ''/tmp/a.jpg'' ''app-1.0'' (Some 100)
            (Some forged)) = Inr (Some fail_a)"
    by (simp_all add: put_fail_preview [OF pil_backend e] stored_text_def load_image_def E)
  show ?thesis
    by (simp add: forged_keys q mg p c put_fail_corrupt stored_text_def load_image_def junk_facts)
       (simp add: pq pp cp fp stored_text_def [symmetric] load_image_def [symmetric])
qed

section \<open>The directory of a temporary file\<close>

lemma dropWhile_all_slashes:
  "dropWhile (\<lambda>c. c \<noteq> CHR ''/'') (replicate k CHR ''/'') = replicate k CHR ''/''"
  by (cases k) simp_all

lemma not_all_slashes:
  "xs \<noteq> replicate (length xs) CHR ''/'' \<Longrightarrow> \<exists>x \<in> set xs. x \<noteq> CHR ''/''"
  by (induction xs) auto

text \<open>
\<^verbatim>\<open>os.path.dirname\<close> returns a string of slashes only, or one that does not end in a
  slash; a temporary name without a slash joined to it has that directory again.
\<close>

lemma dirname_shape:
  "dirname q = replicate (length (dirname q)) CHR ''/''
   \<or> (dirname q \<noteq> [] \<and> last (dirname q) \<noteq> CHR ''/'')"
proof -
  define head where "head = rev (dropWhile (\<lambda>c. c \<noteq> CHR ''/'') (rev q))"
  show ?thesis
  proof (cases "head \<noteq> [] \<and> head \<noteq> replicate (length head) CHR ''/''")
    case True
    then obtain x where x: "x \<in> set (rev head)" "x \<noteq> CHR ''/''"
      using not_all_slashes [of head] by auto
    then have ne: "dropWhile (\<lambda>c. c = CHR ''/'') (rev head) \<noteq> []"
      by (auto simp: dropWhile_eq_Nil_conv)
    then have "hd (dropWhile (\<lambda>c. c = CHR ''/'') (rev head)) \<noteq> CHR ''/''"
      using hd_dropWhile [of "\<lambda>c. c = CHR ''/''" "rev head"] by simp
    with ne have "last (rstrip_slash head) \<noteq> CHR ''/''" "rstrip_slash head \<noteq> []"
      by (simp_all add: rstrip_slash_def last_rev)
    with True show ?thesis
      by (simp add: dirname_def head_def [symmetric] Let_def)
  next
    case False
    then show ?thesis
      by (auto simp: dirname_def head_def [symmetric] Let_def)
  qed
qed

lemma dirname_temp_name:
  assumes n: "CHR ''/'' \<notin> set n"
    and d: "d = replicate (length d) CHR ''/'' \<or> (d \<noteq> [] \<and> last d \<noteq> CHR ''/'')"
  shows "dirname (path_join d (''tmp'' @ n @ ''.png'')) = d"
proof -
  let ?nm = "''tmp'' @ n @ ''.png''"
  have nm: "\<And>x. x \<in> set (rev ?nm) \<Longrightarrow> x \<noteq> CHR ''/''"
    using n by auto
  have ns: "\<not> startswith ?nm ''/''"
    by (simp add: startswith_def)
  from d show ?thesis
  proof
    assume all: "d = replicate (length d) CHR ''/''"
    then have "d = [] \<or> last d = CHR ''/''"
      by (cases "length d") (auto simp: last_replicate)
    then have pj: "path_join d ?nm = d @ ?nm"
      using ns by (auto simp: path_join_def)
    have "rev d = replicate (length d) CHR ''/''"
      using all by (metis rev_replicate)
    then have "dropWhile (\<lambda>c. c \<noteq> CHR ''/'') (rev (d @ ?nm)) = rev d"
      using dropWhile_append2 [of "rev ?nm" "\<lambda>c. c \<noteq> CHR ''/''" "rev d"] nm
        dropWhile_all_slashes [of "length d"]
      by simp
    then show ?thesis
      using all unfolding pj dirname_def Let_def by simp
  next
    assume ne: "d \<noteq> [] \<and> last d \<noteq> CHR ''/''"
    then have pj: "path_join d ?nm = d @ ''/'' @ ?nm"
      using ns by (auto simp: path_join_def)
    have "rev (d @ ''/'' @ ?nm) = rev ?nm @ CHR ''/'' # rev d"
      by simp
    then have dw: "dropWhile (\<lambda>c. c \<noteq> CHR ''/'') (rev (d @ ''/'' @ ?nm)) = CHR ''/'' # rev d"
      using dropWhile_append2 [of "rev ?nm" "\<lambda>c. c \<noteq> CHR ''/''" "CHR ''/'' # rev d"] nm
      by simp
    have x: "last d \<in> set d" using ne by simp
    have notall: "d @ ''/'' \<noteq> replicate (length (d @ ''/'')) CHR ''/''"
    proof
      assume "d @ ''/'' = replicate (length (d @ ''/'')) CHR ''/''"
      then have "set (d @ ''/'') \<subseteq> {CHR ''/''}"
        by (metis set_replicate_conv_if empty_subsetI subset_refl)
      then have "set d \<subseteq> {CHR ''/''}" by simp
      with x have "last d = CHR ''/''" by blast
      with ne show False by simp
    qed
    have "rev d \<noteq> []" "hd (rev d) \<noteq> CHR ''/''"
      using ne by (simp_all add: hd_rev)
    then have "dropWhile (\<lambda>c. c = CHR ''/'') (rev d) = rev d"
      by (cases "rev d") auto
    then have rs: "rstrip_slash (d @ ''/'') = d"
      by (simp add: rstrip_slash_def)
    show ?thesis
      unfolding pj dirname_def Let_def dw using notall rs by simp
  qed
qed

lemma dirname_temp:
  assumes "p \<in> temp_names st (dirname q)" "\<forall>n \<in> set (tmpnames st). CHR ''/'' \<notin> set n"
  shows "dirname p = dirname q"
proof -
  from assms(1) obtain n where n: "n \<in> set (tmpnames st)"
    and p: "p = path_join (dirname q) (''tmp'' @ n @ ''.png'')"
    unfolding temp_names_def by blast
  from assms(2) n have "CHR ''/'' \<notin> set n" by blast
  then show ?thesis
    unfolding p using dirname_shape [of q] by (rule dirname_temp_name)
qed

section \<open>The atomic writer, read off the log\<close>

lemma temp_discipline_mono:
  "temp_discipline T ops \<Longrightarrow> T \<subseteq> T' \<Longrightarrow> temp_discipline T' ops"
proof (induction ops arbitrary: T T')
  case Nil
  then show ?case by simp
next
  case (Cons x xs)
  then show ?case
    by (cases x) (auto elim!: Cons.IH)
qed

lemma temp_discipline_append:
  "temp_discipline T xs \<Longrightarrow> temp_discipline {} ys \<Longrightarrow> temp_discipline T (xs @ ys)"
proof (induction xs arbitrary: T)
  case Nil
  then show ?case using temp_discipline_mono [of "{}" ys T] by simp
next
  case (Cons x xs)
  then show ?case by (cases x) auto
qed

lemma temp_discipline_written:
  "temp_discipline T ops \<Longrightarrow> Written p \<in> set ops \<Longrightarrow> p \<in> T \<or> Created p \<in> set ops"
proof (induction ops arbitrary: T)
  case Nil
  then show ?case by simp
next
  case (Cons x xs)
  then show ?case by (cases x) (auto dest: Cons.IH)
qed

text \<open>
\<open>delta_ok N st st'\<close>: the log of \<open>st'\<close> extends that of \<open>st\<close> by operations that
  keep the discipline and create and write only paths of \<open>N\<close>. Each primitive, and
  so each sequence of them, is such a step.
\<close>

lemma delta_ok_stay: "trace st' = trace st \<Longrightarrow> delta_ok N st st'"
  by (simp add: delta_ok_def)

lemma delta_ok_ops:
  "trace st' = trace st @ ops \<Longrightarrow> temp_discipline {} ops \<Longrightarrow>
   (\<And>p. Created p \<in> set ops \<or> Written p \<in> set ops \<Longrightarrow> p \<in> N) \<Longrightarrow> delta_ok N st st'"
  unfolding delta_ok_def by blast

lemma delta_ok_trans:
  assumes "delta_ok N st st1" "delta_ok N st1 st2"
  shows "delta_ok N st st2"
proof -
  from assms obtain xs ys where xs: "trace st1 = trace st @ xs" "temp_discipline {} xs"
      "\<forall>p. Created p \<in> set xs \<or> Written p \<in> set xs \<longrightarrow> p \<in> N"
    and ys: "trace st2 = trace st1 @ ys" "temp_discipline {} ys"
      "\<forall>p. Created p \<in> set ys \<or> Written p \<in> set ys \<longrightarrow> p \<in> N"
    unfolding delta_ok_def by blast
  show ?thesis
  proof (rule delta_ok_ops [of _ _ "xs @ ys"])
    show "trace st2 = trace st @ xs @ ys" by (simp add: xs(1) ys(1))
    show "temp_discipline {} (xs @ ys)" using xs(2) ys(2) by (rule temp_discipline_append)
    show "p \<in> N" if "Created p \<in> set (xs @ ys) \<or> Written p \<in> set (xs @ ys)" for p
      using that xs(3) ys(3) by auto
  qed
qed

lemma delta_ok_mono: "delta_ok N st st' \<Longrightarrow> N \<subseteq> N' \<Longrightarrow> delta_ok N' st st'"
  unfolding delta_ok_def by blast

lemma delta_ok_never_written:
  "delta_ok N st st' \<Longrightarrow> dest \<notin> N \<Longrightarrow> trace st' = trace st @ ops \<Longrightarrow> Written dest \<notin> set ops"
  unfolding delta_ok_def by auto

lemma temp_names_mono:
  "set (tmpnames st1) \<subseteq> set (tmpnames st) \<Longrightarrow> temp_names st1 d \<subseteq> temp_names st d"
  by (auto simp: temp_names_def)

lemma ends_with_rename_after:
  assumes "delta_ok N st st1" "ends_with_rename st1 st2 d"
  shows "ends_with_rename st st2 d"
proof -
  from assms obtain xs ys tmp where "trace st1 = trace st @ xs"
    "trace st2 = trace st1 @ ys @ [Renamed tmp d]"
    unfolding delta_ok_def ends_with_rename_def by blast
  then have "trace st2 = trace st @ (xs @ ys) @ [Renamed tmp d]" by simp
  then show ?thesis unfolding ends_with_rename_def by blast
qed

lemma mkstemp_delta:
  assumes "mkstemp st dest = (r, st1)"
  shows "delta_ok (temp_names st (dirname dest)) st st1"
    and "set (tmpnames st1) \<subseteq> set (tmpnames st)"
proof -
  show "delta_ok (temp_names st (dirname dest)) st st1"
  proof (cases r)
    case (Inl e)
    then show ?thesis using assms by (simp add: mkstemp_Inl delta_ok_stay)
  next
    case (Inr p)
    with assms have m: "mkstemp st dest = (Inr p, st1)" by simp
    show ?thesis
      by (rule delta_ok_ops [OF mkstemp_Inr(5) [OF m]]) (use mkstemp_Inr(1) [OF m] in auto)
  qed
  show "set (tmpnames st1) \<subseteq> set (tmpnames st)"
    using assms by (cases r) (simp_all add: mkstemp_Inl mkstemp_Inr)
qed

lemma write_via_temp_delta:
  assumes "write_via_temp E st dest dims tx = (r, st1)"
  shows "delta_ok (temp_names st (dirname dest)) st st1"
    and "set (tmpnames st1) \<subseteq> set (tmpnames st)"
    and "r = Inr d \<Longrightarrow> ends_with_rename st st1 dest"
proof -
  show "delta_ok (temp_names st (dirname dest)) st st1"
  proof (cases r)
    case (Inl e)
    with assms have "trace st1 = trace st
        \<or> (\<exists>p \<in> temp_names st (dirname dest).
              trace st1 = trace st @ [Created p, Chmod p 384, Written p])"
      using write_via_temp_Inl by blast
    then show ?thesis
    proof
      assume "trace st1 = trace st"
      then show ?thesis by (rule delta_ok_stay)
    next
      assume "\<exists>p \<in> temp_names st (dirname dest).
                trace st1 = trace st @ [Created p, Chmod p 384, Written p]"
      then obtain p where p: "p \<in> temp_names st (dirname dest)"
        and t: "trace st1 = trace st @ [Created p, Chmod p 384, Written p]"
        by blast
      show ?thesis by (rule delta_ok_ops [OF t]) (use p in auto)
    qed
  next
    case (Inr v)
    with assms obtain p where p: "p \<in> temp_names st (dirname dest)"
      and t: "trace st1 = trace st @ [Created p, Chmod p 384, Written p, Renamed p dest]"
      by (auto elim!: write_via_temp_Inr)
    show ?thesis by (rule delta_ok_ops [OF t]) (use p in auto)
  qed
  show "set (tmpnames st1) \<subseteq> set (tmpnames st)"
    using assms by (cases r) (auto dest: write_via_temp_Inl elim!: write_via_temp_Inr)
  show "ends_with_rename st st1 dest" if "r = Inr d"
  proof -
    from assms that obtain p where
      "trace st1 = trace st @ [Created p, Chmod p 384, Written p, Renamed p dest]"
      by (auto elim!: write_via_temp_Inr)
    then have "trace st1 = trace st @ [Created p, Chmod p 384, Written p] @ [Renamed p dest]"
      by simp
    then show ?thesis unfolding ends_with_rename_def by blast
  qed
qed

lemma os_rename_delta:
  assumes "os_rename st a b = (r, st1)"
  shows "delta_ok N st st1" "tmpnames st1 = tmpnames st" "r = Inr u \<Longrightarrow> ends_with_rename st st1 b"
proof -
  show "delta_ok N st st1"
  proof (cases r)
    case (Inl e)
    with assms show ?thesis by (auto dest!: os_rename_Inl simp: delta_ok_stay)
  next
    case (Inr v)
    with assms show ?thesis
      by (auto intro!: delta_ok_ops [of _ _ "[Renamed a b]"] dest: os_rename_Inr(5))
  qed
  show "tmpnames st1 = tmpnames st"
    using assms by (cases r) (auto dest: os_rename_Inl os_rename_Inr(6))
  show "ends_with_rename st st1 b" if "r = Inr u"
    using assms that os_rename_Inr(5) [of st a b u st1]
    unfolding ends_with_rename_def by (metis append_Nil)
qed

lemma shutil_move_delta:
  assumes "shutil_move st a b = (r, st1)"
  shows "delta_ok N st st1" "tmpnames st1 = tmpnames st"
proof -
  show "delta_ok N st st1"
  proof (cases r)
    case (Inl e)
    with assms show ?thesis by (auto dest!: shutil_move_Inl simp: delta_ok_stay)
  next
    case (Inr v)
    with assms show ?thesis
      by (auto intro!: delta_ok_ops [of _ _ "[Moved a b]"] dest: shutil_move_Inr(3))
  qed
  show "tmpnames st1 = tmpnames st"
    using assms by (cases r) (auto dest: shutil_move_Inl shutil_move_Inr(4))
qed

lemma os_chmod_delta:
  assumes "os_chmod st p m = (r, st1)"
  shows "delta_ok N st st1" "tmpnames st1 = tmpnames st"
proof -
  show "delta_ok N st st1"
  proof (cases r)
    case (Inl e)
    with assms show ?thesis by (auto dest!: os_chmod_Inl simp: delta_ok_stay)
  next
    case (Inr v)
    with assms show ?thesis
      by (auto intro!: delta_ok_ops [of _ _ "[Chmod p m]"] dest: os_chmod_Inr(2))
  qed
  show "tmpnames st1 = tmpnames st"
    using assms by (cases r) (auto dest: os_chmod_Inl os_chmod_Inr(3))
qed

lemma new_dir_delta: "delta_ok N st (new_dir st p)" "tmpnames (new_dir st p) = tmpnames st"
  by (auto intro!: delta_ok_ops [of _ _ "[MadeDir p]"] simp: new_dir_def)

lemma mkdir_chain_delta:
  "mkdir_chain st ds = (r, st1) \<Longrightarrow> delta_ok N st st1 \<and> tmpnames st1 = tmpnames st"
proof (induction ds arbitrary: st)
  case Nil
  then show ?case by (simp add: delta_ok_stay)
next
  case (Cons d ds)
  show ?case
  proof (cases "nodes st d")
    case None
    with Cons.prems have "mkdir_chain (new_dir st d) ds = (r, st1)" by simp
    from Cons.IH [OF this] show ?thesis
      using new_dir_delta(1) [of N st d] new_dir_delta(2) [of st d]
      by (auto intro: delta_ok_trans)
  next
    case (Some n)
    with Cons.prems Cons.IH [of st] show ?thesis
      by (auto simp: delta_ok_stay split: if_splits)
  qed
qed

lemma os_makedirs_delta:
  assumes "os_makedirs st p = (r, st1)"
  shows "delta_ok N st st1" "tmpnames st1 = tmpnames st"
proof -
  from assms have "delta_ok N st st1 \<and> tmpnames st1 = tmpnames st"
    unfolding os_makedirs_def Let_def
  proof (cases rule: iobind_cases)
    case (err e)
    then show ?thesis using mkdir_chain_delta by blast
  next
    case (ok v s)
    from mkdir_chain_delta [OF ok(1), of N] ok(2) new_dir_delta(1) [of N s "strip_trailing p"]
      new_dir_delta(2) [of s "strip_trailing p"]
    show ?thesis
      by (auto split: if_splits intro: delta_ok_trans)
  qed
  then show "delta_ok N st st1" "tmpnames st1 = tmpnames st" by simp_all
qed

lemma backend_update_metadata_shape:
  "backend_update_metadata E b st p mi = (r, st') \<Longrightarrow>
     (st' = st \<and> (\<forall>d. r \<noteq> Inr (Some d)))
     \<or> (\<exists>dims tx. write_via_temp E st p dims tx = (r, st'))"
  by (cases b; cases "load_image st p")
     (auto simp: backend_update_metadata_def simp del: split_paired_Ex split_paired_All)

lemma backend_create_thumbnail_shape:
  "backend_create_thumbnail E b st src dest px mi = (r, st') \<Longrightarrow>
     (st' = st \<and> (\<forall>d. r \<noteq> Inr (Some d)))
     \<or> (\<exists>dims tx. write_via_temp E st dest dims tx = (r, st'))"
  by (cases b; cases "load_image st src")
     (auto simp: backend_create_thumbnail_def simp del: split_paired_Ex split_paired_All)

lemma via_temp_delta:
  assumes "(st' = st \<and> (\<forall>d. r \<noteq> Inr (Some d)))
           \<or> (\<exists>dims tx. write_via_temp E st dest dims tx = (r, st'))"
  shows "delta_ok (temp_names st (dirname dest)) st st'"
    and "set (tmpnames st') \<subseteq> set (tmpnames st)"
    and "r = Inr (Some d) \<Longrightarrow> ends_with_rename st st' dest"
  using assms
proof -
  show "delta_ok (temp_names st (dirname dest)) st st'"
    using assms write_via_temp_delta(1) by (auto simp: delta_ok_stay)
  show "set (tmpnames st') \<subseteq> set (tmpnames st)"
    using assms write_via_temp_delta(2) by blast
  show "ends_with_rename st st' dest" if "r = Inr (Some d)"
    using assms that write_via_temp_delta(3) by blast
qed

lemmas backend_update_metadata_delta = via_temp_delta [OF backend_update_metadata_shape]
lemmas backend_create_thumbnail_delta = via_temp_delta [OF backend_create_thumbnail_shape]

lemma put_fail_delta:
  assumes "put_fail E st src a mtime mi = (r, st')"
  shows "delta_ok (temp_names st (dirname (fail_path E src a))) st st'"
    and "set (tmpnames st') \<subseteq> set (tmpnames st)"
    and "r = Inr d \<Longrightarrow> ends_with_rename st st' (fail_path E src a)"
proof -
  let ?N = "temp_names st (dirname (fail_path E src a))"
  let ?P = "\<lambda>st'. delta_ok ?N st st' \<and> set (tmpnames st') \<subseteq> set (tmpnames st)"
  from assms have "?P st' \<and> (\<forall>d. r = Inr d \<longrightarrow> ends_with_rename st st' (fail_path E src a))"
    unfolding put_fail_def Let_def fail_path_def [symmetric]
  proof (cases rule: iobind_cases)
    case (err e)
    then show ?thesis
      using os_makedirs_delta(1) [where st = st and r = "Inl e" and ?st1.0 = st' and N = ?N]
        os_makedirs_delta(2) [where st = st and r = "Inl e" and ?st1.0 = st']
      by (auto simp: delta_ok_stay split: if_splits)
  next
    case (ok u st1)
    from ok(1) have 1: "delta_ok ?N st st1" "tmpnames st1 = tmpnames st"
      using os_makedirs_delta(1) [where st = st and r = "Inr u" and ?st1.0 = st1 and N = ?N]
        os_makedirs_delta(2) [where st = st and r = "Inr u" and ?st1.0 = st1]
      by (auto simp: delta_ok_stay split: if_splits)
    then have N1: "temp_names st1 (dirname (fail_path E src a)) = ?N"
      by (simp add: temp_names_def)
    show ?thesis
    proof (cases "info_dict E st1 mi mtime (Some src)")
      case (Inl e)
      with ok(2) 1 show ?thesis by auto
    next
      case (Inr dct)
      show ?thesis
      proof (cases "get_backend E")
        case None
        with ok(2) Inr 1 show ?thesis by auto
      next
        case (Some b)
        with ok(2) Inr have w: "write_via_temp E st1 (fail_path E src a) (1, 1) dct = (r, st')"
          by (simp add: backend_create_fail_def dict_or_empty_def)
        from write_via_temp_delta [OF w] N1 1 show ?thesis
          by (auto intro: delta_ok_trans ends_with_rename_after)
      qed
    qed
  qed
  then show "delta_ok ?N st st'" "set (tmpnames st') \<subseteq> set (tmpnames st)"
    "r = Inr d \<Longrightarrow> ends_with_rename st st' (fail_path E src a)"
    by blast+
qed

lemma create_thumbnail_delta:
  assumes c: "create_thumbnail E st src sz mi app = (r, st')"
    and px: "ebind (any2size sz) subscript0 = Inr px"
    and dest: "build_thumbnail_path E src (PyInt px) = Inr dest"
  shows "delta_ok (temp_names st (dirname dest)
                   \<union> (case app of None \<Rightarrow> {}
                      | Some a \<Rightarrow> temp_names st (dirname (fail_path E src a)))) st st'"
    and "r = Inr (Some d) \<Longrightarrow> d = dest \<and> ends_with_rename st st' dest"
proof -
  let ?N = "temp_names st (dirname dest)
            \<union> (case app of None \<Rightarrow> {} | Some a \<Rightarrow> temp_names st (dirname (fail_path E src a)))"
  have "delta_ok ?N st st' \<and> (\<forall>d. r = Inr (Some d) \<longrightarrow> d = dest \<and> ends_with_rename st st' dest)"
  proof (cases "getsize st src")
    case (Inl e)
    with c px show ?thesis by (auto simp: create_thumbnail_def delta_ok_stay)
  next
    case n: (Inr n)
    show ?thesis
    proof (cases "info_dict E st mi None (Some src)")
      case (Inl e)
      with c px n dest show ?thesis by (auto simp: create_thumbnail_def delta_ok_stay)
    next
      case dct: (Inr dct)
      from c px n dest dct have
        "iobind (if \<not> isdir st (dirname dest) then os_makedirs st (dirname dest)
                 else (Inr (), st)) (\<lambda>u st1.
           (case get_backend E of
              None \<Rightarrow> (Inl AttributeError, st1)
            | Some b \<Rightarrow>
                iobind (backend_create_thumbnail E b st1 src dest px
                          (Some (dct(KEY_SIZE \<mapsto> str_int (int n))))) (\<lambda>r st2.
                  if truthy r then (Inr (Some dest), st2)
                  else (case app of
                          None \<Rightarrow> (Inr None, st2)
                        | Some a \<Rightarrow>
                            iobind (put_fail E st2 src a None None) (\<lambda>r' st3.
                              (Inr None, st3)))))) = (r, st')"
        by (simp add: create_thumbnail_def Let_def)
      then show ?thesis
      proof (cases rule: iobind_cases)
        case (err e)
        then show ?thesis
          using os_makedirs_delta(1) [where st = st and r = "Inl e" and ?st1.0 = st' and N = ?N]
          by (auto simp: delta_ok_stay split: if_splits)
      next
        case (ok u st1)
        from ok(1) have 1: "delta_ok ?N st st1" "tmpnames st1 = tmpnames st"
          using os_makedirs_delta(1) [where st = st and r = "Inr u" and ?st1.0 = st1 and N = ?N]
            os_makedirs_delta(2) [where st = st and r = "Inr u" and ?st1.0 = st1]
          by (auto simp: delta_ok_stay split: if_splits)
        then have N1: "temp_names st1 (dirname dest) \<subseteq> ?N"
          by (auto simp: temp_names_def)
        show ?thesis
        proof (cases "get_backend E")
          case None
          with ok(2) 1 show ?thesis by auto
        next
          case (Some b)
          with ok(2) have
            "iobind (backend_create_thumbnail E b st1 src dest px
                       (Some (dct(KEY_SIZE \<mapsto> str_int (int n))))) (\<lambda>r st2.
               if truthy r then (Inr (Some dest), st2)
               else (case app of
                       None \<Rightarrow> (Inr None, st2)
                     | Some a \<Rightarrow>
                         iobind (put_fail E st2 src a None None) (\<lambda>r' st3.
                           (Inr None, st3)))) = (r, st')"
            by simp
          then show ?thesis
          proof (cases rule: iobind_cases)
            case (err e)
            from backend_create_thumbnail_delta(1) [OF err(1)] N1 1 err(2) show ?thesis
              by (auto intro: delta_ok_trans delta_ok_mono)
          next
            case (ok r2 st2)
            note B = backend_create_thumbnail_delta [OF ok(1)]
            have 2: "delta_ok ?N st st2"
              using B(1) N1 1(1) by (auto intro: delta_ok_trans delta_ok_mono)
            have t2: "set (tmpnames st2) \<subseteq> set (tmpnames st)"
              using B(2) 1(2) by simp
            show ?thesis
            proof (cases "truthy r2")
              case True
              then obtain d' where "r2 = Some d'" by (auto simp: truthy_def split: option.splits)
              then have "ends_with_rename st1 st2 dest" using B(3) by simp
              then have "ends_with_rename st st2 dest" using 1(1) by (rule ends_with_rename_after [rotated])
              with True ok(2) 2 show ?thesis by auto
            next
              case False
              show ?thesis
              proof (cases app)
                case None
                with False ok(2) 2 show ?thesis by auto
              next
                case (Some a)
                with False ok(2) have
                  "iobind (put_fail E st2 src a None None) (\<lambda>r' st3. (Inr None, st3)) = (r, st')"
                  by simp
                then obtain r3 where pf: "put_fail E st2 src a None None = (r3, st')"
                  and r: "(\<exists>e. r = Inl e) \<or> r = Inr None"
                  by (cases rule: iobind_cases) auto
                have "temp_names st2 (dirname (fail_path E src a)) \<subseteq> ?N"
                  using temp_names_mono [OF t2] Some by auto
                with put_fail_delta(1) [OF pf] have "delta_ok ?N st2 st'"
                  by (rule delta_ok_mono)
                with 2 r show ?thesis by (auto intro: delta_ok_trans)
              qed
            qed
          qed
        qed
      qed
    qed
  qed
  then show "delta_ok ?N st st'" "r = Inr (Some d) \<Longrightarrow> d = dest \<and> ends_with_rename st st' dest"
    by blast+
qed

lemma put_thumbnail_stage:
  assumes "(if dest = thumb then
              iobind (mkstemp st dest) (\<lambda>tmp st1.
                iobind (os_rename st1 dest tmp) (\<lambda>u st2. (Inr tmp, st2)))
            else if dirname dest = dirname thumb then (Inr thumb, st)
            else
              iobind (mkstemp st dest) (\<lambda>tmp st1.
                iobind (shutil_move st1 thumb tmp) (\<lambda>u st2. (Inr tmp, st2)))) = (r, s)"
    and noslash: "\<forall>n \<in> set (tmpnames st). CHR ''/'' \<notin> set n"
  shows "delta_ok (temp_names st (dirname dest)) st s"
    and "set (tmpnames s) \<subseteq> set (tmpnames st)"
    and "r = Inr tmp \<Longrightarrow> dirname tmp = dirname dest"
proof -
  let ?N = "temp_names st (dirname dest)"
  have after_mkstemp:
    "delta_ok ?N st s \<and> set (tmpnames s) \<subseteq> set (tmpnames st)
       \<and> (\<forall>tmp. r = Inr tmp \<longrightarrow> dirname tmp = dirname dest)"
    if run: "iobind (mkstemp st dest) (\<lambda>tmp st1. iobind (f tmp st1) (\<lambda>u st2. (Inr tmp, st2)))
               = (r, s)"
      and f: "\<And>tmp st1 r' s'. f tmp st1 = (r', s') \<Longrightarrow>
                delta_ok ?N st1 s' \<and> tmpnames s' = tmpnames st1"
    for f
    using run
  proof (cases rule: iobind_cases)
    case (err e)
    then show ?thesis using mkstemp_delta [of st dest "Inl e" s] by simp
  next
    case (ok tmp st1)
    note M = mkstemp_delta [OF ok(1)]
    have d: "dirname tmp = dirname dest"
      using mkstemp_Inr(1) [OF ok(1)] noslash by (rule dirname_temp)
    from ok(2) obtain r' where f': "f tmp st1 = (r', s)" and r: "(\<exists>e. r = Inl e) \<or> r = Inr tmp"
      by (cases rule: iobind_cases) auto
    from f [OF f'] M d r show ?thesis
      by (auto intro: delta_ok_trans)
  qed
  have "delta_ok ?N st s \<and> set (tmpnames s) \<subseteq> set (tmpnames st)
          \<and> (\<forall>tmp. r = Inr tmp \<longrightarrow> dirname tmp = dirname dest)"
  proof (cases "dest = thumb")
    case True
    with assms(1) show ?thesis
      by (intro after_mkstemp [where f = "\<lambda>tmp st1. os_rename st1 dest tmp"])
         (auto dest: os_rename_delta(1,2))
  next
    case False
    show ?thesis
    proof (cases "dirname dest = dirname thumb")
      case True
      with False assms(1) show ?thesis by (auto simp: delta_ok_stay)
    next
      case ne: False
      with False assms(1) show ?thesis
        by (intro after_mkstemp [where f = "\<lambda>tmp st1. shutil_move st1 thumb tmp"])
           (auto dest: shutil_move_delta)
    qed
  qed
  then show "delta_ok ?N st s" "set (tmpnames s) \<subseteq> set (tmpnames st)"
    "r = Inr tmp \<Longrightarrow> dirname tmp = dirname dest"
    by blast+
qed

lemma put_thumbnail_delta:
  assumes p: "put_thumbnail E st src sz thumb mtime mi = (r, st')"
    and dest: "build_thumbnail_path E src sz = Inr dest"
    and noslash: "\<forall>n \<in> set (tmpnames st). CHR ''/'' \<notin> set n"
  shows "delta_ok (temp_names st (dirname dest)) st st'"
    and "r = Inr d \<Longrightarrow> d = dest \<and> ends_with_rename st st' dest"
proof -
  let ?N = "temp_names st (dirname dest)"
  from p dest have
    "iobind
       (if dest = thumb then
          iobind (mkstemp st dest) (\<lambda>tmp st1.
            iobind (os_rename st1 dest tmp) (\<lambda>u st2. (Inr tmp, st2)))
        else if dirname dest = dirname thumb then (Inr thumb, st)
        else
          iobind (mkstemp st dest) (\<lambda>tmp st1.
            iobind (shutil_move st1 thumb tmp) (\<lambda>u st2. (Inr tmp, st2))))
       (\<lambda>tmp st3.
          (case info_dict E st3 mi mtime (Some src) of
             Inl e \<Rightarrow> (Inl e, st3)
           | Inr d \<Rightarrow>
               (case get_backend E of
                  None \<Rightarrow> (Inl AttributeError, st3)
                | Some b \<Rightarrow>
                    iobind (backend_update_metadata E b st3 tmp (Some d)) (\<lambda>r st4.
                      iobind (os_chmod st4 tmp 384) (\<lambda>u st5.
                        iobind (os_rename st5 tmp dest) (\<lambda>u st6. (Inr dest, st6)))))))
     = (r, st')"
    by (simp add: put_thumbnail_def)
  then have "delta_ok ?N st st' \<and> (\<forall>d. r = Inr d \<longrightarrow> d = dest \<and> ends_with_rename st st' dest)"
  proof (cases rule: iobind_cases)
    case (err e)
    from put_thumbnail_stage(1) [OF err(1) noslash] err(2) show ?thesis by simp
  next
    case (ok tmp st3)
    note S = put_thumbnail_stage [OF ok(1) noslash]
    have dt: "dirname tmp = dirname dest" by (rule S(3)) simp
    have N3: "temp_names st3 (dirname tmp) \<subseteq> ?N"
      using temp_names_mono [OF S(2)] dt by simp
    show ?thesis
    proof (cases "info_dict E st3 mi mtime (Some src)")
      case (Inl e)
      with ok(2) S(1) show ?thesis by auto
    next
      case (Inr dct)
      show ?thesis
      proof (cases "get_backend E")
        case None
        with ok(2) Inr S(1) show ?thesis by auto
      next
        case (Some b)
        with ok(2) Inr have
          "iobind (backend_update_metadata E b st3 tmp (Some dct)) (\<lambda>r st4.
             iobind (os_chmod st4 tmp 384) (\<lambda>u st5.
               iobind (os_rename st5 tmp dest) (\<lambda>u st6. (Inr dest, st6)))) = (r, st')"
          by simp
        then show ?thesis
        proof (cases rule: iobind_cases)
          case (err e)
          from backend_update_metadata_delta(1) [OF err(1)] N3 S(1) err(2) show ?thesis
            by (auto intro: delta_ok_trans delta_ok_mono)
        next
          case (ok r4 st4)
          have 4: "delta_ok ?N st st4"
            using backend_update_metadata_delta(1) [OF ok(1)] N3 S(1)
            by (auto intro: delta_ok_trans delta_ok_mono)
          from ok(2) show ?thesis
          proof (cases rule: iobind_cases)
            case (err e)
            from os_chmod_delta(1) [OF err(1), of ?N] 4 err(2) show ?thesis
              by (auto intro: delta_ok_trans)
          next
            case (ok u st5)
            have 5: "delta_ok ?N st st5"
              using os_chmod_delta(1) [OF ok(1), of ?N] 4 by (auto intro: delta_ok_trans)
            from ok(2) obtain r6 where rn: "os_rename st5 tmp dest = (r6, st')"
              and r: "(\<exists>e. r = Inl e \<and> r6 = Inl e) \<or> (r = Inr dest \<and> (\<exists>v. r6 = Inr v))"
              by (cases rule: iobind_cases) auto
            have 6: "delta_ok ?N st st'"
              using os_rename_delta(1) [OF rn, of ?N] 5 by (auto intro: delta_ok_trans)
            have "ends_with_rename st st' dest" if "r = Inr d" for d
            proof -
              from that r obtain v where "r6 = Inr v" by auto
              then have "ends_with_rename st5 st' dest" using os_rename_delta(3) [OF rn] by simp
              with 5 show ?thesis by (rule ends_with_rename_after)
            qed
            with 6 r show ?thesis by auto
          qed
        qed
      qed
    qed
  qed
  then show "delta_ok ?N st st'" "r = Inr d \<Longrightarrow> d = dest \<and> ends_with_rename st st' dest"
    by blast+
qed

text \<open>
In a file system whose temporary names contain no slash, whatever \<^verbatim>\<open>put_fail\<close>,
  \<^verbatim>\<open>create_thumbnail\<close>, \<^verbatim>\<open>put_thumbnail\<close> and a backend's \<^verbatim>\<open>update_metadata\<close> log,
  returning or raising: every image written goes into a file that \<^verbatim>\<open>mkstemp\<close> created
  during the call, under a temporary name in the directory of the destination (for
  \<^verbatim>\<open>create_thumbnail\<close> with an application name, also of the fail marker), and a call
  that returns a path logs a rename onto the destination last. This bounds the log;
  what the calls do log is in the section on the runs of the writers.
\<close>

lemma writers_keep_temp_discipline:
  assumes "\<forall>n \<in> set (tmpnames st). CHR ''/'' \<notin> set n"
  shows "(\<forall>r st'. put_fail E st src a mtime mi = (r, st') \<longrightarrow>
            delta_ok (temp_names st (dirname (fail_path E src a))) st st'
            \<and> (\<forall>d. r = Inr d \<longrightarrow> ends_with_rename st st' (fail_path E src a)))
       \<and> (\<forall>r st' px dest. create_thumbnail E st src sz mi app = (r, st')
              \<and> ebind (any2size sz) subscript0 = Inr px
              \<and> build_thumbnail_path E src (PyInt px) = Inr dest \<longrightarrow>
            delta_ok (temp_names st (dirname dest)
                      \<union> (case app of None \<Rightarrow> {}
                         | Some a' \<Rightarrow> temp_names st (dirname (fail_path E src a')))) st st'
            \<and> (\<forall>d. r = Inr (Some d) \<longrightarrow> d = dest \<and> ends_with_rename st st' dest))
       \<and> (\<forall>r st' dest. put_thumbnail E st src sz thumb mtime mi = (r, st')
              \<and> build_thumbnail_path E src sz = Inr dest \<longrightarrow>
            delta_ok (temp_names st (dirname dest)) st st'
            \<and> (\<forall>d. r = Inr d \<longrightarrow> d = dest \<and> ends_with_rename st st' dest))
       \<and> (\<forall>r st' b p. backend_update_metadata E b st p mi = (r, st') \<longrightarrow>
            delta_ok (temp_names st (dirname p)) st st'
            \<and> (\<forall>d. r = Inr (Some d) \<longrightarrow> ends_with_rename st st' p))
       \<and> (\<forall>N st' ops dest. delta_ok N st st' \<and> dest \<notin> N \<and> trace st' = trace st @ ops \<longrightarrow>
            Written dest \<notin> set ops)"
proof -
  have 1: "\<forall>r st'. put_fail E st src a mtime mi = (r, st') \<longrightarrow>
            delta_ok (temp_names st (dirname (fail_path E src a))) st st'
            \<and> (\<forall>d. r = Inr d \<longrightarrow> ends_with_rename st st' (fail_path E src a))"
    using put_fail_delta(1,3) by blast
  have 2: "\<forall>r st' px dest. create_thumbnail E st src sz mi app = (r, st')
              \<and> ebind (any2size sz) subscript0 = Inr px
              \<and> build_thumbnail_path E src (PyInt px) = Inr dest \<longrightarrow>
            delta_ok (temp_names st (dirname dest)
                      \<union> (case app of None \<Rightarrow> {}
                         | Some a' \<Rightarrow> temp_names st (dirname (fail_path E src a')))) st st'
            \<and> (\<forall>d. r = Inr (Some d) \<longrightarrow> d = dest \<and> ends_with_rename st st' dest)"
  proof (intro allI impI, elim conjE)
    fix r st' px dest
    assume c: "create_thumbnail E st src sz mi app = (r, st')"
      and px: "ebind (any2size sz) subscript0 = Inr px"
      and dest: "build_thumbnail_path E src (PyInt px) = Inr dest"
    show "delta_ok (temp_names st (dirname dest)
                    \<union> (case app of None \<Rightarrow> {}
                       | Some a' \<Rightarrow> temp_names st (dirname (fail_path E src a')))) st st'
          \<and> (\<forall>d. r = Inr (Some d) \<longrightarrow> d = dest \<and> ends_with_rename st st' dest)"
      using create_thumbnail_delta(1) [OF c px dest] create_thumbnail_delta(2) [OF c px dest]
      by blast
  qed
  have 3: "\<forall>r st' dest. put_thumbnail E st src sz thumb mtime mi = (r, st')
              \<and> build_thumbnail_path E src sz = Inr dest \<longrightarrow>
            delta_ok (temp_names st (dirname dest)) st st'
            \<and> (\<forall>d. r = Inr d \<longrightarrow> d = dest \<and> ends_with_rename st st' dest)"
  proof (intro allI impI, elim conjE)
    fix r st' dest
    assume p: "put_thumbnail E st src sz thumb mtime mi = (r, st')"
      and dest: "build_thumbnail_path E src sz = Inr dest"
    show "delta_ok (temp_names st (dirname dest)) st st'
          \<and> (\<forall>d. r = Inr d \<longrightarrow> d = dest \<and> ends_with_rename st st' dest)"
      using put_thumbnail_delta(1) [OF p dest assms] put_thumbnail_delta(2) [OF p dest assms]
      by blast
  qed
  have 4: "\<forall>r st' b p. backend_update_metadata E b st p mi = (r, st') \<longrightarrow>
            delta_ok (temp_names st (dirname p)) st st'
            \<and> (\<forall>d. r = Inr (Some d) \<longrightarrow> ends_with_rename st st' p)"
    using backend_update_metadata_delta(1,3) by blast
  have 5: "\<forall>N st' ops dest. delta_ok N st st' \<and> dest \<notin> N \<and> trace st' = trace st @ ops \<longrightarrow>
            Written dest \<notin> set ops"
    using delta_ok_never_written by blast
  show ?thesis
    by (rule conjI [OF 1 conjI [OF 2 conjI [OF 3 conjI [OF 4 5]]]])
qed

lemma writers_keep_temp_discipline_fresh:
  "tmpnames fs_fresh = [''k3x9q2ab'', ''w7m1c5zz'', ''p0d8e4rt'']
   \<and> fst (put_fail (env_with only_pil) fs_fresh ''/tmp/a.jpg'' ''app-1.0'' (Some 100) None)
       = Inr (Some fail_a)
   \<and> delta_ok (temp_names fs_fresh (dirname fail_a)) fs_fresh
        (snd (put_fail (env_with only_pil) fs_fresh ''/tmp/a.jpg'' ''app-1.0'' (Some 100) None))
   \<and> ends_with_rename fs_fresh
        (snd (put_fail (env_with only_pil) fs_fresh ''/tmp/a.jpg'' ''app-1.0'' (Some 100) None))
        fail_a
   \<and> delta_ok (temp_names fs_fresh (dirname large_a)) fs_fresh
        (snd (put_thumbnail (env_with only_pil) fs_fresh ''/tmp/a.jpg'' (PyStr ''large'')
                ''/tmp/a.jpg'' (Some 100) None))"
proof -
  let ?E = "env_with only_pil"
  let ?run = "put_fail ?E fs_fresh ''/tmp/a.jpg'' ''app-1.0'' (Some 100) None"
  let ?put = "put_thumbnail ?E fs_fresh ''/tmp/a.jpg'' (PyStr ''large'') ''/tmp/a.jpg''
                (Some 100) None"
  note T = writers_keep_temp_discipline [OF no_slash_fresh, of ?E "''/tmp/a.jpg''" "''app-1.0''"
      "Some 100" None "PyStr ''large''" None "''/tmp/a.jpg''"]
  have run: "?run = (Inr (Some fail_a), snd ?run)"
    using put_fail_fresh [of None] by (simp add: prod_eq_iff)
  have put: "?put = (fst ?put, snd ?put)" by simp
  have names: "tmpnames fs_fresh = [''k3x9q2ab'', ''w7m1c5zz'', ''p0d8e4rt'']"
    by (simp add: fs_fresh_def fs_of_def)
  from T have F: "\<forall>r st'. ?run = (r, st') \<longrightarrow>
            delta_ok (temp_names fs_fresh (dirname (fail_path ?E ''/tmp/a.jpg'' ''app-1.0'')))
              fs_fresh st'
            \<and> (\<forall>d. r = Inr d \<longrightarrow> ends_with_rename fs_fresh st' (fail_path ?E ''/tmp/a.jpg'' ''app-1.0''))"
    by (rule conjunct1)
  from T have P: "\<forall>r st' dest. ?put = (r, st')
              \<and> build_thumbnail_path ?E ''/tmp/a.jpg'' (PyStr ''large'') = Inr dest \<longrightarrow>
            delta_ok (temp_names fs_fresh (dirname dest)) fs_fresh st'
            \<and> (\<forall>d. r = Inr d \<longrightarrow> d = dest \<and> ends_with_rename fs_fresh st' dest)"
    by (rule conjunct1 [OF conjunct2 [OF conjunct2]])
  have a: "delta_ok (temp_names fs_fresh (dirname fail_a)) fs_fresh (snd ?run)"
    and b: "ends_with_rename fs_fresh (snd ?run) fail_a"
    using F run by (auto simp: fail_path_a)
  have c: "delta_ok (temp_names fs_fresh (dirname large_a)) fs_fresh (snd ?put)"
    using P put large_path_a [of only_pil] by blast
  show ?thesis using names put_fail_fresh [of None] a b c by blast
qed

section \<open>The older module writes in place\<close>

lemma mkdir_chain_trace:
  "mkdir_chain st ds = (r, st1) \<Longrightarrow> \<exists>made. trace st1 = trace st @ map MadeDir made"
proof (induction ds arbitrary: st)
  case Nil
  then show ?case by simp
next
  case (Cons d ds)
  show ?case
  proof (cases "nodes st d")
    case None
    with Cons.prems have "mkdir_chain (new_dir st d) ds = (r, st1)" by simp
    from Cons.IH [OF this] obtain made where
      "trace st1 = trace (new_dir st d) @ map MadeDir made" by blast
    then have "trace st1 = trace st @ map MadeDir (d # made)"
      by (simp add: new_dir_def)
    then show ?thesis by blast
  next
    case (Some n)
    with Cons.prems Cons.IH [of st] show ?thesis
      by (auto split: if_splits)
  qed
qed

lemma os_makedirs_trace:
  assumes "os_makedirs st p = (r, st1)"
  shows "\<exists>made. trace st1 = trace st @ map MadeDir made"
  using assms unfolding os_makedirs_def Let_def
proof (cases rule: iobind_cases)
  case (err e)
  then show ?thesis using mkdir_chain_trace by blast
next
  case (ok v s)
  from mkdir_chain_trace [OF ok(1)] obtain made where m: "trace s = trace st @ map MadeDir made"
    by blast
  show ?thesis
  proof (cases "path_exists s (strip_trailing p)")
    case True
    with ok(2) m show ?thesis by auto
  next
    case False
    with ok(2) m have "trace st1 = trace st @ map MadeDir (made @ [strip_trailing p])"
      by (auto simp: new_dir_def)
    then show ?thesis by blast
  qed
qed

text \<open>
\<^verbatim>\<open>thumbnail.py\<close>, for comparison: its \<^verbatim>\<open>put_thumbnail\<close> and \<^verbatim>\<open>put_fail\<close> save the image
  at the destination itself, with no temporary file and no rename.
\<close>

lemma legacy_put_thumbnail_in_place:
  assumes "legacy_put_thumbnail int_of_str E st origname thumbpath sz mtime mi = (Inr dest, st')"
  shows "trace st' = trace st @ [Written dest]" "\<not> temp_discipline {} [Written dest]"
  using assms
  by (auto simp: legacy_put_thumbnail_def elim!: iobind_Inr_E dest: save_image_Inr(2)
      split: option.splits sum.splits)

lemma legacy_put_fail_in_place:
  assumes "legacy_put_fail E st origname appname mtime mi = (Inr u, st')"
  shows "\<exists>ops dest. trace st' = trace st @ ops @ [Written dest] \<and> Created dest \<notin> set ops"
proof -
  from assms obtain v st1 where
    m: "(if \<not> isdir st (path_join (path_join (legacy_thumb_path_prefix E) ''fail'') appname)
         then os_makedirs st (path_join (path_join (legacy_thumb_path_prefix E) ''fail'') appname)
         else (Inr (), st)) = (Inr v, st1)"
    and rest: "(case (case mtime of None \<Rightarrow> getmtime st1 (Some origname) | Some m \<Rightarrow> Inr m) of
                  Inl e \<Rightarrow> (Inl e, st1)
                | Inr m \<Rightarrow>
                    save_image E st1
                      (path_join (path_join (path_join (legacy_thumb_path_prefix E) ''fail'') appname)
                         (md5_hexdigest E (legacy_any2uri E origname) @ ''.png''))
                      (1, 1)
                      (legacy_create_pnginfo (legacy_any2uri E origname) m mi)) = (Inr u, st')"
    unfolding legacy_put_fail_def Let_def by (auto elim!: iobind_Inr_E)
  let ?dest = "path_join (path_join (path_join (legacy_thumb_path_prefix E) ''fail'') appname)
                 (md5_hexdigest E (legacy_any2uri E origname) @ ''.png'')"
  from rest have w: "trace st' = trace st1 @ [Written ?dest]"
    by (auto split: sum.splits dest: save_image_Inr(2))
  have "\<exists>ds. trace st1 = trace st @ map MadeDir ds"
  proof (cases "isdir st (path_join (path_join (legacy_thumb_path_prefix E) ''fail'') appname)")
    case True
    with m show ?thesis by auto
  next
    case False
    with m have "os_makedirs st (path_join (path_join (legacy_thumb_path_prefix E) ''fail'')
                   appname) = (Inr v, st1)"
      by simp
    then show ?thesis by (rule os_makedirs_trace)
  qed
  then obtain ds where "trace st1 = trace st @ map MadeDir ds" by blast
  with w have "trace st' = trace st @ map MadeDir ds @ [Written ?dest]"
    "Created ?dest \<notin> set (map MadeDir ds)"
    by auto
  then show ?thesis by blast
qed

lemma legacy_uri_a: "legacy_any2uri (env_with a) ''/tmp/a.jpg'' = ''file:///tmp/a.jpg''"
  by code_simp

lemma legacy_large_path_a:
  "legacy_thumbnail_path f (env_with a) ''/tmp/a.jpg'' (PyStr ''large'') = Inr large_a"
  by (simp add: legacy_thumbnail_path_def legacy_uri_a py_truth_def legacy_any2size_def
      legacy_thumb_path_prefix_def Let_def)
     (simp add: env_with_def md5_table_def path_join_def startswith_def large_a_def)

lemma legacy_fail_dir:
  "path_join (path_join (legacy_thumb_path_prefix (env_with a)) ''fail'') ''app-1.0''
     = ''/home/u/.cache/thumbnails/fail/app-1.0''"
  "path_join ''/home/u/.cache/thumbnails/fail/app-1.0''
     (md5_hexdigest (env_with a) ''file:///tmp/a.jpg'' @ ''.png'') = fail_a"
  by (simp_all add: legacy_thumb_path_prefix_def env_with_def md5_table_def path_join_def
      startswith_def fail_a_def)

lemma legacy_put_thumbnail_preview:
  "legacy_put_thumbnail f (env_with only_pil) fs_preview ''/tmp/a.jpg'' (Some preview_png)
     (Some (PyStr ''large'')) (Some 100) None
   = (Inr large_a,
      fs_preview\<lparr>nodes := (nodes fs_preview)(large_a \<mapsto>
           \<lparr>body = Image (256, 256) [KEY_URI \<mapsto> ''file:///tmp/a.jpg'', KEY_MTIME \<mapsto> ''100''],
            st_mtime = clock fs_preview,
            st_size = encoded_size (env_with only_pil) (256, 256)
                        [KEY_URI \<mapsto> ''file:///tmp/a.jpg'', KEY_MTIME \<mapsto> ''100'']\<rparr>),
         trace := [Written large_a]\<rparr>)"
  by (simp add: legacy_put_thumbnail_def preview_facts legacy_large_path_a save_image_def
      dirname_large_a legacy_create_pnginfo_def legacy_uri_a dict_or_empty_def str_int_100
      log_op_def)

lemma legacy_put_fail_preview:
  "legacy_put_fail (env_with only_pil) fs_preview ''/tmp/a.jpg'' ''app-1.0'' (Some 100) None
   = (Inr (),
      fs_preview\<lparr>nodes := (nodes fs_preview)(fail_a \<mapsto>
           \<lparr>body = Image (1, 1) [KEY_URI \<mapsto> ''file:///tmp/a.jpg'', KEY_MTIME \<mapsto> ''100''],
            st_mtime = clock fs_preview,
            st_size = encoded_size (env_with only_pil) (1, 1)
                        [KEY_URI \<mapsto> ''file:///tmp/a.jpg'', KEY_MTIME \<mapsto> ''100'']\<rparr>),
         trace := [Written fail_a]\<rparr>)"
  by (simp add: legacy_put_fail_def Let_def legacy_fail_dir legacy_uri_a preview_facts
      save_image_def dirname_fail_a legacy_create_pnginfo_def dict_or_empty_def str_int_100
      log_op_def)

text \<open>
C8. The claim: every operation that creates or updates a cache entry writes a
  uniquely named temporary file in the directory of the destination and renames it onto
  the destination, which is never written directly. The code: the older module's
  \<^verbatim>\<open>put_thumbnail\<close> and \<^verbatim>\<open>put_fail\<close> log a single operation, a write at the
  destination itself. On the same file system and arguments, \<^verbatim>\<open>put_thumbnail\<close>,
  \<^verbatim>\<open>put_fail\<close> and \<^verbatim>\<open>create_thumbnail\<close> of this module create a temporary file in
  the directory of the destination, write it and rename it onto the destination;
  \<^verbatim>\<open>put_thumbnail\<close> moves the caller's file onto a first temporary file and
  \<^verbatim>\<open>update_metadata\<close> rewrites that one through a second.
\<close>

theorem older_writers_save_in_place:
  "fst (legacy_put_thumbnail f (env_with only_pil) fs_preview ''/tmp/a.jpg'' (Some preview_png)
          (Some (PyStr ''large'')) (Some 100) None) = Inr large_a
   \<and> trace (snd (legacy_put_thumbnail f (env_with only_pil) fs_preview ''/tmp/a.jpg''
                   (Some preview_png) (Some (PyStr ''large'')) (Some 100) None))
       = [Written large_a]
   \<and> fst (legacy_put_fail (env_with only_pil) fs_preview ''/tmp/a.jpg'' ''app-1.0'' (Some 100)
            None) = Inr ()
   \<and> trace (snd (legacy_put_fail (env_with only_pil) fs_preview ''/tmp/a.jpg'' ''app-1.0''
                   (Some 100) None))
       = [Written fail_a]
   \<and> fst (put_thumbnail (env_with only_pil) fs_preview ''/tmp/a.jpg'' (PyStr ''large'')
            preview_png (Some 100) None) = Inr large_a
   \<and> trace (snd (put_thumbnail (env_with only_pil) fs_preview ''/tmp/a.jpg'' (PyStr ''large'')
                   preview_png (Some 100) None))
       = [Created ''/home/u/.cache/thumbnails/large/tmpk3x9q2ab.png'',
          Chmod ''/home/u/.cache/thumbnails/large/tmpk3x9q2ab.png'' 384,
          Moved preview_png ''/home/u/.cache/thumbnails/large/tmpk3x9q2ab.png'',
          Created ''/home/u/.cache/thumbnails/large/tmpw7m1c5zz.png'',
          Chmod ''/home/u/.cache/thumbnails/large/tmpw7m1c5zz.png'' 384,
          Written ''/home/u/.cache/thumbnails/large/tmpw7m1c5zz.png'',
          Renamed ''/home/u/.cache/thumbnails/large/tmpw7m1c5zz.png''
            ''/home/u/.cache/thumbnails/large/tmpk3x9q2ab.png'',
          Chmod ''/home/u/.cache/thumbnails/large/tmpk3x9q2ab.png'' 384,
          Renamed ''/home/u/.cache/thumbnails/large/tmpk3x9q2ab.png'' large_a]
   \<and> fst (put_fail (env_with only_pil) fs_preview ''/tmp/a.jpg'' ''app-1.0'' (Some 100) None)
       = Inr (Some fail_a)
   \<and> trace (snd (put_fail (env_with only_pil) fs_preview ''/tmp/a.jpg'' ''app-1.0'' (Some 100)
                   None))
       = [Created ''/home/u/.cache/thumbnails/fail/app-1.0/tmpk3x9q2ab.png'',
          Chmod ''/home/u/.cache/thumbnails/fail/app-1.0/tmpk3x9q2ab.png'' 384,
          Written ''/home/u/.cache/thumbnails/fail/app-1.0/tmpk3x9q2ab.png'',
          Renamed ''/home/u/.cache/thumbnails/fail/app-1.0/tmpk3x9q2ab.png'' fail_a]
   \<and> fst (create_thumbnail (env_with only_pil) fs_preview ''/tmp/a.jpg'' (PyStr ''large'')
            None None) = Inr (Some large_a)
   \<and> trace (snd (create_thumbnail (env_with only_pil) fs_preview ''/tmp/a.jpg''
                   (PyStr ''large'') None None))
       = [Created ''/home/u/.cache/thumbnails/large/tmpk3x9q2ab.png'',
          Chmod ''/home/u/.cache/thumbnails/large/tmpk3x9q2ab.png'' 384,
          Written ''/home/u/.cache/thumbnails/large/tmpk3x9q2ab.png'',
          Renamed ''/home/u/.cache/thumbnails/large/tmpk3x9q2ab.png'' large_a]"
proof -
  obtain e where e: "info_dict (env_with only_pil) fs_preview None (Some 100)
                       (Some ''/tmp/a.jpg'') = Inr e"
    by (simp add: info_dict_def any2mtime_def int_float_small)
  show ?thesis
    by (simp add: legacy_put_thumbnail_preview legacy_put_fail_preview
        put_thumbnail_preview [OF pil_backend e refl] put_fail_preview [OF pil_backend e]
        create_thumbnail_preview [OF pil_backend info_dict_default_a [OF preview_facts(2)]])
qed

end
